theory Spec2Isabelle
  imports Complex_Main
begin

section \<open>Resolution of training arguments (chemprop/parsing.py)\<close>

text \<open>
  The theory embeds \<^verbatim>\<open>update_args_from_checkpoint_dir\<close> and \<^verbatim>\<open>modify_train_args\<close>
  of \<^verbatim>\<open>chemprop/parsing.py\<close>. The Python functions mutate one \<^verbatim>\<open>Namespace\<close> and
  either return or raise; here each block of statements is a function from the namespace
  to an error or the updated namespace, and the blocks are chained in the order of the
  source.

  Scope of the model.
  \<^item> Rates and dropouts are Python floats; they are modelled as real numbers, so the
    rounding of a floating-point product is not represented.
  \<^item> Lists are values: the in-place updates of lines 394 to 399 are updates of the field
    they are reached through. A namespace built by \<^verbatim>\<open>parse_args\<close> holds a separate
    list object for each of the six rate options, and \<^verbatim>\<open>parse_train_args\<close> builds a new
    parser, and with it new default lists, at every call; for such a namespace the
    updates of the objects and the updates of the fields agree (\<open>in_place_agrees\<close>
    below).
  \<^item> The \<^verbatim>\<open>assert\<close> statements are executed (the interpreter runs without \<^verbatim>\<open>-O\<close>).
  \<^item> The filesystem is a tree of regular files and sub-directories that can be listed;
    symbolic links and unreadable directories are not represented. It is the filesystem
    as the calls after line 325 see it, that is, with the save directory in place.
  \<^item> Options that \<^verbatim>\<open>modify_train_args\<close> neither reads nor writes are left out of the
    record.
\<close>

subsection \<open>Paths and the directory tree\<close>

text \<open>\<^verbatim>\<open>os.path.join(a, b)\<close> of \<^verbatim>\<open>posixpath\<close>, for two components.\<close>

definition path_join :: "string \<Rightarrow> string \<Rightarrow> string" where
  "path_join a b =
     (if b \<noteq> [] \<and> hd b = CHR ''/'' then b
      else if a = [] \<or> last a = CHR ''/'' then a @ b
      else a @ ''/'' @ b)"

datatype node = File | Dir "(string \<times> node) list"

fun is_dir_node :: "node \<Rightarrow> bool" where
  "is_dir_node File = False"
| "is_dir_node (Dir es) = True"

definition dirnames :: "(string \<times> node) list \<Rightarrow> string list" where
  "dirnames es = map fst (filter (\<lambda>e. is_dir_node (snd e)) es)"

definition filenames :: "(string \<times> node) list \<Rightarrow> string list" where
  "filenames es = map fst (filter (\<lambda>e. \<not> is_dir_node (snd e)) es)"

text \<open>
  \<^verbatim>\<open>os.walk(d)\<close>, top-down, as the list of the triples it yields: the directory
  itself first, then the walk of each sub-directory in the order of the listing. A path
  that cannot be listed (a regular file) yields nothing: \<^verbatim>\<open>os.walk\<close> swallows the
  error of \<^verbatim>\<open>scandir\<close>.
\<close>

fun walk :: "string \<Rightarrow> node \<Rightarrow> (string \<times> string list \<times> string list) list"
  and walk_subdirs :: "string \<Rightarrow> (string \<times> node) list \<Rightarrow> (string \<times> string list \<times> string list) list"
where
  "walk d File = []"
| "walk d (Dir es) = (d, dirnames es, filenames es) # walk_subdirs d es"
| "walk_subdirs d [] = []"
| "walk_subdirs d (e # es) =
     (if is_dir_node (snd e) then walk (path_join d (fst e)) (snd e) else [])
       @ walk_subdirs d es"

subsection \<open>The environment\<close>

text \<open>
  What the function reads from outside the namespace: whether \<^verbatim>\<open>os.makedirs(p,
  exist_ok=True)\<close> succeeds, the name of the directory \<^verbatim>\<open>TemporaryDirectory()\<close>
  creates (\<open>None\<close> when it fails), \<^verbatim>\<open>torch.cuda.is_available()\<close>, and the node a path
  resolves to, if any.
\<close>

record env =
  makedirs_ok :: "string \<Rightarrow> bool"
  new_temp_dir :: "string option"
  cuda_is_available :: bool
  fs_lookup :: "string \<Rightarrow> node option"

definition path_exists :: "env \<Rightarrow> string \<Rightarrow> bool" where
  "path_exists env p = (fs_lookup env p \<noteq> None)"

definition path_isdir :: "env \<Rightarrow> string \<Rightarrow> bool" where
  "path_isdir env p = (case fs_lookup env p of Some nd \<Rightarrow> is_dir_node nd | None \<Rightarrow> False)"

definition os_walk :: "env \<Rightarrow> string \<Rightarrow> (string \<times> string list \<times> string list) list" where
  "os_walk env d = (case fs_lookup env d of Some nd \<Rightarrow> walk d nd | None \<Rightarrow> [])"

subsection \<open>The namespace\<close>

text \<open>
  An attribute that the code deletes, creates or tests with \<^verbatim>\<open>hasattr\<close> is either
  absent or present with a value. Every other option is set by \<^verbatim>\<open>parse_args\<close> (to
  \<^verbatim>\<open>None\<close> where it has no default and was not given) and is a plain field.
\<close>

datatype 'a attr = Absent | Present 'a

text \<open>The values \<^verbatim>\<open>use_input_features\<close> can hold, with Python's truth value.\<close>

datatype pyval = PyNone | PyBool bool | PyStr string | PyStrList "string list"

fun truthy :: "pyval \<Rightarrow> bool" where
  "truthy PyNone = False"
| "truthy (PyBool b) = b"
| "truthy (PyStr s) = (s \<noteq> [])"
| "truthy (PyStrList l) = (l \<noteq> [])"

record namespace =
  save_dir :: "string option"
  no_cuda :: "bool attr"
  no_target_scaling :: "bool attr"
  no_features_scaling :: "bool attr"
  cuda :: "bool attr"
  target_scaling :: "bool attr"
  features_scaling :: "bool attr"
  metric :: "string option"
  dataset_type :: string
  bert_vocab_func :: string
  kernel_func :: "string option"
  minimize_score :: "bool attr"
  checkpoint_dir :: "string option"
  checkpoint_paths :: "string list option attr"
  ensemble_size :: int
  jtnn :: bool
  vocab_path :: "string option attr"
  features_generator :: "string list option"
  features_path :: "string option"
  use_input_features :: "pyval attr"
  predict_features_and_task :: bool
  predict_features :: bool
  features_only :: bool
  separate_ffn_lr :: bool
  num_lrs :: "int attr"
  init_lr :: "real list"
  max_lr :: "real list"
  final_lr :: "real list"
  lr_scaler :: "real list attr"
  warmup_epochs :: "real list"
  weight_decay :: "real list"
  ffn_num_layers :: int
  ffn_hidden_size :: "int option"
  hidden_size :: int
  ffn_input_dropout :: "real option"
  dropout :: real
  ffn_dropout :: "real option"
  split_type :: string
  scaffold_overlap :: "real option"
  folds_file :: "string option"
  test_fold_index :: "int option"
  test :: bool
  epochs :: int
  data_path :: string
  prespecified_chunk_dir :: "string option attr"

subsection \<open>Errors\<close>

text \<open>
  The source raises \<^verbatim>\<open>ValueError\<close> (with a message) and \<^verbatim>\<open>AssertionError\<close>. The
  constructors name the raising statement by the kind that section 7 of the
  specification gives it, and a \<^verbatim>\<open>ValueError\<close> carries its formatted message:
  \<^item> \<open>UnsupportedKernelFunctionError\<close>: the \<^verbatim>\<open>ValueError\<close> of line 351;
  \<^item> \<open>IncompatibleMetricError\<close>: the \<^verbatim>\<open>ValueError\<close> of line 359;
  \<^item> \<open>NoCheckpointsFoundError\<close>: the \<^verbatim>\<open>ValueError\<close> of line 314;
  \<^item> \<open>MissingVocabularyError\<close>: the \<^verbatim>\<open>ValueError\<close> of lines 367 and 369;
  \<^item> \<open>IncompatibleModeError\<close>: the assertions of lines 374 and 382;
  \<^item> \<open>MissingFeatureSourceError\<close>: the assertion of line 378;
  \<^item> \<open>InvalidGroupCountError\<close>: the assertion of line 391;
  \<^item> \<open>InvalidLayerCountError\<close>: the assertion of line 403;
  \<^item> \<open>InvalidSplitConfigurationError\<close>: the assertions of lines 412 and 413.

  The last four are exceptions of the interpreter and the library that the code does not
  raise itself: \<^verbatim>\<open>OSError\<close> from \<^verbatim>\<open>os.makedirs\<close> or \<^verbatim>\<open>TemporaryDirectory\<close>,
  \<^verbatim>\<open>AttributeError\<close> from reading or deleting an absent attribute, \<^verbatim>\<open>TypeError\<close>
  from \<^verbatim>\<open>os.path.exists(None)\<close>, and \<^verbatim>\<open>IndexError\<close> from indexing a list out of range.
\<close>

datatype error =
    UnsupportedKernelFunctionError string
  | IncompatibleMetricError string
  | NoCheckpointsFoundError string
  | MissingVocabularyError string
  | IncompatibleModeError
  | MissingFeatureSourceError
  | InvalidGroupCountError
  | InvalidLayerCountError
  | InvalidSplitConfigurationError
  | PyOSError
  | PyAttributeError
  | PyTypeError
  | PyIndexError

definition then_step :: "error + 'a \<Rightarrow> ('a \<Rightarrow> error + 'b) \<Rightarrow> error + 'b" where
  "then_step r f = (case r of Inl e \<Rightarrow> Inl e | Inr a \<Rightarrow> f a)"

text \<open>\<^verbatim>\<open>x in [..]\<close> for an option that may be \<^verbatim>\<open>None\<close>, and \<^verbatim>\<open>str(x)\<close> of it.\<close>

definition py_in :: "string option \<Rightarrow> string list \<Rightarrow> bool" where
  "py_in x l = (case x of None \<Rightarrow> False | Some s \<Rightarrow> s \<in> set l)"

definition py_str :: "string option \<Rightarrow> string" where
  "py_str x = (case x of None \<Rightarrow> ''None'' | Some s \<Rightarrow> s)"

definition dq :: string where
  "dq = [CHR 0x22]"

subsection \<open>The save directory and the negative flags (lines 321 to 334)\<close>

definition save_dir_step :: "env \<Rightarrow> namespace \<Rightarrow> error + namespace" where
  "save_dir_step env a =
     (case save_dir a of
        Some d \<Rightarrow> if makedirs_ok env d then Inr a else Inl PyOSError
      | None \<Rightarrow>
          (case new_temp_dir env of
             None \<Rightarrow> Inl PyOSError
           | Some t \<Rightarrow> Inr (a\<lparr>save_dir := Some t\<rparr>)))"

definition invert_flags :: "env \<Rightarrow> namespace \<Rightarrow> error + namespace" where
  "invert_flags env a =
     (case no_cuda a of
        Absent \<Rightarrow> Inl PyAttributeError
      | Present nc \<Rightarrow>
     (case no_target_scaling a of
        Absent \<Rightarrow> Inl PyAttributeError
      | Present nt \<Rightarrow>
     (case no_features_scaling a of
        Absent \<Rightarrow> Inl PyAttributeError
      | Present nf \<Rightarrow>
          Inr (a\<lparr>cuda := Present (\<not> nc \<and> cuda_is_available env), no_cuda := Absent,
                 target_scaling := Present (\<not> nt), no_target_scaling := Absent,
                 features_scaling := Present (\<not> nf), no_features_scaling := Absent\<rparr>))))"

subsection \<open>The metric (lines 336 to 361)\<close>

definition default_metric :: "namespace \<Rightarrow> error + namespace" where
  "default_metric a =
     (if metric a = None then
        if dataset_type a = ''classification'' then Inr (a\<lparr>metric := Some ''auc''\<rparr>)
        else if dataset_type a = ''unsupervised'' then Inr (a\<lparr>metric := Some ''log_loss''\<rparr>)
        else if dataset_type a = ''bert_pretraining'' then
          if bert_vocab_func a = ''feature_vector'' then Inr (a\<lparr>metric := Some ''rmse''\<rparr>)
          else if \<not> py_in (metric a) [''log_loss'', ''argmax_accuracy'', ''majority_baseline_accuracy'']
            then Inr (a\<lparr>metric := Some ''log_loss''\<rparr>)
            else Inr a
        else if dataset_type a = ''kernel'' then
          if py_in (kernel_func a) [''features'', ''features_dot'', ''WL'']
            then Inr (a\<lparr>metric := Some ''rmse''\<rparr>)
            else Inl (UnsupportedKernelFunctionError
                   (''metric not implemented for kernel function '' @ dq @ py_str (kernel_func a) @ dq @ ''.''))
        else Inr (a\<lparr>metric := Some ''rmse''\<rparr>)
      else Inr a)"

definition check_metric :: "namespace \<Rightarrow> error + namespace" where
  "check_metric a =
     (if \<not> (dataset_type a = ''classification'' \<and> py_in (metric a) [''auc'', ''prc-auc'', ''accuracy'']
            \<or> (dataset_type a = ''regression'' \<or> dataset_type a = ''regression_with_binning'')
                \<and> py_in (metric a) [''rmse'', ''mae'', ''r2'']
            \<or> dataset_type a = ''kernel'' \<and> py_in (metric a) [''rmse''])
         \<and> \<not> dataset_type a \<in> set [''unsupervised'', ''bert_pretraining'']
      then Inl (IncompatibleMetricError
             (''Metric '' @ dq @ py_str (metric a) @ dq @ '' invalid for dataset type ''
                @ dq @ dataset_type a @ dq @ ''.''))
      else Inr a)"

definition set_minimize_score :: "namespace \<Rightarrow> error + namespace" where
  "set_minimize_score a =
     Inr (a\<lparr>minimize_score := Present (py_in (metric a) [''rmse'', ''mae'', ''log_loss''])\<rparr>)"

subsection \<open>Checkpoint discovery (lines 298 to 314)\<close>

definition model_files :: "(string \<times> string list \<times> string list) \<Rightarrow> string list" where
  "model_files t =
     (case t of (r, _, files) \<Rightarrow> map (path_join r) (filter (\<lambda>fname. fname = ''model.pt'') files))"

definition update_args_from_checkpoint_dir :: "env \<Rightarrow> namespace \<Rightarrow> error + namespace" where
  "update_args_from_checkpoint_dir env a =
     (case checkpoint_dir a of
        None \<Rightarrow> Inr (a\<lparr>checkpoint_paths := Present None\<rparr>)
      | Some d \<Rightarrow>
          (let paths = concat (map model_files (os_walk env d));
               a' = a\<lparr>checkpoint_paths := Present (Some paths), ensemble_size := int (length paths)\<rparr>
           in if ensemble_size a' = 0
              then Inl (NoCheckpointsFoundError
                     (''Failed to find any model checkpoints in directory '' @ dq @ d @ dq))
              else Inr a'))"

subsection \<open>Junction tree vocabulary (lines 365 to 369)\<close>

text \<open>
  \<^verbatim>\<open>os.path.exists\<close> passes its argument to \<^verbatim>\<open>os.stat\<close> and catches \<^verbatim>\<open>OSError\<close> and
  \<^verbatim>\<open>ValueError\<close> only: on \<^verbatim>\<open>None\<close> the \<^verbatim>\<open>TypeError\<close> of \<^verbatim>\<open>os.stat\<close> escapes.
\<close>

definition check_jtnn :: "env \<Rightarrow> namespace \<Rightarrow> error + namespace" where
  "check_jtnn env a =
     (if jtnn a then
        (case vocab_path a of
           Absent \<Rightarrow> Inl (MissingVocabularyError ''Must provide vocab_path when using jtnn'')
         | Present None \<Rightarrow> Inl PyTypeError
         | Present (Some p) \<Rightarrow>
             if \<not> path_exists env p
             then Inl (MissingVocabularyError (''Vocab path '' @ dq @ p @ dq @ '' does not exist''))
             else Inr a)
      else Inr a)"

subsection \<open>Use of the input features (lines 371 to 383)\<close>

text \<open>\<^verbatim>\<open>args.features_generator or args.features_path\<close>: the first operand if it is true,
  else the second.\<close>

definition features_source :: "namespace \<Rightarrow> pyval" where
  "features_source a =
     (let g = (case features_generator a of None \<Rightarrow> PyNone | Some l \<Rightarrow> PyStrList l);
          p = (case features_path a of None \<Rightarrow> PyNone | Some s \<Rightarrow> PyStr s)
      in if truthy g then g else p)"

definition set_use_input_features :: "namespace \<Rightarrow> error + namespace" where
  "set_use_input_features a = Inr (a\<lparr>use_input_features := Present (features_source a)\<rparr>)"

definition features_and_task_step :: "namespace \<Rightarrow> error + namespace" where
  "features_and_task_step a =
     (if predict_features_and_task a then
        if dataset_type a = ''regression'' then Inr (a\<lparr>predict_features := True\<rparr>)
        else Inl IncompatibleModeError
      else Inr a)"

definition predict_features_step :: "namespace \<Rightarrow> error + namespace" where
  "predict_features_step a =
     (if predict_features a \<or> py_in (kernel_func a) [''features'', ''features_dot''] then
        if truthy (features_source a) then Inr (a\<lparr>use_input_features := Present (PyBool False)\<rparr>)
        else Inl MissingFeatureSourceError
      else Inr a)"

definition bert_step :: "namespace \<Rightarrow> error + namespace" where
  "bert_step a =
     (if dataset_type a = ''bert_pretraining'' then
        if \<not> features_only a then Inr (a\<lparr>use_input_features := Present (PyBool False)\<rparr>)
        else Inl IncompatibleModeError
      else Inr a)"

subsection \<open>Learning-rate groups (lines 385 to 401)\<close>

definition unsupervised_step :: "namespace \<Rightarrow> error + namespace" where
  "unsupervised_step a =
     Inr (if dataset_type a = ''unsupervised'' then a\<lparr>separate_ffn_lr := True\<rparr> else a)"

text \<open>One pass of the loop of lines 390 to 394; \<^verbatim>\<open>lr_param *= 2\<close> repeats the list.\<close>

definition broadcast :: "int \<Rightarrow> bool \<Rightarrow> real list \<Rightarrow> error + real list" where
  "broadcast n sep lr_param =
     (if 1 \<le> int (length lr_param) \<and> int (length lr_param) \<le> n
      then Inr (if sep \<and> length lr_param = 1 then lr_param @ lr_param else lr_param)
      else Inl InvalidGroupCountError)"

definition broadcast_lrs :: "namespace \<Rightarrow> error + namespace" where
  "broadcast_lrs a =
     (let n = 1 + (if separate_ffn_lr a then 1 else 0); sep = separate_ffn_lr a in
      case lr_scaler a of
        Absent \<Rightarrow> Inl PyAttributeError
      | Present sc \<Rightarrow>
          then_step (broadcast n sep (init_lr a)) (\<lambda>i.
          then_step (broadcast n sep (max_lr a)) (\<lambda>m.
          then_step (broadcast n sep (final_lr a)) (\<lambda>f.
          then_step (broadcast n sep sc) (\<lambda>s.
          then_step (broadcast n sep (warmup_epochs a)) (\<lambda>w.
          then_step (broadcast n sep (weight_decay a)) (\<lambda>d.
            Inr (a\<lparr>num_lrs := Present n, init_lr := i, max_lr := m, final_lr := f,
                   lr_scaler := Present s, warmup_epochs := w, weight_decay := d\<rparr>))))))))"

text \<open>\<^verbatim>\<open>xs[i] *= sc[i]\<close>: both reads raise \<^verbatim>\<open>IndexError\<close> out of range.\<close>

definition scale_at :: "real list \<Rightarrow> real list \<Rightarrow> nat \<Rightarrow> error + real list" where
  "scale_at xs sc i =
     (if i < length xs \<and> i < length sc then Inr (xs[i := xs ! i * sc ! i]) else Inl PyIndexError)"

definition scale_group :: "nat \<Rightarrow> namespace \<Rightarrow> error + namespace" where
  "scale_group i a =
     (case lr_scaler a of
        Absent \<Rightarrow> Inl PyAttributeError
      | Present sc \<Rightarrow>
          then_step (scale_at (init_lr a) sc i) (\<lambda>x.
          then_step (scale_at (max_lr a) sc i) (\<lambda>y.
          then_step (scale_at (final_lr a) sc i) (\<lambda>z.
            Inr (a\<lparr>init_lr := x, max_lr := y, final_lr := z\<rparr>)))))"

fun scale_loop :: "nat list \<Rightarrow> namespace \<Rightarrow> error + namespace" where
  "scale_loop [] a = Inr a"
| "scale_loop (i # rest) a = then_step (scale_group i a) (scale_loop rest)"

definition scale_lrs :: "namespace \<Rightarrow> error + namespace" where
  "scale_lrs a =
     (case num_lrs a of
        Absent \<Rightarrow> Inl PyAttributeError
      | Present n \<Rightarrow>
          then_step (scale_loop [0..<nat n] a) (\<lambda>a'.
            case lr_scaler a' of
              Absent \<Rightarrow> Inl PyAttributeError
            | Present _ \<Rightarrow> Inr (a'\<lparr>lr_scaler := Absent\<rparr>)))"

subsection \<open>Feed-forward network, split and test (lines 403 to 416)\<close>

definition check_ffn_layers :: "namespace \<Rightarrow> error + namespace" where
  "check_ffn_layers a = (if ffn_num_layers a \<ge> 1 then Inr a else Inl InvalidLayerCountError)"

definition ffn_defaults :: "namespace \<Rightarrow> error + namespace" where
  "ffn_defaults a =
     Inr (a\<lparr>ffn_hidden_size :=
              (case ffn_hidden_size a of None \<Rightarrow> Some (hidden_size a) | Some h \<Rightarrow> Some h),
            ffn_input_dropout :=
              (case ffn_input_dropout a of None \<Rightarrow> Some (dropout a) | Some x \<Rightarrow> Some x),
            ffn_dropout :=
              (case ffn_dropout a of None \<Rightarrow> Some (dropout a) | Some x \<Rightarrow> Some x)\<rparr>)"

text \<open>The chained comparison \<^verbatim>\<open>x == y == z\<close> of line 413 is \<^verbatim>\<open>x == y and y == z\<close>.\<close>

definition check_split :: "namespace \<Rightarrow> error + namespace" where
  "check_split a =
     (if (split_type a = ''scaffold_overlap'') = (scaffold_overlap a \<noteq> None) then
        if (split_type a = ''predetermined'') = (folds_file a \<noteq> None)
           \<and> (folds_file a \<noteq> None) = (test_fold_index a \<noteq> None)
        then Inr a
        else Inl InvalidSplitConfigurationError
      else Inl InvalidSplitConfigurationError)"

definition test_step :: "namespace \<Rightarrow> error + namespace" where
  "test_step a = Inr (if test a then a\<lparr>epochs := 0\<rparr> else a)"

subsection \<open>Chunked data (lines 418 to 424)\<close>

text \<open>The loop body runs for the first triple of the walk only, and \<^verbatim>\<open>names[0]\<close>
  raises \<^verbatim>\<open>IndexError\<close> on an empty list.\<close>

definition chunk_step :: "env \<Rightarrow> namespace \<Rightarrow> error + namespace" where
  "chunk_step env a =
     (if path_isdir env (data_path a) then
        (let a' = a\<lparr>prespecified_chunk_dir := Present (Some (data_path a))\<rparr> in
         case os_walk env (data_path a) of
           [] \<Rightarrow> Inr a'
         | (r, _, names) # _ \<Rightarrow>
             (case names of
                [] \<Rightarrow> Inl PyIndexError
              | n # _ \<Rightarrow> Inr (a'\<lparr>data_path := path_join r n\<rparr>)))
      else Inr (a\<lparr>prespecified_chunk_dir := Present None\<rparr>))"

subsection \<open>The whole of \<^verbatim>\<open>modify_train_args\<close>\<close>

text \<open>
  The blocks in the order of the source. \<open>at_x env a\<close> is the namespace with which
  control reaches block \<open>x\<close>, or the error raised before it.
\<close>

definition at_metric :: "env \<Rightarrow> namespace \<Rightarrow> error + namespace" where
  "at_metric env a = then_step (save_dir_step env a) (invert_flags env)"

definition at_metric_check :: "env \<Rightarrow> namespace \<Rightarrow> error + namespace" where
  "at_metric_check env a = then_step (at_metric env a) default_metric"

definition at_checkpoint :: "env \<Rightarrow> namespace \<Rightarrow> error + namespace" where
  "at_checkpoint env a =
     then_step (then_step (at_metric_check env a) check_metric) set_minimize_score"

definition at_jtnn :: "env \<Rightarrow> namespace \<Rightarrow> error + namespace" where
  "at_jtnn env a = then_step (at_checkpoint env a) (update_args_from_checkpoint_dir env)"

definition at_features :: "env \<Rightarrow> namespace \<Rightarrow> error + namespace" where
  "at_features env a = then_step (at_jtnn env a) (check_jtnn env)"

definition at_lr :: "env \<Rightarrow> namespace \<Rightarrow> error + namespace" where
  "at_lr env a =
     then_step (then_step (then_step (then_step (then_step (at_features env a)
       set_use_input_features) features_and_task_step) predict_features_step) bert_step)
       unsupervised_step"

definition at_ffn :: "env \<Rightarrow> namespace \<Rightarrow> error + namespace" where
  "at_ffn env a = then_step (then_step (at_lr env a) broadcast_lrs) scale_lrs"

definition at_split :: "env \<Rightarrow> namespace \<Rightarrow> error + namespace" where
  "at_split env a = then_step (then_step (at_ffn env a) check_ffn_layers) ffn_defaults"

definition at_chunk :: "env \<Rightarrow> namespace \<Rightarrow> error + namespace" where
  "at_chunk env a = then_step (then_step (at_split env a) check_split) test_step"

definition modify_train_args :: "env \<Rightarrow> namespace \<Rightarrow> error + namespace" where
  "modify_train_args env a = then_step (at_chunk env a) (chunk_step env)"

subsection \<open>The namespace of \<^verbatim>\<open>parse_args\<close> on the two required options\<close>

text \<open>
  The defaults declared by \<^verbatim>\<open>add_train_args\<close>, for the options of the record: what
  \<^verbatim>\<open>parse_args\<close> returns when only \<^verbatim>\<open>--data_path\<close> and \<^verbatim>\<open>--dataset_type\<close> are given.
  The fields that \<^verbatim>\<open>modify_train_args\<close> creates are absent.
\<close>

definition parsed_defaults :: "string \<Rightarrow> string \<Rightarrow> namespace" where
  "parsed_defaults dp dt =
     \<lparr>save_dir = None, no_cuda = Present False, no_target_scaling = Present False,
      no_features_scaling = Present False, cuda = Absent, target_scaling = Absent,
      features_scaling = Absent, metric = None, dataset_type = dt,
      bert_vocab_func = ''feature_vector'', kernel_func = None, minimize_score = Absent,
      checkpoint_dir = None, checkpoint_paths = Absent, ensemble_size = 1, jtnn = False,
      vocab_path = Present None, features_generator = None, features_path = None,
      use_input_features = Absent, predict_features_and_task = False,
      predict_features = False, features_only = False, separate_ffn_lr = False,
      num_lrs = Absent, init_lr = [1 / 10000], max_lr = [1 / 1000], final_lr = [1 / 10000],
      lr_scaler = Present [1], warmup_epochs = [2], weight_decay = [0], ffn_num_layers = 2,
      ffn_hidden_size = None, hidden_size = 300, ffn_input_dropout = None, dropout = 0,
      ffn_dropout = None, split_type = ''random'', scaffold_overlap = None,
      folds_file = None, test_fold_index = None, test = False, epochs = 30,
      data_path = dp, prespecified_chunk_dir = Absent\<rparr>"

subsection \<open>Lines 388 to 399 on list objects\<close>

text \<open>
  In the source the six sequences are list objects and the namespace holds references
  to them: \<^verbatim>\<open>lr_param *= 2\<close> and \<^verbatim>\<open>args.init_lr[i] *= args.lr_scaler[i]\<close> change the
  object, whatever name it is reached by. Here a store maps a reference to the list it
  holds, and the two loops update the store. Section ``The in-place updates agree with
  the updates of the fields'' shows that on six different objects this gives the lists
  that \<open>broadcast_lrs\<close> and \<open>scale_lrs\<close> compute.
\<close>

type_synonym ref = nat

type_synonym store = "ref \<Rightarrow> real list"

record rate_refs =
  init_ref :: ref
  max_ref :: ref
  final_ref :: ref
  scaler_ref :: ref
  warmup_ref :: ref
  decay_ref :: ref

definition lr_params :: "rate_refs \<Rightarrow> ref list" where
  "lr_params rs = [init_ref rs, max_ref rs, final_ref rs, scaler_ref rs, warmup_ref rs, decay_ref rs]"

fun broadcast_in_place :: "int \<Rightarrow> bool \<Rightarrow> ref list \<Rightarrow> store \<Rightarrow> error + store" where
  "broadcast_in_place n sep [] h = Inr h"
| "broadcast_in_place n sep (r # rest) h =
     (if 1 \<le> int (length (h r)) \<and> int (length (h r)) \<le> n
      then broadcast_in_place n sep rest
             (if sep \<and> length (h r) = 1 then h(r := h r @ h r) else h)
      else Inl InvalidGroupCountError)"

definition scale_in_place :: "ref \<Rightarrow> ref \<Rightarrow> nat \<Rightarrow> store \<Rightarrow> error + store" where
  "scale_in_place x sc i h =
     (if i < length (h x) \<and> i < length (h sc)
      then Inr (h(x := (h x)[i := h x ! i * h sc ! i]))
      else Inl PyIndexError)"

definition scale_group_in_place :: "rate_refs \<Rightarrow> nat \<Rightarrow> store \<Rightarrow> error + store" where
  "scale_group_in_place rs i h =
     then_step (scale_in_place (init_ref rs) (scaler_ref rs) i h) (\<lambda>h.
     then_step (scale_in_place (max_ref rs) (scaler_ref rs) i h) (\<lambda>h.
       scale_in_place (final_ref rs) (scaler_ref rs) i h))"

fun scale_loop_in_place :: "rate_refs \<Rightarrow> nat list \<Rightarrow> store \<Rightarrow> error + store" where
  "scale_loop_in_place rs [] h = Inr h"
| "scale_loop_in_place rs (i # rest) h =
     then_step (scale_group_in_place rs i h) (scale_loop_in_place rs rest)"

definition lr_in_place :: "bool \<Rightarrow> rate_refs \<Rightarrow> store \<Rightarrow> error + store" where
  "lr_in_place sep rs h =
     (let n = 1 + (if sep then 1 else 0) in
      then_step (broadcast_in_place n sep (lr_params rs) h)
        (scale_loop_in_place rs [0..<nat n]))"

subsection \<open>An example environment\<close>

text \<open>
  A small filesystem for the concrete runs below: a data file, a vocabulary file, a
  checkpoint directory with one artifact at the top and one in a sub-directory, a
  directory of two data chunks, and a directory that holds only an empty sub-directory.
\<close>

definition example_env :: env where
  "example_env =
     \<lparr>makedirs_ok = (\<lambda>p. True), new_temp_dir = Some ''/tmp/tmpdir'', cuda_is_available = False,
      fs_lookup = (\<lambda>p.
        if p = ''data.csv'' \<or> p = ''vocab.txt'' \<or> p = ''chunks/a.csv'' then Some File
        else if p = ''ckpt'' then
          Some (Dir [(''fold_0'', Dir [(''model.pt'', File)]), (''model.pt'', File), (''log.txt'', File)])
        else if p = ''chunks'' then Some (Dir [(''old'', Dir []), (''a.csv'', File), (''b.csv'', File)])
        else if p = ''empty'' then Some (Dir [(''sub'', Dir [])])
        else None)\<rparr>"

subsection \<open>Broadcasting, in the words of the specification\<close>

text \<open>
  Section 4.2, step 5: with two groups, a sequence of one entry has its single entry
  duplicated; every other sequence is left as it is.
\<close>

definition duplicate_single :: "bool \<Rightarrow> 'a list \<Rightarrow> 'a list" where
  "duplicate_single two_groups xs = (case xs of [x] \<Rightarrow> if two_groups then [x, x] else [x] | _ \<Rightarrow> xs)"

subsection \<open>Files in a directory tree, in the words of the specification\<close>

text \<open>
  The number of regular files with a given name in a tree, at any depth, counted by one
  pass over the tree.
\<close>

fun count_named :: "string \<Rightarrow> node \<Rightarrow> nat"
  and count_named_in :: "string \<Rightarrow> (string \<times> node) list \<Rightarrow> nat"
where
  "count_named f File = 0"
| "count_named f (Dir es) = count_named_in f es"
| "count_named_in f [] = 0"
| "count_named_in f (e # es) =
     (if is_dir_node (snd e) then count_named f (snd e) else if fst e = f then 1 else 0)
       + count_named_in f es"

text \<open>
  \<open>file_at nd ds f\<close>: descending from the directory \<open>nd\<close> through the sub-directories
  named \<open>ds\<close>, in this order, one arrives at a directory that holds a regular file
  named \<open>f\<close>. The length of \<open>ds\<close> is the nesting depth.
\<close>

fun file_at :: "node \<Rightarrow> string list \<Rightarrow> string \<Rightarrow> bool" where
  "file_at File ds f = False"
| "file_at (Dir es) [] f = ((f, File) \<in> set es)"
| "file_at (Dir es) (d # ds) f = list_ex (\<lambda>e. fst e = d \<and> file_at (snd e) ds f) es"

definition artifacts_under :: "env \<Rightarrow> string \<Rightarrow> nat" where
  "artifacts_under env d =
     (case fs_lookup env d of None \<Rightarrow> 0 | Some nd \<Rightarrow> count_named ''model.pt'' nd)"

definition artifact_at :: "env \<Rightarrow> string \<Rightarrow> string list \<Rightarrow> bool" where
  "artifact_at env d ds =
     (case fs_lookup env d of None \<Rightarrow> False | Some nd \<Rightarrow> file_at nd ds ''model.pt'')"

subsection \<open>The raw option bag of a resolved configuration\<close>

text \<open>
  Section 8 speaks of re-running resolution on ``an already-resolved configuration's
  equivalent raw bag''. A raw bag holds the options of the registry and no derived
  field. The bag equivalent to a resolved namespace gives every option its resolved
  value; the three negative flags that resolution deleted are the negations of their
  positive counterparts; \<^verbatim>\<open>lr_scaler\<close>, which resolution consumed, has its registry
  default \<^verbatim>\<open>[1.0]\<close> (line 161); the derived fields are absent.
\<close>

definition negated :: "bool attr \<Rightarrow> bool attr" where
  "negated x = (case x of Absent \<Rightarrow> Absent | Present b \<Rightarrow> Present (\<not> b))"

definition raw_of_resolved :: "namespace \<Rightarrow> namespace" where
  "raw_of_resolved c =
     c\<lparr>no_cuda := negated (cuda c),
       no_target_scaling := negated (target_scaling c),
       no_features_scaling := negated (features_scaling c),
       lr_scaler := Present [1],
       cuda := Absent, target_scaling := Absent, features_scaling := Absent,
       minimize_score := Absent, checkpoint_paths := Absent, use_input_features := Absent,
       num_lrs := Absent, prespecified_chunk_dir := Absent\<rparr>"

text \<open>
  What a resolved namespace satisfies when its \<^verbatim>\<open>data_path\<close> was not a directory: each
  block of \<^verbatim>\<open>modify_train_args\<close> has left its mark, and each check holds of it.
\<close>

definition settled :: "env \<Rightarrow> namespace \<Rightarrow> bool" where
  "settled env c \<longleftrightarrow>
     save_dir c \<noteq> None \<and>
     no_cuda c = Absent \<and> no_target_scaling c = Absent \<and> no_features_scaling c = Absent \<and>
     (\<exists>b. cuda c = Present (b \<and> cuda_is_available env)) \<and>
     (\<exists>b. target_scaling c = Present b) \<and> (\<exists>b. features_scaling c = Present b) \<and>
     metric c \<noteq> None \<and> check_metric c = Inr c \<and>
     minimize_score c = Present (py_in (metric c) [''rmse'', ''mae'', ''log_loss'']) \<and>
     (case checkpoint_dir c of
        None \<Rightarrow> checkpoint_paths c = Present None
      | Some d \<Rightarrow>
          artifacts_under env d \<noteq> 0 \<and>
          checkpoint_paths c = Present (Some (concat (map model_files (os_walk env d)))) \<and>
          ensemble_size c = int (artifacts_under env d)) \<and>
     check_jtnn env c = Inr c \<and>
     (if predict_features_and_task c then dataset_type c = ''regression'' \<and> predict_features c
      else True) \<and>
     (if predict_features c \<or> py_in (kernel_func c) [''features'', ''features_dot'']
      then truthy (features_source c) else True) \<and>
     (if dataset_type c = ''bert_pretraining'' then \<not> features_only c else True) \<and>
     use_input_features c =
       Present (if predict_features c \<or> py_in (kernel_func c) [''features'', ''features_dot'']
                   \<or> dataset_type c = ''bert_pretraining''
                then PyBool False else features_source c) \<and>
     (if dataset_type c = ''unsupervised'' then separate_ffn_lr c else True) \<and>
     num_lrs c = Present (1 + (if separate_ffn_lr c then 1 else 0)) \<and>
     length (init_lr c) = (if separate_ffn_lr c then 2 else 1) \<and>
     length (max_lr c) = (if separate_ffn_lr c then 2 else 1) \<and>
     length (final_lr c) = (if separate_ffn_lr c then 2 else 1) \<and>
     length (warmup_epochs c) = (if separate_ffn_lr c then 2 else 1) \<and>
     length (weight_decay c) = (if separate_ffn_lr c then 2 else 1) \<and>
     lr_scaler c = Absent \<and>
     1 \<le> ffn_num_layers c \<and>
     ffn_hidden_size c \<noteq> None \<and> ffn_input_dropout c \<noteq> None \<and> ffn_dropout c \<noteq> None \<and>
     check_split c = Inr c \<and>
     (if test c then epochs c = 0 else True) \<and>
     prespecified_chunk_dir c = Present None \<and> \<not> path_isdir env (data_path c)"

section \<open>Basic facts\<close>

subsection \<open>Unfolding for concrete runs\<close>

lemma upt_two: "[0..<2] = [0, Suc 0]"
  by (simp add: numeral_2_eq_2)

lemmas run_defs = modify_train_args_def at_chunk_def at_split_def at_ffn_def at_lr_def
  at_features_def at_jtnn_def at_checkpoint_def at_metric_check_def at_metric_def
  save_dir_step_def invert_flags_def default_metric_def check_metric_def set_minimize_score_def
  update_args_from_checkpoint_dir_def check_jtnn_def set_use_input_features_def
  features_and_task_step_def predict_features_step_def bert_step_def unsupervised_step_def
  broadcast_lrs_def broadcast_def scale_lrs_def scale_group_def scale_at_def
  check_ffn_layers_def ffn_defaults_def check_split_def test_step_def chunk_step_def
  features_source_def py_in_def py_str_def dq_def path_isdir_def path_exists_def os_walk_def
  model_files_def dirnames_def filenames_def path_join_def parsed_defaults_def example_env_def
  upt_two Let_def

subsection \<open>Membership in a list of names\<close>

lemma py_in_iff: "py_in x l \<longleftrightarrow> x \<in> Some ` set l"
  by (cases x) (auto simp: py_in_def)

subsection \<open>Sequencing\<close>

lemma then_step_Inl [simp]: "then_step (Inl e) f = Inl e"
  by (simp add: then_step_def)

lemma then_step_Inr [simp]: "then_step (Inr a) f = f a"
  by (simp add: then_step_def)

lemma then_step_eq_Inr: "then_step r f = Inr b \<longleftrightarrow> (\<exists>a. r = Inr a \<and> f a = Inr b)"
  by (cases r) simp_all

subsection \<open>What each block leaves unchanged\<close>

lemma save_dir_step_keeps:
  "save_dir_step env s = Inr s' \<Longrightarrow>
    no_cuda s' = no_cuda s \<and> no_target_scaling s' = no_target_scaling s \<and>
    no_features_scaling s' = no_features_scaling s \<and> cuda s' = cuda s \<and>
    target_scaling s' = target_scaling s \<and>
    features_scaling s' = features_scaling s \<and> metric s' = metric s \<and>
    dataset_type s' = dataset_type s \<and> bert_vocab_func s' = bert_vocab_func s \<and>
    kernel_func s' = kernel_func s \<and> minimize_score s' = minimize_score s \<and>
    checkpoint_dir s' = checkpoint_dir s \<and>
    checkpoint_paths s' = checkpoint_paths s \<and>
    ensemble_size s' = ensemble_size s \<and> jtnn s' = jtnn s \<and>
    vocab_path s' = vocab_path s \<and> features_generator s' = features_generator s \<and>
    features_path s' = features_path s \<and>
    use_input_features s' = use_input_features s \<and>
    predict_features_and_task s' = predict_features_and_task s \<and>
    predict_features s' = predict_features s \<and>
    features_only s' = features_only s \<and> separate_ffn_lr s' = separate_ffn_lr s \<and>
    num_lrs s' = num_lrs s \<and> init_lr s' = init_lr s \<and> max_lr s' = max_lr s \<and>
    final_lr s' = final_lr s \<and> lr_scaler s' = lr_scaler s \<and>
    warmup_epochs s' = warmup_epochs s \<and> weight_decay s' = weight_decay s \<and>
    ffn_num_layers s' = ffn_num_layers s \<and>
    ffn_hidden_size s' = ffn_hidden_size s \<and> hidden_size s' = hidden_size s \<and>
    ffn_input_dropout s' = ffn_input_dropout s \<and> dropout s' = dropout s \<and>
    ffn_dropout s' = ffn_dropout s \<and> split_type s' = split_type s \<and>
    scaffold_overlap s' = scaffold_overlap s \<and> folds_file s' = folds_file s \<and>
    test_fold_index s' = test_fold_index s \<and> test s' = test s \<and>
    epochs s' = epochs s \<and> data_path s' = data_path s \<and>
    prespecified_chunk_dir s' = prespecified_chunk_dir s"
  by (auto simp: save_dir_step_def split: if_splits option.splits attr.splits sum.splits list.splits prod.splits)

lemma invert_flags_keeps:
  "invert_flags env s = Inr s' \<Longrightarrow>
    save_dir s' = save_dir s \<and> metric s' = metric s \<and>
    dataset_type s' = dataset_type s \<and> bert_vocab_func s' = bert_vocab_func s \<and>
    kernel_func s' = kernel_func s \<and> minimize_score s' = minimize_score s \<and>
    checkpoint_dir s' = checkpoint_dir s \<and>
    checkpoint_paths s' = checkpoint_paths s \<and>
    ensemble_size s' = ensemble_size s \<and> jtnn s' = jtnn s \<and>
    vocab_path s' = vocab_path s \<and> features_generator s' = features_generator s \<and>
    features_path s' = features_path s \<and>
    use_input_features s' = use_input_features s \<and>
    predict_features_and_task s' = predict_features_and_task s \<and>
    predict_features s' = predict_features s \<and>
    features_only s' = features_only s \<and> separate_ffn_lr s' = separate_ffn_lr s \<and>
    num_lrs s' = num_lrs s \<and> init_lr s' = init_lr s \<and> max_lr s' = max_lr s \<and>
    final_lr s' = final_lr s \<and> lr_scaler s' = lr_scaler s \<and>
    warmup_epochs s' = warmup_epochs s \<and> weight_decay s' = weight_decay s \<and>
    ffn_num_layers s' = ffn_num_layers s \<and>
    ffn_hidden_size s' = ffn_hidden_size s \<and> hidden_size s' = hidden_size s \<and>
    ffn_input_dropout s' = ffn_input_dropout s \<and> dropout s' = dropout s \<and>
    ffn_dropout s' = ffn_dropout s \<and> split_type s' = split_type s \<and>
    scaffold_overlap s' = scaffold_overlap s \<and> folds_file s' = folds_file s \<and>
    test_fold_index s' = test_fold_index s \<and> test s' = test s \<and>
    epochs s' = epochs s \<and> data_path s' = data_path s \<and>
    prespecified_chunk_dir s' = prespecified_chunk_dir s"
  by (auto simp: invert_flags_def split: if_splits option.splits attr.splits sum.splits list.splits prod.splits)

lemma default_metric_keeps:
  "default_metric s = Inr s' \<Longrightarrow>
    save_dir s' = save_dir s \<and> no_cuda s' = no_cuda s \<and>
    no_target_scaling s' = no_target_scaling s \<and>
    no_features_scaling s' = no_features_scaling s \<and> cuda s' = cuda s \<and>
    target_scaling s' = target_scaling s \<and>
    features_scaling s' = features_scaling s \<and> dataset_type s' = dataset_type s \<and>
    bert_vocab_func s' = bert_vocab_func s \<and> kernel_func s' = kernel_func s \<and>
    minimize_score s' = minimize_score s \<and> checkpoint_dir s' = checkpoint_dir s \<and>
    checkpoint_paths s' = checkpoint_paths s \<and>
    ensemble_size s' = ensemble_size s \<and> jtnn s' = jtnn s \<and>
    vocab_path s' = vocab_path s \<and> features_generator s' = features_generator s \<and>
    features_path s' = features_path s \<and>
    use_input_features s' = use_input_features s \<and>
    predict_features_and_task s' = predict_features_and_task s \<and>
    predict_features s' = predict_features s \<and>
    features_only s' = features_only s \<and> separate_ffn_lr s' = separate_ffn_lr s \<and>
    num_lrs s' = num_lrs s \<and> init_lr s' = init_lr s \<and> max_lr s' = max_lr s \<and>
    final_lr s' = final_lr s \<and> lr_scaler s' = lr_scaler s \<and>
    warmup_epochs s' = warmup_epochs s \<and> weight_decay s' = weight_decay s \<and>
    ffn_num_layers s' = ffn_num_layers s \<and>
    ffn_hidden_size s' = ffn_hidden_size s \<and> hidden_size s' = hidden_size s \<and>
    ffn_input_dropout s' = ffn_input_dropout s \<and> dropout s' = dropout s \<and>
    ffn_dropout s' = ffn_dropout s \<and> split_type s' = split_type s \<and>
    scaffold_overlap s' = scaffold_overlap s \<and> folds_file s' = folds_file s \<and>
    test_fold_index s' = test_fold_index s \<and> test s' = test s \<and>
    epochs s' = epochs s \<and> data_path s' = data_path s \<and>
    prespecified_chunk_dir s' = prespecified_chunk_dir s"
  by (auto simp: default_metric_def split: if_splits option.splits attr.splits sum.splits list.splits prod.splits)

lemma check_metric_keeps: "check_metric s = Inr s' \<Longrightarrow> s' = s"
  by (auto simp: check_metric_def split: if_splits option.splits attr.splits sum.splits list.splits prod.splits)

lemma set_minimize_score_keeps:
  "set_minimize_score s = Inr s' \<Longrightarrow>
    save_dir s' = save_dir s \<and> no_cuda s' = no_cuda s \<and>
    no_target_scaling s' = no_target_scaling s \<and>
    no_features_scaling s' = no_features_scaling s \<and> cuda s' = cuda s \<and>
    target_scaling s' = target_scaling s \<and>
    features_scaling s' = features_scaling s \<and> metric s' = metric s \<and>
    dataset_type s' = dataset_type s \<and> bert_vocab_func s' = bert_vocab_func s \<and>
    kernel_func s' = kernel_func s \<and> checkpoint_dir s' = checkpoint_dir s \<and>
    checkpoint_paths s' = checkpoint_paths s \<and>
    ensemble_size s' = ensemble_size s \<and> jtnn s' = jtnn s \<and>
    vocab_path s' = vocab_path s \<and> features_generator s' = features_generator s \<and>
    features_path s' = features_path s \<and>
    use_input_features s' = use_input_features s \<and>
    predict_features_and_task s' = predict_features_and_task s \<and>
    predict_features s' = predict_features s \<and>
    features_only s' = features_only s \<and> separate_ffn_lr s' = separate_ffn_lr s \<and>
    num_lrs s' = num_lrs s \<and> init_lr s' = init_lr s \<and> max_lr s' = max_lr s \<and>
    final_lr s' = final_lr s \<and> lr_scaler s' = lr_scaler s \<and>
    warmup_epochs s' = warmup_epochs s \<and> weight_decay s' = weight_decay s \<and>
    ffn_num_layers s' = ffn_num_layers s \<and>
    ffn_hidden_size s' = ffn_hidden_size s \<and> hidden_size s' = hidden_size s \<and>
    ffn_input_dropout s' = ffn_input_dropout s \<and> dropout s' = dropout s \<and>
    ffn_dropout s' = ffn_dropout s \<and> split_type s' = split_type s \<and>
    scaffold_overlap s' = scaffold_overlap s \<and> folds_file s' = folds_file s \<and>
    test_fold_index s' = test_fold_index s \<and> test s' = test s \<and>
    epochs s' = epochs s \<and> data_path s' = data_path s \<and>
    prespecified_chunk_dir s' = prespecified_chunk_dir s"
  by (auto simp: set_minimize_score_def split: if_splits option.splits attr.splits sum.splits list.splits prod.splits)

lemma update_args_from_checkpoint_dir_keeps:
  "update_args_from_checkpoint_dir env s = Inr s' \<Longrightarrow>
    save_dir s' = save_dir s \<and> no_cuda s' = no_cuda s \<and>
    no_target_scaling s' = no_target_scaling s \<and>
    no_features_scaling s' = no_features_scaling s \<and> cuda s' = cuda s \<and>
    target_scaling s' = target_scaling s \<and>
    features_scaling s' = features_scaling s \<and> metric s' = metric s \<and>
    dataset_type s' = dataset_type s \<and> bert_vocab_func s' = bert_vocab_func s \<and>
    kernel_func s' = kernel_func s \<and> minimize_score s' = minimize_score s \<and>
    checkpoint_dir s' = checkpoint_dir s \<and> jtnn s' = jtnn s \<and>
    vocab_path s' = vocab_path s \<and> features_generator s' = features_generator s \<and>
    features_path s' = features_path s \<and>
    use_input_features s' = use_input_features s \<and>
    predict_features_and_task s' = predict_features_and_task s \<and>
    predict_features s' = predict_features s \<and>
    features_only s' = features_only s \<and> separate_ffn_lr s' = separate_ffn_lr s \<and>
    num_lrs s' = num_lrs s \<and> init_lr s' = init_lr s \<and> max_lr s' = max_lr s \<and>
    final_lr s' = final_lr s \<and> lr_scaler s' = lr_scaler s \<and>
    warmup_epochs s' = warmup_epochs s \<and> weight_decay s' = weight_decay s \<and>
    ffn_num_layers s' = ffn_num_layers s \<and>
    ffn_hidden_size s' = ffn_hidden_size s \<and> hidden_size s' = hidden_size s \<and>
    ffn_input_dropout s' = ffn_input_dropout s \<and> dropout s' = dropout s \<and>
    ffn_dropout s' = ffn_dropout s \<and> split_type s' = split_type s \<and>
    scaffold_overlap s' = scaffold_overlap s \<and> folds_file s' = folds_file s \<and>
    test_fold_index s' = test_fold_index s \<and> test s' = test s \<and>
    epochs s' = epochs s \<and> data_path s' = data_path s \<and>
    prespecified_chunk_dir s' = prespecified_chunk_dir s"
  by (auto simp: update_args_from_checkpoint_dir_def Let_def split: if_splits option.splits attr.splits sum.splits list.splits prod.splits)

lemma check_jtnn_keeps: "check_jtnn env s = Inr s' \<Longrightarrow> s' = s"
  by (auto simp: check_jtnn_def split: if_splits option.splits attr.splits sum.splits list.splits prod.splits)

lemma set_use_input_features_keeps:
  "set_use_input_features s = Inr s' \<Longrightarrow>
    save_dir s' = save_dir s \<and> no_cuda s' = no_cuda s \<and>
    no_target_scaling s' = no_target_scaling s \<and>
    no_features_scaling s' = no_features_scaling s \<and> cuda s' = cuda s \<and>
    target_scaling s' = target_scaling s \<and>
    features_scaling s' = features_scaling s \<and> metric s' = metric s \<and>
    dataset_type s' = dataset_type s \<and> bert_vocab_func s' = bert_vocab_func s \<and>
    kernel_func s' = kernel_func s \<and> minimize_score s' = minimize_score s \<and>
    checkpoint_dir s' = checkpoint_dir s \<and>
    checkpoint_paths s' = checkpoint_paths s \<and>
    ensemble_size s' = ensemble_size s \<and> jtnn s' = jtnn s \<and>
    vocab_path s' = vocab_path s \<and> features_generator s' = features_generator s \<and>
    features_path s' = features_path s \<and>
    predict_features_and_task s' = predict_features_and_task s \<and>
    predict_features s' = predict_features s \<and>
    features_only s' = features_only s \<and> separate_ffn_lr s' = separate_ffn_lr s \<and>
    num_lrs s' = num_lrs s \<and> init_lr s' = init_lr s \<and> max_lr s' = max_lr s \<and>
    final_lr s' = final_lr s \<and> lr_scaler s' = lr_scaler s \<and>
    warmup_epochs s' = warmup_epochs s \<and> weight_decay s' = weight_decay s \<and>
    ffn_num_layers s' = ffn_num_layers s \<and>
    ffn_hidden_size s' = ffn_hidden_size s \<and> hidden_size s' = hidden_size s \<and>
    ffn_input_dropout s' = ffn_input_dropout s \<and> dropout s' = dropout s \<and>
    ffn_dropout s' = ffn_dropout s \<and> split_type s' = split_type s \<and>
    scaffold_overlap s' = scaffold_overlap s \<and> folds_file s' = folds_file s \<and>
    test_fold_index s' = test_fold_index s \<and> test s' = test s \<and>
    epochs s' = epochs s \<and> data_path s' = data_path s \<and>
    prespecified_chunk_dir s' = prespecified_chunk_dir s"
  by (auto simp: set_use_input_features_def split: if_splits option.splits attr.splits sum.splits list.splits prod.splits)

lemma features_and_task_step_keeps:
  "features_and_task_step s = Inr s' \<Longrightarrow>
    save_dir s' = save_dir s \<and> no_cuda s' = no_cuda s \<and>
    no_target_scaling s' = no_target_scaling s \<and>
    no_features_scaling s' = no_features_scaling s \<and> cuda s' = cuda s \<and>
    target_scaling s' = target_scaling s \<and>
    features_scaling s' = features_scaling s \<and> metric s' = metric s \<and>
    dataset_type s' = dataset_type s \<and> bert_vocab_func s' = bert_vocab_func s \<and>
    kernel_func s' = kernel_func s \<and> minimize_score s' = minimize_score s \<and>
    checkpoint_dir s' = checkpoint_dir s \<and>
    checkpoint_paths s' = checkpoint_paths s \<and>
    ensemble_size s' = ensemble_size s \<and> jtnn s' = jtnn s \<and>
    vocab_path s' = vocab_path s \<and> features_generator s' = features_generator s \<and>
    features_path s' = features_path s \<and>
    use_input_features s' = use_input_features s \<and>
    predict_features_and_task s' = predict_features_and_task s \<and>
    features_only s' = features_only s \<and> separate_ffn_lr s' = separate_ffn_lr s \<and>
    num_lrs s' = num_lrs s \<and> init_lr s' = init_lr s \<and> max_lr s' = max_lr s \<and>
    final_lr s' = final_lr s \<and> lr_scaler s' = lr_scaler s \<and>
    warmup_epochs s' = warmup_epochs s \<and> weight_decay s' = weight_decay s \<and>
    ffn_num_layers s' = ffn_num_layers s \<and>
    ffn_hidden_size s' = ffn_hidden_size s \<and> hidden_size s' = hidden_size s \<and>
    ffn_input_dropout s' = ffn_input_dropout s \<and> dropout s' = dropout s \<and>
    ffn_dropout s' = ffn_dropout s \<and> split_type s' = split_type s \<and>
    scaffold_overlap s' = scaffold_overlap s \<and> folds_file s' = folds_file s \<and>
    test_fold_index s' = test_fold_index s \<and> test s' = test s \<and>
    epochs s' = epochs s \<and> data_path s' = data_path s \<and>
    prespecified_chunk_dir s' = prespecified_chunk_dir s"
  by (auto simp: features_and_task_step_def split: if_splits option.splits attr.splits sum.splits list.splits prod.splits)

lemma predict_features_step_keeps:
  "predict_features_step s = Inr s' \<Longrightarrow>
    save_dir s' = save_dir s \<and> no_cuda s' = no_cuda s \<and>
    no_target_scaling s' = no_target_scaling s \<and>
    no_features_scaling s' = no_features_scaling s \<and> cuda s' = cuda s \<and>
    target_scaling s' = target_scaling s \<and>
    features_scaling s' = features_scaling s \<and> metric s' = metric s \<and>
    dataset_type s' = dataset_type s \<and> bert_vocab_func s' = bert_vocab_func s \<and>
    kernel_func s' = kernel_func s \<and> minimize_score s' = minimize_score s \<and>
    checkpoint_dir s' = checkpoint_dir s \<and>
    checkpoint_paths s' = checkpoint_paths s \<and>
    ensemble_size s' = ensemble_size s \<and> jtnn s' = jtnn s \<and>
    vocab_path s' = vocab_path s \<and> features_generator s' = features_generator s \<and>
    features_path s' = features_path s \<and>
    predict_features_and_task s' = predict_features_and_task s \<and>
    predict_features s' = predict_features s \<and>
    features_only s' = features_only s \<and> separate_ffn_lr s' = separate_ffn_lr s \<and>
    num_lrs s' = num_lrs s \<and> init_lr s' = init_lr s \<and> max_lr s' = max_lr s \<and>
    final_lr s' = final_lr s \<and> lr_scaler s' = lr_scaler s \<and>
    warmup_epochs s' = warmup_epochs s \<and> weight_decay s' = weight_decay s \<and>
    ffn_num_layers s' = ffn_num_layers s \<and>
    ffn_hidden_size s' = ffn_hidden_size s \<and> hidden_size s' = hidden_size s \<and>
    ffn_input_dropout s' = ffn_input_dropout s \<and> dropout s' = dropout s \<and>
    ffn_dropout s' = ffn_dropout s \<and> split_type s' = split_type s \<and>
    scaffold_overlap s' = scaffold_overlap s \<and> folds_file s' = folds_file s \<and>
    test_fold_index s' = test_fold_index s \<and> test s' = test s \<and>
    epochs s' = epochs s \<and> data_path s' = data_path s \<and>
    prespecified_chunk_dir s' = prespecified_chunk_dir s"
  by (auto simp: predict_features_step_def split: if_splits option.splits attr.splits sum.splits list.splits prod.splits)

lemma bert_step_keeps:
  "bert_step s = Inr s' \<Longrightarrow>
    save_dir s' = save_dir s \<and> no_cuda s' = no_cuda s \<and>
    no_target_scaling s' = no_target_scaling s \<and>
    no_features_scaling s' = no_features_scaling s \<and> cuda s' = cuda s \<and>
    target_scaling s' = target_scaling s \<and>
    features_scaling s' = features_scaling s \<and> metric s' = metric s \<and>
    dataset_type s' = dataset_type s \<and> bert_vocab_func s' = bert_vocab_func s \<and>
    kernel_func s' = kernel_func s \<and> minimize_score s' = minimize_score s \<and>
    checkpoint_dir s' = checkpoint_dir s \<and>
    checkpoint_paths s' = checkpoint_paths s \<and>
    ensemble_size s' = ensemble_size s \<and> jtnn s' = jtnn s \<and>
    vocab_path s' = vocab_path s \<and> features_generator s' = features_generator s \<and>
    features_path s' = features_path s \<and>
    predict_features_and_task s' = predict_features_and_task s \<and>
    predict_features s' = predict_features s \<and>
    features_only s' = features_only s \<and> separate_ffn_lr s' = separate_ffn_lr s \<and>
    num_lrs s' = num_lrs s \<and> init_lr s' = init_lr s \<and> max_lr s' = max_lr s \<and>
    final_lr s' = final_lr s \<and> lr_scaler s' = lr_scaler s \<and>
    warmup_epochs s' = warmup_epochs s \<and> weight_decay s' = weight_decay s \<and>
    ffn_num_layers s' = ffn_num_layers s \<and>
    ffn_hidden_size s' = ffn_hidden_size s \<and> hidden_size s' = hidden_size s \<and>
    ffn_input_dropout s' = ffn_input_dropout s \<and> dropout s' = dropout s \<and>
    ffn_dropout s' = ffn_dropout s \<and> split_type s' = split_type s \<and>
    scaffold_overlap s' = scaffold_overlap s \<and> folds_file s' = folds_file s \<and>
    test_fold_index s' = test_fold_index s \<and> test s' = test s \<and>
    epochs s' = epochs s \<and> data_path s' = data_path s \<and>
    prespecified_chunk_dir s' = prespecified_chunk_dir s"
  by (auto simp: bert_step_def split: if_splits option.splits attr.splits sum.splits list.splits prod.splits)

lemma unsupervised_step_keeps:
  "unsupervised_step s = Inr s' \<Longrightarrow>
    save_dir s' = save_dir s \<and> no_cuda s' = no_cuda s \<and>
    no_target_scaling s' = no_target_scaling s \<and>
    no_features_scaling s' = no_features_scaling s \<and> cuda s' = cuda s \<and>
    target_scaling s' = target_scaling s \<and>
    features_scaling s' = features_scaling s \<and> metric s' = metric s \<and>
    dataset_type s' = dataset_type s \<and> bert_vocab_func s' = bert_vocab_func s \<and>
    kernel_func s' = kernel_func s \<and> minimize_score s' = minimize_score s \<and>
    checkpoint_dir s' = checkpoint_dir s \<and>
    checkpoint_paths s' = checkpoint_paths s \<and>
    ensemble_size s' = ensemble_size s \<and> jtnn s' = jtnn s \<and>
    vocab_path s' = vocab_path s \<and> features_generator s' = features_generator s \<and>
    features_path s' = features_path s \<and>
    use_input_features s' = use_input_features s \<and>
    predict_features_and_task s' = predict_features_and_task s \<and>
    predict_features s' = predict_features s \<and>
    features_only s' = features_only s \<and> num_lrs s' = num_lrs s \<and>
    init_lr s' = init_lr s \<and> max_lr s' = max_lr s \<and>
    final_lr s' = final_lr s \<and> lr_scaler s' = lr_scaler s \<and>
    warmup_epochs s' = warmup_epochs s \<and> weight_decay s' = weight_decay s \<and>
    ffn_num_layers s' = ffn_num_layers s \<and>
    ffn_hidden_size s' = ffn_hidden_size s \<and> hidden_size s' = hidden_size s \<and>
    ffn_input_dropout s' = ffn_input_dropout s \<and> dropout s' = dropout s \<and>
    ffn_dropout s' = ffn_dropout s \<and> split_type s' = split_type s \<and>
    scaffold_overlap s' = scaffold_overlap s \<and> folds_file s' = folds_file s \<and>
    test_fold_index s' = test_fold_index s \<and> test s' = test s \<and>
    epochs s' = epochs s \<and> data_path s' = data_path s \<and>
    prespecified_chunk_dir s' = prespecified_chunk_dir s"
  by (auto simp: unsupervised_step_def split: if_splits option.splits attr.splits sum.splits list.splits prod.splits)

lemma broadcast_lrs_keeps:
  "broadcast_lrs s = Inr s' \<Longrightarrow>
    save_dir s' = save_dir s \<and> no_cuda s' = no_cuda s \<and>
    no_target_scaling s' = no_target_scaling s \<and>
    no_features_scaling s' = no_features_scaling s \<and> cuda s' = cuda s \<and>
    target_scaling s' = target_scaling s \<and>
    features_scaling s' = features_scaling s \<and> metric s' = metric s \<and>
    dataset_type s' = dataset_type s \<and> bert_vocab_func s' = bert_vocab_func s \<and>
    kernel_func s' = kernel_func s \<and> minimize_score s' = minimize_score s \<and>
    checkpoint_dir s' = checkpoint_dir s \<and>
    checkpoint_paths s' = checkpoint_paths s \<and>
    ensemble_size s' = ensemble_size s \<and> jtnn s' = jtnn s \<and>
    vocab_path s' = vocab_path s \<and> features_generator s' = features_generator s \<and>
    features_path s' = features_path s \<and>
    use_input_features s' = use_input_features s \<and>
    predict_features_and_task s' = predict_features_and_task s \<and>
    predict_features s' = predict_features s \<and>
    features_only s' = features_only s \<and> separate_ffn_lr s' = separate_ffn_lr s \<and>
    ffn_num_layers s' = ffn_num_layers s \<and>
    ffn_hidden_size s' = ffn_hidden_size s \<and> hidden_size s' = hidden_size s \<and>
    ffn_input_dropout s' = ffn_input_dropout s \<and> dropout s' = dropout s \<and>
    ffn_dropout s' = ffn_dropout s \<and> split_type s' = split_type s \<and>
    scaffold_overlap s' = scaffold_overlap s \<and> folds_file s' = folds_file s \<and>
    test_fold_index s' = test_fold_index s \<and> test s' = test s \<and>
    epochs s' = epochs s \<and> data_path s' = data_path s \<and>
    prespecified_chunk_dir s' = prespecified_chunk_dir s"
  by (auto simp: broadcast_lrs_def Let_def then_step_eq_Inr split: if_splits option.splits attr.splits sum.splits list.splits prod.splits)

lemma scale_group_keeps:
  "scale_group i s = Inr s' \<Longrightarrow>
    save_dir s' = save_dir s \<and> no_cuda s' = no_cuda s \<and>
    no_target_scaling s' = no_target_scaling s \<and>
    no_features_scaling s' = no_features_scaling s \<and> cuda s' = cuda s \<and>
    target_scaling s' = target_scaling s \<and>
    features_scaling s' = features_scaling s \<and> metric s' = metric s \<and>
    dataset_type s' = dataset_type s \<and> bert_vocab_func s' = bert_vocab_func s \<and>
    kernel_func s' = kernel_func s \<and> minimize_score s' = minimize_score s \<and>
    checkpoint_dir s' = checkpoint_dir s \<and>
    checkpoint_paths s' = checkpoint_paths s \<and>
    ensemble_size s' = ensemble_size s \<and> jtnn s' = jtnn s \<and>
    vocab_path s' = vocab_path s \<and> features_generator s' = features_generator s \<and>
    features_path s' = features_path s \<and>
    use_input_features s' = use_input_features s \<and>
    predict_features_and_task s' = predict_features_and_task s \<and>
    predict_features s' = predict_features s \<and>
    features_only s' = features_only s \<and> separate_ffn_lr s' = separate_ffn_lr s \<and>
    num_lrs s' = num_lrs s \<and> lr_scaler s' = lr_scaler s \<and>
    warmup_epochs s' = warmup_epochs s \<and> weight_decay s' = weight_decay s \<and>
    ffn_num_layers s' = ffn_num_layers s \<and>
    ffn_hidden_size s' = ffn_hidden_size s \<and> hidden_size s' = hidden_size s \<and>
    ffn_input_dropout s' = ffn_input_dropout s \<and> dropout s' = dropout s \<and>
    ffn_dropout s' = ffn_dropout s \<and> split_type s' = split_type s \<and>
    scaffold_overlap s' = scaffold_overlap s \<and> folds_file s' = folds_file s \<and>
    test_fold_index s' = test_fold_index s \<and> test s' = test s \<and>
    epochs s' = epochs s \<and> data_path s' = data_path s \<and>
    prespecified_chunk_dir s' = prespecified_chunk_dir s"
  by (auto simp: scale_group_def scale_at_def then_step_def split: if_splits option.splits attr.splits sum.splits list.splits prod.splits)

lemma scale_loop_keeps:
  "scale_loop l s = Inr s' \<Longrightarrow>
    save_dir s' = save_dir s \<and> no_cuda s' = no_cuda s \<and>
    no_target_scaling s' = no_target_scaling s \<and>
    no_features_scaling s' = no_features_scaling s \<and> cuda s' = cuda s \<and>
    target_scaling s' = target_scaling s \<and>
    features_scaling s' = features_scaling s \<and> metric s' = metric s \<and>
    dataset_type s' = dataset_type s \<and> bert_vocab_func s' = bert_vocab_func s \<and>
    kernel_func s' = kernel_func s \<and> minimize_score s' = minimize_score s \<and>
    checkpoint_dir s' = checkpoint_dir s \<and>
    checkpoint_paths s' = checkpoint_paths s \<and>
    ensemble_size s' = ensemble_size s \<and> jtnn s' = jtnn s \<and>
    vocab_path s' = vocab_path s \<and> features_generator s' = features_generator s \<and>
    features_path s' = features_path s \<and>
    use_input_features s' = use_input_features s \<and>
    predict_features_and_task s' = predict_features_and_task s \<and>
    predict_features s' = predict_features s \<and>
    features_only s' = features_only s \<and> separate_ffn_lr s' = separate_ffn_lr s \<and>
    num_lrs s' = num_lrs s \<and> lr_scaler s' = lr_scaler s \<and>
    warmup_epochs s' = warmup_epochs s \<and> weight_decay s' = weight_decay s \<and>
    ffn_num_layers s' = ffn_num_layers s \<and>
    ffn_hidden_size s' = ffn_hidden_size s \<and> hidden_size s' = hidden_size s \<and>
    ffn_input_dropout s' = ffn_input_dropout s \<and> dropout s' = dropout s \<and>
    ffn_dropout s' = ffn_dropout s \<and> split_type s' = split_type s \<and>
    scaffold_overlap s' = scaffold_overlap s \<and> folds_file s' = folds_file s \<and>
    test_fold_index s' = test_fold_index s \<and> test s' = test s \<and>
    epochs s' = epochs s \<and> data_path s' = data_path s \<and>
    prespecified_chunk_dir s' = prespecified_chunk_dir s"
proof (induction l arbitrary: s)
  case Nil
  then show ?case by simp
next
  case (Cons i l)
  from Cons.prems obtain t where t: "scale_group i s = Inr t" and r: "scale_loop l t = Inr s'"
    by (auto simp: then_step_eq_Inr)
  from Cons.IH [OF r] scale_group_keeps [OF t] show ?case by simp
qed

lemma scale_lrs_keeps:
  assumes "scale_lrs s = Inr s'"
  shows "save_dir s' = save_dir s \<and> no_cuda s' = no_cuda s \<and>
         no_target_scaling s' = no_target_scaling s \<and>
         no_features_scaling s' = no_features_scaling s \<and> cuda s' = cuda s \<and>
         target_scaling s' = target_scaling s \<and>
         features_scaling s' = features_scaling s \<and> metric s' = metric s \<and>
         dataset_type s' = dataset_type s \<and> bert_vocab_func s' = bert_vocab_func s \<and>
         kernel_func s' = kernel_func s \<and> minimize_score s' = minimize_score s \<and>
         checkpoint_dir s' = checkpoint_dir s \<and>
         checkpoint_paths s' = checkpoint_paths s \<and>
         ensemble_size s' = ensemble_size s \<and> jtnn s' = jtnn s \<and>
         vocab_path s' = vocab_path s \<and> features_generator s' = features_generator s \<and>
         features_path s' = features_path s \<and>
         use_input_features s' = use_input_features s \<and>
         predict_features_and_task s' = predict_features_and_task s \<and>
         predict_features s' = predict_features s \<and>
         features_only s' = features_only s \<and> separate_ffn_lr s' = separate_ffn_lr s \<and>
         num_lrs s' = num_lrs s \<and> warmup_epochs s' = warmup_epochs s \<and>
         weight_decay s' = weight_decay s \<and> ffn_num_layers s' = ffn_num_layers s \<and>
         ffn_hidden_size s' = ffn_hidden_size s \<and> hidden_size s' = hidden_size s \<and>
         ffn_input_dropout s' = ffn_input_dropout s \<and> dropout s' = dropout s \<and>
         ffn_dropout s' = ffn_dropout s \<and> split_type s' = split_type s \<and>
         scaffold_overlap s' = scaffold_overlap s \<and> folds_file s' = folds_file s \<and>
         test_fold_index s' = test_fold_index s \<and> test s' = test s \<and>
         epochs s' = epochs s \<and> data_path s' = data_path s \<and>
         prespecified_chunk_dir s' = prespecified_chunk_dir s"
proof -
  from assms obtain n where n: "num_lrs s = Present n"
    by (cases "num_lrs s") (simp_all add: scale_lrs_def)
  with assms obtain t where t: "scale_loop [0..<nat n] s = Inr t"
    and f: "(case lr_scaler t of Absent \<Rightarrow> Inl PyAttributeError
             | Present _ \<Rightarrow> Inr (t\<lparr>lr_scaler := Absent\<rparr>)) = Inr s'"
    by (auto simp: scale_lrs_def then_step_eq_Inr)
  from f have s': "s' = t\<lparr>lr_scaler := Absent\<rparr>"
    by (cases "lr_scaler t") simp_all
  from scale_loop_keeps [OF t] s' show ?thesis by simp
qed

lemma check_ffn_layers_keeps: "check_ffn_layers s = Inr s' \<Longrightarrow> s' = s"
  by (auto simp: check_ffn_layers_def split: if_splits option.splits attr.splits sum.splits list.splits prod.splits)

lemma ffn_defaults_keeps:
  "ffn_defaults s = Inr s' \<Longrightarrow>
    save_dir s' = save_dir s \<and> no_cuda s' = no_cuda s \<and>
    no_target_scaling s' = no_target_scaling s \<and>
    no_features_scaling s' = no_features_scaling s \<and> cuda s' = cuda s \<and>
    target_scaling s' = target_scaling s \<and>
    features_scaling s' = features_scaling s \<and> metric s' = metric s \<and>
    dataset_type s' = dataset_type s \<and> bert_vocab_func s' = bert_vocab_func s \<and>
    kernel_func s' = kernel_func s \<and> minimize_score s' = minimize_score s \<and>
    checkpoint_dir s' = checkpoint_dir s \<and>
    checkpoint_paths s' = checkpoint_paths s \<and>
    ensemble_size s' = ensemble_size s \<and> jtnn s' = jtnn s \<and>
    vocab_path s' = vocab_path s \<and> features_generator s' = features_generator s \<and>
    features_path s' = features_path s \<and>
    use_input_features s' = use_input_features s \<and>
    predict_features_and_task s' = predict_features_and_task s \<and>
    predict_features s' = predict_features s \<and>
    features_only s' = features_only s \<and> separate_ffn_lr s' = separate_ffn_lr s \<and>
    num_lrs s' = num_lrs s \<and> init_lr s' = init_lr s \<and> max_lr s' = max_lr s \<and>
    final_lr s' = final_lr s \<and> lr_scaler s' = lr_scaler s \<and>
    warmup_epochs s' = warmup_epochs s \<and> weight_decay s' = weight_decay s \<and>
    ffn_num_layers s' = ffn_num_layers s \<and> hidden_size s' = hidden_size s \<and>
    dropout s' = dropout s \<and> split_type s' = split_type s \<and>
    scaffold_overlap s' = scaffold_overlap s \<and> folds_file s' = folds_file s \<and>
    test_fold_index s' = test_fold_index s \<and> test s' = test s \<and>
    epochs s' = epochs s \<and> data_path s' = data_path s \<and>
    prespecified_chunk_dir s' = prespecified_chunk_dir s"
  by (auto simp: ffn_defaults_def split: if_splits option.splits attr.splits sum.splits list.splits prod.splits)

lemma check_split_keeps: "check_split s = Inr s' \<Longrightarrow> s' = s"
  by (auto simp: check_split_def split: if_splits option.splits attr.splits sum.splits list.splits prod.splits)

lemma test_step_keeps:
  "test_step s = Inr s' \<Longrightarrow>
    save_dir s' = save_dir s \<and> no_cuda s' = no_cuda s \<and>
    no_target_scaling s' = no_target_scaling s \<and>
    no_features_scaling s' = no_features_scaling s \<and> cuda s' = cuda s \<and>
    target_scaling s' = target_scaling s \<and>
    features_scaling s' = features_scaling s \<and> metric s' = metric s \<and>
    dataset_type s' = dataset_type s \<and> bert_vocab_func s' = bert_vocab_func s \<and>
    kernel_func s' = kernel_func s \<and> minimize_score s' = minimize_score s \<and>
    checkpoint_dir s' = checkpoint_dir s \<and>
    checkpoint_paths s' = checkpoint_paths s \<and>
    ensemble_size s' = ensemble_size s \<and> jtnn s' = jtnn s \<and>
    vocab_path s' = vocab_path s \<and> features_generator s' = features_generator s \<and>
    features_path s' = features_path s \<and>
    use_input_features s' = use_input_features s \<and>
    predict_features_and_task s' = predict_features_and_task s \<and>
    predict_features s' = predict_features s \<and>
    features_only s' = features_only s \<and> separate_ffn_lr s' = separate_ffn_lr s \<and>
    num_lrs s' = num_lrs s \<and> init_lr s' = init_lr s \<and> max_lr s' = max_lr s \<and>
    final_lr s' = final_lr s \<and> lr_scaler s' = lr_scaler s \<and>
    warmup_epochs s' = warmup_epochs s \<and> weight_decay s' = weight_decay s \<and>
    ffn_num_layers s' = ffn_num_layers s \<and>
    ffn_hidden_size s' = ffn_hidden_size s \<and> hidden_size s' = hidden_size s \<and>
    ffn_input_dropout s' = ffn_input_dropout s \<and> dropout s' = dropout s \<and>
    ffn_dropout s' = ffn_dropout s \<and> split_type s' = split_type s \<and>
    scaffold_overlap s' = scaffold_overlap s \<and> folds_file s' = folds_file s \<and>
    test_fold_index s' = test_fold_index s \<and> test s' = test s \<and>
    data_path s' = data_path s \<and> prespecified_chunk_dir s' = prespecified_chunk_dir s"
  by (auto simp: test_step_def split: if_splits option.splits attr.splits sum.splits list.splits prod.splits)

lemma chunk_step_keeps:
  "chunk_step env s = Inr s' \<Longrightarrow>
    save_dir s' = save_dir s \<and> no_cuda s' = no_cuda s \<and>
    no_target_scaling s' = no_target_scaling s \<and>
    no_features_scaling s' = no_features_scaling s \<and> cuda s' = cuda s \<and>
    target_scaling s' = target_scaling s \<and>
    features_scaling s' = features_scaling s \<and> metric s' = metric s \<and>
    dataset_type s' = dataset_type s \<and> bert_vocab_func s' = bert_vocab_func s \<and>
    kernel_func s' = kernel_func s \<and> minimize_score s' = minimize_score s \<and>
    checkpoint_dir s' = checkpoint_dir s \<and>
    checkpoint_paths s' = checkpoint_paths s \<and>
    ensemble_size s' = ensemble_size s \<and> jtnn s' = jtnn s \<and>
    vocab_path s' = vocab_path s \<and> features_generator s' = features_generator s \<and>
    features_path s' = features_path s \<and>
    use_input_features s' = use_input_features s \<and>
    predict_features_and_task s' = predict_features_and_task s \<and>
    predict_features s' = predict_features s \<and>
    features_only s' = features_only s \<and> separate_ffn_lr s' = separate_ffn_lr s \<and>
    num_lrs s' = num_lrs s \<and> init_lr s' = init_lr s \<and> max_lr s' = max_lr s \<and>
    final_lr s' = final_lr s \<and> lr_scaler s' = lr_scaler s \<and>
    warmup_epochs s' = warmup_epochs s \<and> weight_decay s' = weight_decay s \<and>
    ffn_num_layers s' = ffn_num_layers s \<and>
    ffn_hidden_size s' = ffn_hidden_size s \<and> hidden_size s' = hidden_size s \<and>
    ffn_input_dropout s' = ffn_input_dropout s \<and> dropout s' = dropout s \<and>
    ffn_dropout s' = ffn_dropout s \<and> split_type s' = split_type s \<and>
    scaffold_overlap s' = scaffold_overlap s \<and> folds_file s' = folds_file s \<and>
    test_fold_index s' = test_fold_index s \<and> test s' = test s \<and>
    epochs s' = epochs s"
  by (auto simp: chunk_step_def Let_def split: if_splits option.splits attr.splits sum.splits list.splits prod.splits)

subsection \<open>The blocks in sequence\<close>

lemma at_metric_steps:
  "at_metric env a = Inr t \<longleftrightarrow>
     (\<exists>t1. save_dir_step env a = Inr t1 \<and> invert_flags env t1 = Inr t)"
  by (auto simp: at_metric_def then_step_eq_Inr)

lemma at_metric_check_steps:
  "at_metric_check env a = Inr t \<longleftrightarrow>
     (\<exists>s. at_metric env a = Inr s \<and>
        default_metric s = Inr t)"
  by (auto simp: at_metric_check_def then_step_eq_Inr)

lemma at_checkpoint_steps:
  "at_checkpoint env a = Inr t \<longleftrightarrow>
     (\<exists>s t1. at_metric_check env a = Inr s \<and>
        check_metric s = Inr t1 \<and> set_minimize_score t1 = Inr t)"
  by (auto simp: at_checkpoint_def then_step_eq_Inr)

lemma at_jtnn_steps:
  "at_jtnn env a = Inr t \<longleftrightarrow>
     (\<exists>s. at_checkpoint env a = Inr s \<and>
        update_args_from_checkpoint_dir env s = Inr t)"
  by (auto simp: at_jtnn_def then_step_eq_Inr)

lemma at_features_steps:
  "at_features env a = Inr t \<longleftrightarrow>
     (\<exists>s. at_jtnn env a = Inr s \<and>
        check_jtnn env s = Inr t)"
  by (auto simp: at_features_def then_step_eq_Inr)

lemma at_lr_steps:
  "at_lr env a = Inr t \<longleftrightarrow>
     (\<exists>s t1 t2 t3 t4. at_features env a = Inr s \<and>
        set_use_input_features s = Inr t1 \<and> features_and_task_step t1 = Inr t2 \<and> predict_features_step t2 = Inr t3 \<and> bert_step t3 = Inr t4 \<and> unsupervised_step t4 = Inr t)"
  by (auto simp: at_lr_def then_step_eq_Inr)

lemma at_ffn_steps:
  "at_ffn env a = Inr t \<longleftrightarrow>
     (\<exists>s t1. at_lr env a = Inr s \<and>
        broadcast_lrs s = Inr t1 \<and> scale_lrs t1 = Inr t)"
  by (auto simp: at_ffn_def then_step_eq_Inr)

lemma at_split_steps:
  "at_split env a = Inr t \<longleftrightarrow>
     (\<exists>s t1. at_ffn env a = Inr s \<and>
        check_ffn_layers s = Inr t1 \<and> ffn_defaults t1 = Inr t)"
  by (auto simp: at_split_def then_step_eq_Inr)

lemma at_chunk_steps:
  "at_chunk env a = Inr t \<longleftrightarrow>
     (\<exists>s t1. at_split env a = Inr s \<and>
        check_split s = Inr t1 \<and> test_step t1 = Inr t)"
  by (auto simp: at_chunk_def then_step_eq_Inr)

lemma modify_train_args_steps:
  "modify_train_args env a = Inr t \<longleftrightarrow>
     (\<exists>s. at_chunk env a = Inr s \<and>
        chunk_step env s = Inr t)"
  by (auto simp: modify_train_args_def then_step_eq_Inr)

lemma at_metric_segment:
  assumes "at_metric env a = Inr t"
  shows "metric t = metric a \<and> dataset_type t = dataset_type a \<and>
         bert_vocab_func t = bert_vocab_func a \<and> kernel_func t = kernel_func a \<and>
         minimize_score t = minimize_score a \<and> checkpoint_dir t = checkpoint_dir a \<and>
         checkpoint_paths t = checkpoint_paths a \<and> ensemble_size t = ensemble_size a \<and>
         jtnn t = jtnn a \<and> vocab_path t = vocab_path a \<and>
         features_generator t = features_generator a \<and>
         features_path t = features_path a \<and>
         use_input_features t = use_input_features a \<and>
         predict_features_and_task t = predict_features_and_task a \<and>
         predict_features t = predict_features a \<and> features_only t = features_only a \<and>
         separate_ffn_lr t = separate_ffn_lr a \<and> num_lrs t = num_lrs a \<and>
         init_lr t = init_lr a \<and> max_lr t = max_lr a \<and> final_lr t = final_lr a \<and>
         lr_scaler t = lr_scaler a \<and> warmup_epochs t = warmup_epochs a \<and>
         weight_decay t = weight_decay a \<and> ffn_num_layers t = ffn_num_layers a \<and>
         ffn_hidden_size t = ffn_hidden_size a \<and> hidden_size t = hidden_size a \<and>
         ffn_input_dropout t = ffn_input_dropout a \<and> dropout t = dropout a \<and>
         ffn_dropout t = ffn_dropout a \<and> split_type t = split_type a \<and>
         scaffold_overlap t = scaffold_overlap a \<and> folds_file t = folds_file a \<and>
         test_fold_index t = test_fold_index a \<and> test t = test a \<and>
         epochs t = epochs a \<and> data_path t = data_path a \<and>
         prespecified_chunk_dir t = prespecified_chunk_dir a"
proof -
  from assms obtain t1 where
    h0: "save_dir_step env a = Inr t1"
    and h1: "invert_flags env t1 = Inr t"
    by (auto simp: at_metric_steps)
  from save_dir_step_keeps [OF h0] invert_flags_keeps [OF h1] show ?thesis by simp
qed

lemma at_metric_check_segment:
  assumes "at_metric env a = Inr s" and "at_metric_check env a = Inr t"
  shows "save_dir t = save_dir s \<and> no_cuda t = no_cuda s \<and>
         no_target_scaling t = no_target_scaling s \<and>
         no_features_scaling t = no_features_scaling s \<and> cuda t = cuda s \<and>
         target_scaling t = target_scaling s \<and>
         features_scaling t = features_scaling s \<and> dataset_type t = dataset_type s \<and>
         bert_vocab_func t = bert_vocab_func s \<and> kernel_func t = kernel_func s \<and>
         minimize_score t = minimize_score s \<and> checkpoint_dir t = checkpoint_dir s \<and>
         checkpoint_paths t = checkpoint_paths s \<and> ensemble_size t = ensemble_size s \<and>
         jtnn t = jtnn s \<and> vocab_path t = vocab_path s \<and>
         features_generator t = features_generator s \<and>
         features_path t = features_path s \<and>
         use_input_features t = use_input_features s \<and>
         predict_features_and_task t = predict_features_and_task s \<and>
         predict_features t = predict_features s \<and> features_only t = features_only s \<and>
         separate_ffn_lr t = separate_ffn_lr s \<and> num_lrs t = num_lrs s \<and>
         init_lr t = init_lr s \<and> max_lr t = max_lr s \<and> final_lr t = final_lr s \<and>
         lr_scaler t = lr_scaler s \<and> warmup_epochs t = warmup_epochs s \<and>
         weight_decay t = weight_decay s \<and> ffn_num_layers t = ffn_num_layers s \<and>
         ffn_hidden_size t = ffn_hidden_size s \<and> hidden_size t = hidden_size s \<and>
         ffn_input_dropout t = ffn_input_dropout s \<and> dropout t = dropout s \<and>
         ffn_dropout t = ffn_dropout s \<and> split_type t = split_type s \<and>
         scaffold_overlap t = scaffold_overlap s \<and> folds_file t = folds_file s \<and>
         test_fold_index t = test_fold_index s \<and> test t = test s \<and>
         epochs t = epochs s \<and> data_path t = data_path s \<and>
         prespecified_chunk_dir t = prespecified_chunk_dir s"
proof -
  from assms have h0: "default_metric s = Inr t"
    by (auto simp: at_metric_check_steps)
  from default_metric_keeps [OF h0] show ?thesis by simp
qed

lemma at_checkpoint_segment:
  assumes "at_metric_check env a = Inr s" and "at_checkpoint env a = Inr t"
  shows "save_dir t = save_dir s \<and> no_cuda t = no_cuda s \<and>
         no_target_scaling t = no_target_scaling s \<and>
         no_features_scaling t = no_features_scaling s \<and> cuda t = cuda s \<and>
         target_scaling t = target_scaling s \<and>
         features_scaling t = features_scaling s \<and> metric t = metric s \<and>
         dataset_type t = dataset_type s \<and> bert_vocab_func t = bert_vocab_func s \<and>
         kernel_func t = kernel_func s \<and> checkpoint_dir t = checkpoint_dir s \<and>
         checkpoint_paths t = checkpoint_paths s \<and> ensemble_size t = ensemble_size s \<and>
         jtnn t = jtnn s \<and> vocab_path t = vocab_path s \<and>
         features_generator t = features_generator s \<and>
         features_path t = features_path s \<and>
         use_input_features t = use_input_features s \<and>
         predict_features_and_task t = predict_features_and_task s \<and>
         predict_features t = predict_features s \<and> features_only t = features_only s \<and>
         separate_ffn_lr t = separate_ffn_lr s \<and> num_lrs t = num_lrs s \<and>
         init_lr t = init_lr s \<and> max_lr t = max_lr s \<and> final_lr t = final_lr s \<and>
         lr_scaler t = lr_scaler s \<and> warmup_epochs t = warmup_epochs s \<and>
         weight_decay t = weight_decay s \<and> ffn_num_layers t = ffn_num_layers s \<and>
         ffn_hidden_size t = ffn_hidden_size s \<and> hidden_size t = hidden_size s \<and>
         ffn_input_dropout t = ffn_input_dropout s \<and> dropout t = dropout s \<and>
         ffn_dropout t = ffn_dropout s \<and> split_type t = split_type s \<and>
         scaffold_overlap t = scaffold_overlap s \<and> folds_file t = folds_file s \<and>
         test_fold_index t = test_fold_index s \<and> test t = test s \<and>
         epochs t = epochs s \<and> data_path t = data_path s \<and>
         prespecified_chunk_dir t = prespecified_chunk_dir s"
proof -
  from assms obtain t1 where
    h0: "check_metric s = Inr t1"
    and h1: "set_minimize_score t1 = Inr t"
    by (auto simp: at_checkpoint_steps)
  from check_metric_keeps [OF h0] set_minimize_score_keeps [OF h1] show ?thesis by simp
qed

lemma at_jtnn_segment:
  assumes "at_checkpoint env a = Inr s" and "at_jtnn env a = Inr t"
  shows "save_dir t = save_dir s \<and> no_cuda t = no_cuda s \<and>
         no_target_scaling t = no_target_scaling s \<and>
         no_features_scaling t = no_features_scaling s \<and> cuda t = cuda s \<and>
         target_scaling t = target_scaling s \<and>
         features_scaling t = features_scaling s \<and> metric t = metric s \<and>
         dataset_type t = dataset_type s \<and> bert_vocab_func t = bert_vocab_func s \<and>
         kernel_func t = kernel_func s \<and> minimize_score t = minimize_score s \<and>
         checkpoint_dir t = checkpoint_dir s \<and> jtnn t = jtnn s \<and>
         vocab_path t = vocab_path s \<and> features_generator t = features_generator s \<and>
         features_path t = features_path s \<and>
         use_input_features t = use_input_features s \<and>
         predict_features_and_task t = predict_features_and_task s \<and>
         predict_features t = predict_features s \<and> features_only t = features_only s \<and>
         separate_ffn_lr t = separate_ffn_lr s \<and> num_lrs t = num_lrs s \<and>
         init_lr t = init_lr s \<and> max_lr t = max_lr s \<and> final_lr t = final_lr s \<and>
         lr_scaler t = lr_scaler s \<and> warmup_epochs t = warmup_epochs s \<and>
         weight_decay t = weight_decay s \<and> ffn_num_layers t = ffn_num_layers s \<and>
         ffn_hidden_size t = ffn_hidden_size s \<and> hidden_size t = hidden_size s \<and>
         ffn_input_dropout t = ffn_input_dropout s \<and> dropout t = dropout s \<and>
         ffn_dropout t = ffn_dropout s \<and> split_type t = split_type s \<and>
         scaffold_overlap t = scaffold_overlap s \<and> folds_file t = folds_file s \<and>
         test_fold_index t = test_fold_index s \<and> test t = test s \<and>
         epochs t = epochs s \<and> data_path t = data_path s \<and>
         prespecified_chunk_dir t = prespecified_chunk_dir s"
proof -
  from assms have h0: "update_args_from_checkpoint_dir env s = Inr t"
    by (auto simp: at_jtnn_steps)
  from update_args_from_checkpoint_dir_keeps [OF h0] show ?thesis by simp
qed

lemma at_features_segment:
  assumes "at_jtnn env a = Inr s" and "at_features env a = Inr t"
  shows "save_dir t = save_dir s \<and> no_cuda t = no_cuda s \<and>
         no_target_scaling t = no_target_scaling s \<and>
         no_features_scaling t = no_features_scaling s \<and> cuda t = cuda s \<and>
         target_scaling t = target_scaling s \<and>
         features_scaling t = features_scaling s \<and> metric t = metric s \<and>
         dataset_type t = dataset_type s \<and> bert_vocab_func t = bert_vocab_func s \<and>
         kernel_func t = kernel_func s \<and> minimize_score t = minimize_score s \<and>
         checkpoint_dir t = checkpoint_dir s \<and>
         checkpoint_paths t = checkpoint_paths s \<and> ensemble_size t = ensemble_size s \<and>
         jtnn t = jtnn s \<and> vocab_path t = vocab_path s \<and>
         features_generator t = features_generator s \<and>
         features_path t = features_path s \<and>
         use_input_features t = use_input_features s \<and>
         predict_features_and_task t = predict_features_and_task s \<and>
         predict_features t = predict_features s \<and> features_only t = features_only s \<and>
         separate_ffn_lr t = separate_ffn_lr s \<and> num_lrs t = num_lrs s \<and>
         init_lr t = init_lr s \<and> max_lr t = max_lr s \<and> final_lr t = final_lr s \<and>
         lr_scaler t = lr_scaler s \<and> warmup_epochs t = warmup_epochs s \<and>
         weight_decay t = weight_decay s \<and> ffn_num_layers t = ffn_num_layers s \<and>
         ffn_hidden_size t = ffn_hidden_size s \<and> hidden_size t = hidden_size s \<and>
         ffn_input_dropout t = ffn_input_dropout s \<and> dropout t = dropout s \<and>
         ffn_dropout t = ffn_dropout s \<and> split_type t = split_type s \<and>
         scaffold_overlap t = scaffold_overlap s \<and> folds_file t = folds_file s \<and>
         test_fold_index t = test_fold_index s \<and> test t = test s \<and>
         epochs t = epochs s \<and> data_path t = data_path s \<and>
         prespecified_chunk_dir t = prespecified_chunk_dir s"
proof -
  from assms have h0: "check_jtnn env s = Inr t"
    by (auto simp: at_features_steps)
  from check_jtnn_keeps [OF h0] show ?thesis by simp
qed

lemma at_lr_segment:
  assumes "at_features env a = Inr s" and "at_lr env a = Inr t"
  shows "save_dir t = save_dir s \<and> no_cuda t = no_cuda s \<and>
         no_target_scaling t = no_target_scaling s \<and>
         no_features_scaling t = no_features_scaling s \<and> cuda t = cuda s \<and>
         target_scaling t = target_scaling s \<and>
         features_scaling t = features_scaling s \<and> metric t = metric s \<and>
         dataset_type t = dataset_type s \<and> bert_vocab_func t = bert_vocab_func s \<and>
         kernel_func t = kernel_func s \<and> minimize_score t = minimize_score s \<and>
         checkpoint_dir t = checkpoint_dir s \<and>
         checkpoint_paths t = checkpoint_paths s \<and> ensemble_size t = ensemble_size s \<and>
         jtnn t = jtnn s \<and> vocab_path t = vocab_path s \<and>
         features_generator t = features_generator s \<and>
         features_path t = features_path s \<and>
         predict_features_and_task t = predict_features_and_task s \<and>
         features_only t = features_only s \<and> num_lrs t = num_lrs s \<and>
         init_lr t = init_lr s \<and> max_lr t = max_lr s \<and> final_lr t = final_lr s \<and>
         lr_scaler t = lr_scaler s \<and> warmup_epochs t = warmup_epochs s \<and>
         weight_decay t = weight_decay s \<and> ffn_num_layers t = ffn_num_layers s \<and>
         ffn_hidden_size t = ffn_hidden_size s \<and> hidden_size t = hidden_size s \<and>
         ffn_input_dropout t = ffn_input_dropout s \<and> dropout t = dropout s \<and>
         ffn_dropout t = ffn_dropout s \<and> split_type t = split_type s \<and>
         scaffold_overlap t = scaffold_overlap s \<and> folds_file t = folds_file s \<and>
         test_fold_index t = test_fold_index s \<and> test t = test s \<and>
         epochs t = epochs s \<and> data_path t = data_path s \<and>
         prespecified_chunk_dir t = prespecified_chunk_dir s"
proof -
  from assms obtain t1 t2 t3 t4 where
    h0: "set_use_input_features s = Inr t1"
    and h1: "features_and_task_step t1 = Inr t2"
    and h2: "predict_features_step t2 = Inr t3"
    and h3: "bert_step t3 = Inr t4"
    and h4: "unsupervised_step t4 = Inr t"
    by (auto simp: at_lr_steps)
  from set_use_input_features_keeps [OF h0] features_and_task_step_keeps [OF h1] predict_features_step_keeps [OF h2] bert_step_keeps [OF h3] unsupervised_step_keeps [OF h4] show ?thesis by simp
qed

lemma at_ffn_segment:
  assumes "at_lr env a = Inr s" and "at_ffn env a = Inr t"
  shows "save_dir t = save_dir s \<and> no_cuda t = no_cuda s \<and>
         no_target_scaling t = no_target_scaling s \<and>
         no_features_scaling t = no_features_scaling s \<and> cuda t = cuda s \<and>
         target_scaling t = target_scaling s \<and>
         features_scaling t = features_scaling s \<and> metric t = metric s \<and>
         dataset_type t = dataset_type s \<and> bert_vocab_func t = bert_vocab_func s \<and>
         kernel_func t = kernel_func s \<and> minimize_score t = minimize_score s \<and>
         checkpoint_dir t = checkpoint_dir s \<and>
         checkpoint_paths t = checkpoint_paths s \<and> ensemble_size t = ensemble_size s \<and>
         jtnn t = jtnn s \<and> vocab_path t = vocab_path s \<and>
         features_generator t = features_generator s \<and>
         features_path t = features_path s \<and>
         use_input_features t = use_input_features s \<and>
         predict_features_and_task t = predict_features_and_task s \<and>
         predict_features t = predict_features s \<and> features_only t = features_only s \<and>
         separate_ffn_lr t = separate_ffn_lr s \<and> ffn_num_layers t = ffn_num_layers s \<and>
         ffn_hidden_size t = ffn_hidden_size s \<and> hidden_size t = hidden_size s \<and>
         ffn_input_dropout t = ffn_input_dropout s \<and> dropout t = dropout s \<and>
         ffn_dropout t = ffn_dropout s \<and> split_type t = split_type s \<and>
         scaffold_overlap t = scaffold_overlap s \<and> folds_file t = folds_file s \<and>
         test_fold_index t = test_fold_index s \<and> test t = test s \<and>
         epochs t = epochs s \<and> data_path t = data_path s \<and>
         prespecified_chunk_dir t = prespecified_chunk_dir s"
proof -
  from assms obtain t1 where
    h0: "broadcast_lrs s = Inr t1"
    and h1: "scale_lrs t1 = Inr t"
    by (auto simp: at_ffn_steps)
  from broadcast_lrs_keeps [OF h0] scale_lrs_keeps [OF h1] show ?thesis by simp
qed

lemma at_split_segment:
  assumes "at_ffn env a = Inr s" and "at_split env a = Inr t"
  shows "save_dir t = save_dir s \<and> no_cuda t = no_cuda s \<and>
         no_target_scaling t = no_target_scaling s \<and>
         no_features_scaling t = no_features_scaling s \<and> cuda t = cuda s \<and>
         target_scaling t = target_scaling s \<and>
         features_scaling t = features_scaling s \<and> metric t = metric s \<and>
         dataset_type t = dataset_type s \<and> bert_vocab_func t = bert_vocab_func s \<and>
         kernel_func t = kernel_func s \<and> minimize_score t = minimize_score s \<and>
         checkpoint_dir t = checkpoint_dir s \<and>
         checkpoint_paths t = checkpoint_paths s \<and> ensemble_size t = ensemble_size s \<and>
         jtnn t = jtnn s \<and> vocab_path t = vocab_path s \<and>
         features_generator t = features_generator s \<and>
         features_path t = features_path s \<and>
         use_input_features t = use_input_features s \<and>
         predict_features_and_task t = predict_features_and_task s \<and>
         predict_features t = predict_features s \<and> features_only t = features_only s \<and>
         separate_ffn_lr t = separate_ffn_lr s \<and> num_lrs t = num_lrs s \<and>
         init_lr t = init_lr s \<and> max_lr t = max_lr s \<and> final_lr t = final_lr s \<and>
         lr_scaler t = lr_scaler s \<and> warmup_epochs t = warmup_epochs s \<and>
         weight_decay t = weight_decay s \<and> ffn_num_layers t = ffn_num_layers s \<and>
         hidden_size t = hidden_size s \<and> dropout t = dropout s \<and>
         split_type t = split_type s \<and> scaffold_overlap t = scaffold_overlap s \<and>
         folds_file t = folds_file s \<and> test_fold_index t = test_fold_index s \<and>
         test t = test s \<and> epochs t = epochs s \<and> data_path t = data_path s \<and>
         prespecified_chunk_dir t = prespecified_chunk_dir s"
proof -
  from assms obtain t1 where
    h0: "check_ffn_layers s = Inr t1"
    and h1: "ffn_defaults t1 = Inr t"
    by (auto simp: at_split_steps)
  from check_ffn_layers_keeps [OF h0] ffn_defaults_keeps [OF h1] show ?thesis by simp
qed

lemma at_chunk_segment:
  assumes "at_split env a = Inr s" and "at_chunk env a = Inr t"
  shows "save_dir t = save_dir s \<and> no_cuda t = no_cuda s \<and>
         no_target_scaling t = no_target_scaling s \<and>
         no_features_scaling t = no_features_scaling s \<and> cuda t = cuda s \<and>
         target_scaling t = target_scaling s \<and>
         features_scaling t = features_scaling s \<and> metric t = metric s \<and>
         dataset_type t = dataset_type s \<and> bert_vocab_func t = bert_vocab_func s \<and>
         kernel_func t = kernel_func s \<and> minimize_score t = minimize_score s \<and>
         checkpoint_dir t = checkpoint_dir s \<and>
         checkpoint_paths t = checkpoint_paths s \<and> ensemble_size t = ensemble_size s \<and>
         jtnn t = jtnn s \<and> vocab_path t = vocab_path s \<and>
         features_generator t = features_generator s \<and>
         features_path t = features_path s \<and>
         use_input_features t = use_input_features s \<and>
         predict_features_and_task t = predict_features_and_task s \<and>
         predict_features t = predict_features s \<and> features_only t = features_only s \<and>
         separate_ffn_lr t = separate_ffn_lr s \<and> num_lrs t = num_lrs s \<and>
         init_lr t = init_lr s \<and> max_lr t = max_lr s \<and> final_lr t = final_lr s \<and>
         lr_scaler t = lr_scaler s \<and> warmup_epochs t = warmup_epochs s \<and>
         weight_decay t = weight_decay s \<and> ffn_num_layers t = ffn_num_layers s \<and>
         ffn_hidden_size t = ffn_hidden_size s \<and> hidden_size t = hidden_size s \<and>
         ffn_input_dropout t = ffn_input_dropout s \<and> dropout t = dropout s \<and>
         ffn_dropout t = ffn_dropout s \<and> split_type t = split_type s \<and>
         scaffold_overlap t = scaffold_overlap s \<and> folds_file t = folds_file s \<and>
         test_fold_index t = test_fold_index s \<and> test t = test s \<and>
         data_path t = data_path s \<and> prespecified_chunk_dir t = prespecified_chunk_dir s"
proof -
  from assms obtain t1 where
    h0: "check_split s = Inr t1"
    and h1: "test_step t1 = Inr t"
    by (auto simp: at_chunk_steps)
  from check_split_keeps [OF h0] test_step_keeps [OF h1] show ?thesis by simp
qed

lemma modify_train_args_segment:
  assumes "at_chunk env a = Inr s" and "modify_train_args env a = Inr t"
  shows "save_dir t = save_dir s \<and> no_cuda t = no_cuda s \<and>
         no_target_scaling t = no_target_scaling s \<and>
         no_features_scaling t = no_features_scaling s \<and> cuda t = cuda s \<and>
         target_scaling t = target_scaling s \<and>
         features_scaling t = features_scaling s \<and> metric t = metric s \<and>
         dataset_type t = dataset_type s \<and> bert_vocab_func t = bert_vocab_func s \<and>
         kernel_func t = kernel_func s \<and> minimize_score t = minimize_score s \<and>
         checkpoint_dir t = checkpoint_dir s \<and>
         checkpoint_paths t = checkpoint_paths s \<and> ensemble_size t = ensemble_size s \<and>
         jtnn t = jtnn s \<and> vocab_path t = vocab_path s \<and>
         features_generator t = features_generator s \<and>
         features_path t = features_path s \<and>
         use_input_features t = use_input_features s \<and>
         predict_features_and_task t = predict_features_and_task s \<and>
         predict_features t = predict_features s \<and> features_only t = features_only s \<and>
         separate_ffn_lr t = separate_ffn_lr s \<and> num_lrs t = num_lrs s \<and>
         init_lr t = init_lr s \<and> max_lr t = max_lr s \<and> final_lr t = final_lr s \<and>
         lr_scaler t = lr_scaler s \<and> warmup_epochs t = warmup_epochs s \<and>
         weight_decay t = weight_decay s \<and> ffn_num_layers t = ffn_num_layers s \<and>
         ffn_hidden_size t = ffn_hidden_size s \<and> hidden_size t = hidden_size s \<and>
         ffn_input_dropout t = ffn_input_dropout s \<and> dropout t = dropout s \<and>
         ffn_dropout t = ffn_dropout s \<and> split_type t = split_type s \<and>
         scaffold_overlap t = scaffold_overlap s \<and> folds_file t = folds_file s \<and>
         test_fold_index t = test_fold_index s \<and> test t = test s \<and> epochs t = epochs s"
proof -
  from assms have h0: "chunk_step env s = Inr t"
    by (auto simp: modify_train_args_steps)
  from chunk_step_keeps [OF h0] show ?thesis by simp
qed

lemma at_metric_check_reached: "at_metric_check env a = Inr t \<Longrightarrow> \<exists>s. at_metric env a = Inr s"
  by (auto simp: at_metric_check_steps)

lemma at_checkpoint_reached: "at_checkpoint env a = Inr t \<Longrightarrow> \<exists>s. at_metric_check env a = Inr s"
  by (auto simp: at_checkpoint_steps)

lemma at_jtnn_reached: "at_jtnn env a = Inr t \<Longrightarrow> \<exists>s. at_checkpoint env a = Inr s"
  by (auto simp: at_jtnn_steps)

lemma at_features_reached: "at_features env a = Inr t \<Longrightarrow> \<exists>s. at_jtnn env a = Inr s"
  by (auto simp: at_features_steps)

lemma at_lr_reached: "at_lr env a = Inr t \<Longrightarrow> \<exists>s. at_features env a = Inr s"
  by (auto simp: at_lr_steps)

lemma at_ffn_reached: "at_ffn env a = Inr t \<Longrightarrow> \<exists>s. at_lr env a = Inr s"
  by (auto simp: at_ffn_steps)

lemma at_split_reached: "at_split env a = Inr t \<Longrightarrow> \<exists>s. at_ffn env a = Inr s"
  by (auto simp: at_split_steps)

lemma at_chunk_reached: "at_chunk env a = Inr t \<Longrightarrow> \<exists>s. at_split env a = Inr s"
  by (auto simp: at_chunk_steps)

lemma modify_train_args_reached: "modify_train_args env a = Inr t \<Longrightarrow> \<exists>s. at_chunk env a = Inr s"
  by (auto simp: modify_train_args_steps)

lemma at_checkpoint_input:
  assumes "at_checkpoint env a = Inr t"
  shows "dataset_type t = dataset_type a \<and> bert_vocab_func t = bert_vocab_func a \<and>
         kernel_func t = kernel_func a \<and> checkpoint_dir t = checkpoint_dir a \<and>
         checkpoint_paths t = checkpoint_paths a \<and> ensemble_size t = ensemble_size a \<and>
         jtnn t = jtnn a \<and> vocab_path t = vocab_path a \<and>
         features_generator t = features_generator a \<and>
         features_path t = features_path a \<and>
         use_input_features t = use_input_features a \<and>
         predict_features_and_task t = predict_features_and_task a \<and>
         predict_features t = predict_features a \<and> features_only t = features_only a \<and>
         separate_ffn_lr t = separate_ffn_lr a \<and> num_lrs t = num_lrs a \<and>
         init_lr t = init_lr a \<and> max_lr t = max_lr a \<and> final_lr t = final_lr a \<and>
         lr_scaler t = lr_scaler a \<and> warmup_epochs t = warmup_epochs a \<and>
         weight_decay t = weight_decay a \<and> ffn_num_layers t = ffn_num_layers a \<and>
         ffn_hidden_size t = ffn_hidden_size a \<and> hidden_size t = hidden_size a \<and>
         ffn_input_dropout t = ffn_input_dropout a \<and> dropout t = dropout a \<and>
         ffn_dropout t = ffn_dropout a \<and> split_type t = split_type a \<and>
         scaffold_overlap t = scaffold_overlap a \<and> folds_file t = folds_file a \<and>
         test_fold_index t = test_fold_index a \<and> test t = test a \<and>
         epochs t = epochs a \<and> data_path t = data_path a \<and>
         prespecified_chunk_dir t = prespecified_chunk_dir a"
proof -
  note r2 = assms
  from at_checkpoint_reached [OF r2] obtain u1 where r1: "at_metric_check env a = Inr u1" ..
  from at_metric_check_reached [OF r1] obtain u0 where r0: "at_metric env a = Inr u0" ..
  from at_metric_segment [OF r0]
    at_metric_check_segment [OF r0 r1]
    at_checkpoint_segment [OF r1 r2]
  show ?thesis by simp
qed

lemma at_jtnn_input:
  assumes "at_jtnn env a = Inr t"
  shows "dataset_type t = dataset_type a \<and> bert_vocab_func t = bert_vocab_func a \<and>
         kernel_func t = kernel_func a \<and> checkpoint_dir t = checkpoint_dir a \<and>
         jtnn t = jtnn a \<and> vocab_path t = vocab_path a \<and>
         features_generator t = features_generator a \<and>
         features_path t = features_path a \<and>
         use_input_features t = use_input_features a \<and>
         predict_features_and_task t = predict_features_and_task a \<and>
         predict_features t = predict_features a \<and> features_only t = features_only a \<and>
         separate_ffn_lr t = separate_ffn_lr a \<and> num_lrs t = num_lrs a \<and>
         init_lr t = init_lr a \<and> max_lr t = max_lr a \<and> final_lr t = final_lr a \<and>
         lr_scaler t = lr_scaler a \<and> warmup_epochs t = warmup_epochs a \<and>
         weight_decay t = weight_decay a \<and> ffn_num_layers t = ffn_num_layers a \<and>
         ffn_hidden_size t = ffn_hidden_size a \<and> hidden_size t = hidden_size a \<and>
         ffn_input_dropout t = ffn_input_dropout a \<and> dropout t = dropout a \<and>
         ffn_dropout t = ffn_dropout a \<and> split_type t = split_type a \<and>
         scaffold_overlap t = scaffold_overlap a \<and> folds_file t = folds_file a \<and>
         test_fold_index t = test_fold_index a \<and> test t = test a \<and>
         epochs t = epochs a \<and> data_path t = data_path a \<and>
         prespecified_chunk_dir t = prespecified_chunk_dir a"
proof -
  note r3 = assms
  from at_jtnn_reached [OF r3] obtain u2 where r2: "at_checkpoint env a = Inr u2" ..
  from at_checkpoint_reached [OF r2] obtain u1 where r1: "at_metric_check env a = Inr u1" ..
  from at_metric_check_reached [OF r1] obtain u0 where r0: "at_metric env a = Inr u0" ..
  from at_metric_segment [OF r0]
    at_metric_check_segment [OF r0 r1]
    at_checkpoint_segment [OF r1 r2]
    at_jtnn_segment [OF r2 r3]
  show ?thesis by simp
qed

lemma at_features_input:
  assumes "at_features env a = Inr t"
  shows "dataset_type t = dataset_type a \<and> bert_vocab_func t = bert_vocab_func a \<and>
         kernel_func t = kernel_func a \<and> checkpoint_dir t = checkpoint_dir a \<and>
         jtnn t = jtnn a \<and> vocab_path t = vocab_path a \<and>
         features_generator t = features_generator a \<and>
         features_path t = features_path a \<and>
         use_input_features t = use_input_features a \<and>
         predict_features_and_task t = predict_features_and_task a \<and>
         predict_features t = predict_features a \<and> features_only t = features_only a \<and>
         separate_ffn_lr t = separate_ffn_lr a \<and> num_lrs t = num_lrs a \<and>
         init_lr t = init_lr a \<and> max_lr t = max_lr a \<and> final_lr t = final_lr a \<and>
         lr_scaler t = lr_scaler a \<and> warmup_epochs t = warmup_epochs a \<and>
         weight_decay t = weight_decay a \<and> ffn_num_layers t = ffn_num_layers a \<and>
         ffn_hidden_size t = ffn_hidden_size a \<and> hidden_size t = hidden_size a \<and>
         ffn_input_dropout t = ffn_input_dropout a \<and> dropout t = dropout a \<and>
         ffn_dropout t = ffn_dropout a \<and> split_type t = split_type a \<and>
         scaffold_overlap t = scaffold_overlap a \<and> folds_file t = folds_file a \<and>
         test_fold_index t = test_fold_index a \<and> test t = test a \<and>
         epochs t = epochs a \<and> data_path t = data_path a \<and>
         prespecified_chunk_dir t = prespecified_chunk_dir a"
proof -
  note r4 = assms
  from at_features_reached [OF r4] obtain u3 where r3: "at_jtnn env a = Inr u3" ..
  from at_jtnn_reached [OF r3] obtain u2 where r2: "at_checkpoint env a = Inr u2" ..
  from at_checkpoint_reached [OF r2] obtain u1 where r1: "at_metric_check env a = Inr u1" ..
  from at_metric_check_reached [OF r1] obtain u0 where r0: "at_metric env a = Inr u0" ..
  from at_metric_segment [OF r0]
    at_metric_check_segment [OF r0 r1]
    at_checkpoint_segment [OF r1 r2]
    at_jtnn_segment [OF r2 r3]
    at_features_segment [OF r3 r4]
  show ?thesis by simp
qed

lemma at_lr_input:
  assumes "at_lr env a = Inr t"
  shows "dataset_type t = dataset_type a \<and> bert_vocab_func t = bert_vocab_func a \<and>
         kernel_func t = kernel_func a \<and> checkpoint_dir t = checkpoint_dir a \<and>
         jtnn t = jtnn a \<and> vocab_path t = vocab_path a \<and>
         features_generator t = features_generator a \<and>
         features_path t = features_path a \<and>
         predict_features_and_task t = predict_features_and_task a \<and>
         features_only t = features_only a \<and> num_lrs t = num_lrs a \<and>
         init_lr t = init_lr a \<and> max_lr t = max_lr a \<and> final_lr t = final_lr a \<and>
         lr_scaler t = lr_scaler a \<and> warmup_epochs t = warmup_epochs a \<and>
         weight_decay t = weight_decay a \<and> ffn_num_layers t = ffn_num_layers a \<and>
         ffn_hidden_size t = ffn_hidden_size a \<and> hidden_size t = hidden_size a \<and>
         ffn_input_dropout t = ffn_input_dropout a \<and> dropout t = dropout a \<and>
         ffn_dropout t = ffn_dropout a \<and> split_type t = split_type a \<and>
         scaffold_overlap t = scaffold_overlap a \<and> folds_file t = folds_file a \<and>
         test_fold_index t = test_fold_index a \<and> test t = test a \<and>
         epochs t = epochs a \<and> data_path t = data_path a \<and>
         prespecified_chunk_dir t = prespecified_chunk_dir a"
proof -
  note r5 = assms
  from at_lr_reached [OF r5] obtain u4 where r4: "at_features env a = Inr u4" ..
  from at_features_reached [OF r4] obtain u3 where r3: "at_jtnn env a = Inr u3" ..
  from at_jtnn_reached [OF r3] obtain u2 where r2: "at_checkpoint env a = Inr u2" ..
  from at_checkpoint_reached [OF r2] obtain u1 where r1: "at_metric_check env a = Inr u1" ..
  from at_metric_check_reached [OF r1] obtain u0 where r0: "at_metric env a = Inr u0" ..
  from at_metric_segment [OF r0]
    at_metric_check_segment [OF r0 r1]
    at_checkpoint_segment [OF r1 r2]
    at_jtnn_segment [OF r2 r3]
    at_features_segment [OF r3 r4]
    at_lr_segment [OF r4 r5]
  show ?thesis by simp
qed

lemma at_split_input:
  assumes "at_split env a = Inr t"
  shows "dataset_type t = dataset_type a \<and> bert_vocab_func t = bert_vocab_func a \<and>
         kernel_func t = kernel_func a \<and> checkpoint_dir t = checkpoint_dir a \<and>
         jtnn t = jtnn a \<and> vocab_path t = vocab_path a \<and>
         features_generator t = features_generator a \<and>
         features_path t = features_path a \<and>
         predict_features_and_task t = predict_features_and_task a \<and>
         features_only t = features_only a \<and> ffn_num_layers t = ffn_num_layers a \<and>
         hidden_size t = hidden_size a \<and> dropout t = dropout a \<and>
         split_type t = split_type a \<and> scaffold_overlap t = scaffold_overlap a \<and>
         folds_file t = folds_file a \<and> test_fold_index t = test_fold_index a \<and>
         test t = test a \<and> epochs t = epochs a \<and> data_path t = data_path a \<and>
         prespecified_chunk_dir t = prespecified_chunk_dir a"
proof -
  note r7 = assms
  from at_split_reached [OF r7] obtain u6 where r6: "at_ffn env a = Inr u6" ..
  from at_ffn_reached [OF r6] obtain u5 where r5: "at_lr env a = Inr u5" ..
  from at_lr_reached [OF r5] obtain u4 where r4: "at_features env a = Inr u4" ..
  from at_features_reached [OF r4] obtain u3 where r3: "at_jtnn env a = Inr u3" ..
  from at_jtnn_reached [OF r3] obtain u2 where r2: "at_checkpoint env a = Inr u2" ..
  from at_checkpoint_reached [OF r2] obtain u1 where r1: "at_metric_check env a = Inr u1" ..
  from at_metric_check_reached [OF r1] obtain u0 where r0: "at_metric env a = Inr u0" ..
  from at_metric_segment [OF r0]
    at_metric_check_segment [OF r0 r1]
    at_checkpoint_segment [OF r1 r2]
    at_jtnn_segment [OF r2 r3]
    at_features_segment [OF r3 r4]
    at_lr_segment [OF r4 r5]
    at_ffn_segment [OF r5 r6]
    at_split_segment [OF r6 r7]
  show ?thesis by simp
qed

lemma at_chunk_input:
  assumes "at_chunk env a = Inr t"
  shows "dataset_type t = dataset_type a \<and> bert_vocab_func t = bert_vocab_func a \<and>
         kernel_func t = kernel_func a \<and> checkpoint_dir t = checkpoint_dir a \<and>
         jtnn t = jtnn a \<and> vocab_path t = vocab_path a \<and>
         features_generator t = features_generator a \<and>
         features_path t = features_path a \<and>
         predict_features_and_task t = predict_features_and_task a \<and>
         features_only t = features_only a \<and> ffn_num_layers t = ffn_num_layers a \<and>
         hidden_size t = hidden_size a \<and> dropout t = dropout a \<and>
         split_type t = split_type a \<and> scaffold_overlap t = scaffold_overlap a \<and>
         folds_file t = folds_file a \<and> test_fold_index t = test_fold_index a \<and>
         test t = test a \<and> data_path t = data_path a \<and>
         prespecified_chunk_dir t = prespecified_chunk_dir a"
proof -
  note r8 = assms
  from at_chunk_reached [OF r8] obtain u7 where r7: "at_split env a = Inr u7" ..
  from at_split_reached [OF r7] obtain u6 where r6: "at_ffn env a = Inr u6" ..
  from at_ffn_reached [OF r6] obtain u5 where r5: "at_lr env a = Inr u5" ..
  from at_lr_reached [OF r5] obtain u4 where r4: "at_features env a = Inr u4" ..
  from at_features_reached [OF r4] obtain u3 where r3: "at_jtnn env a = Inr u3" ..
  from at_jtnn_reached [OF r3] obtain u2 where r2: "at_checkpoint env a = Inr u2" ..
  from at_checkpoint_reached [OF r2] obtain u1 where r1: "at_metric_check env a = Inr u1" ..
  from at_metric_check_reached [OF r1] obtain u0 where r0: "at_metric env a = Inr u0" ..
  from at_metric_segment [OF r0]
    at_metric_check_segment [OF r0 r1]
    at_checkpoint_segment [OF r1 r2]
    at_jtnn_segment [OF r2 r3]
    at_features_segment [OF r3 r4]
    at_lr_segment [OF r4 r5]
    at_ffn_segment [OF r5 r6]
    at_split_segment [OF r6 r7]
    at_chunk_segment [OF r7 r8]
  show ?thesis by simp
qed

lemma modify_train_args_input:
  assumes "modify_train_args env a = Inr t"
  shows "dataset_type t = dataset_type a \<and> bert_vocab_func t = bert_vocab_func a \<and>
         kernel_func t = kernel_func a \<and> checkpoint_dir t = checkpoint_dir a \<and>
         jtnn t = jtnn a \<and> vocab_path t = vocab_path a \<and>
         features_generator t = features_generator a \<and>
         features_path t = features_path a \<and>
         predict_features_and_task t = predict_features_and_task a \<and>
         features_only t = features_only a \<and> ffn_num_layers t = ffn_num_layers a \<and>
         hidden_size t = hidden_size a \<and> dropout t = dropout a \<and>
         split_type t = split_type a \<and> scaffold_overlap t = scaffold_overlap a \<and>
         folds_file t = folds_file a \<and> test_fold_index t = test_fold_index a \<and>
         test t = test a"
proof -
  note r9 = assms
  from modify_train_args_reached [OF r9] obtain u8 where r8: "at_chunk env a = Inr u8" ..
  from at_chunk_reached [OF r8] obtain u7 where r7: "at_split env a = Inr u7" ..
  from at_split_reached [OF r7] obtain u6 where r6: "at_ffn env a = Inr u6" ..
  from at_ffn_reached [OF r6] obtain u5 where r5: "at_lr env a = Inr u5" ..
  from at_lr_reached [OF r5] obtain u4 where r4: "at_features env a = Inr u4" ..
  from at_features_reached [OF r4] obtain u3 where r3: "at_jtnn env a = Inr u3" ..
  from at_jtnn_reached [OF r3] obtain u2 where r2: "at_checkpoint env a = Inr u2" ..
  from at_checkpoint_reached [OF r2] obtain u1 where r1: "at_metric_check env a = Inr u1" ..
  from at_metric_check_reached [OF r1] obtain u0 where r0: "at_metric env a = Inr u0" ..
  from at_metric_segment [OF r0]
    at_metric_check_segment [OF r0 r1]
    at_checkpoint_segment [OF r1 r2]
    at_jtnn_segment [OF r2 r3]
    at_features_segment [OF r3 r4]
    at_lr_segment [OF r4 r5]
    at_ffn_segment [OF r5 r6]
    at_split_segment [OF r6 r7]
    at_chunk_segment [OF r7 r8]
    modify_train_args_segment [OF r8 r9]
  show ?thesis by simp
qed

lemma at_metric_result:
  assumes "at_metric env a = Inr s" and "modify_train_args env a = Inr c"
  shows "save_dir c = save_dir s \<and> no_cuda c = no_cuda s \<and>
         no_target_scaling c = no_target_scaling s \<and>
         no_features_scaling c = no_features_scaling s \<and> cuda c = cuda s \<and>
         target_scaling c = target_scaling s \<and>
         features_scaling c = features_scaling s \<and> dataset_type c = dataset_type s \<and>
         bert_vocab_func c = bert_vocab_func s \<and> kernel_func c = kernel_func s \<and>
         checkpoint_dir c = checkpoint_dir s \<and> jtnn c = jtnn s \<and>
         vocab_path c = vocab_path s \<and> features_generator c = features_generator s \<and>
         features_path c = features_path s \<and>
         predict_features_and_task c = predict_features_and_task s \<and>
         features_only c = features_only s \<and> ffn_num_layers c = ffn_num_layers s \<and>
         hidden_size c = hidden_size s \<and> dropout c = dropout s \<and>
         split_type c = split_type s \<and> scaffold_overlap c = scaffold_overlap s \<and>
         folds_file c = folds_file s \<and> test_fold_index c = test_fold_index s \<and>
         test c = test s"
proof -
  note r9 = assms(2)
  from modify_train_args_reached [OF r9] obtain u8 where r8: "at_chunk env a = Inr u8" ..
  from at_chunk_reached [OF r8] obtain u7 where r7: "at_split env a = Inr u7" ..
  from at_split_reached [OF r7] obtain u6 where r6: "at_ffn env a = Inr u6" ..
  from at_ffn_reached [OF r6] obtain u5 where r5: "at_lr env a = Inr u5" ..
  from at_lr_reached [OF r5] obtain u4 where r4: "at_features env a = Inr u4" ..
  from at_features_reached [OF r4] obtain u3 where r3: "at_jtnn env a = Inr u3" ..
  from at_jtnn_reached [OF r3] obtain u2 where r2: "at_checkpoint env a = Inr u2" ..
  from at_checkpoint_reached [OF r2] obtain u1 where r1: "at_metric_check env a = Inr u1" ..
  from at_metric_check_segment [OF assms(1) r1]
    at_checkpoint_segment [OF r1 r2]
    at_jtnn_segment [OF r2 r3]
    at_features_segment [OF r3 r4]
    at_lr_segment [OF r4 r5]
    at_ffn_segment [OF r5 r6]
    at_split_segment [OF r6 r7]
    at_chunk_segment [OF r7 r8]
    modify_train_args_segment [OF r8 r9]
  show ?thesis by simp
qed

lemma at_metric_check_result:
  assumes "at_metric_check env a = Inr s" and "modify_train_args env a = Inr c"
  shows "save_dir c = save_dir s \<and> no_cuda c = no_cuda s \<and>
         no_target_scaling c = no_target_scaling s \<and>
         no_features_scaling c = no_features_scaling s \<and> cuda c = cuda s \<and>
         target_scaling c = target_scaling s \<and>
         features_scaling c = features_scaling s \<and> metric c = metric s \<and>
         dataset_type c = dataset_type s \<and> bert_vocab_func c = bert_vocab_func s \<and>
         kernel_func c = kernel_func s \<and> checkpoint_dir c = checkpoint_dir s \<and>
         jtnn c = jtnn s \<and> vocab_path c = vocab_path s \<and>
         features_generator c = features_generator s \<and>
         features_path c = features_path s \<and>
         predict_features_and_task c = predict_features_and_task s \<and>
         features_only c = features_only s \<and> ffn_num_layers c = ffn_num_layers s \<and>
         hidden_size c = hidden_size s \<and> dropout c = dropout s \<and>
         split_type c = split_type s \<and> scaffold_overlap c = scaffold_overlap s \<and>
         folds_file c = folds_file s \<and> test_fold_index c = test_fold_index s \<and>
         test c = test s"
proof -
  note r9 = assms(2)
  from modify_train_args_reached [OF r9] obtain u8 where r8: "at_chunk env a = Inr u8" ..
  from at_chunk_reached [OF r8] obtain u7 where r7: "at_split env a = Inr u7" ..
  from at_split_reached [OF r7] obtain u6 where r6: "at_ffn env a = Inr u6" ..
  from at_ffn_reached [OF r6] obtain u5 where r5: "at_lr env a = Inr u5" ..
  from at_lr_reached [OF r5] obtain u4 where r4: "at_features env a = Inr u4" ..
  from at_features_reached [OF r4] obtain u3 where r3: "at_jtnn env a = Inr u3" ..
  from at_jtnn_reached [OF r3] obtain u2 where r2: "at_checkpoint env a = Inr u2" ..
  from at_checkpoint_segment [OF assms(1) r2]
    at_jtnn_segment [OF r2 r3]
    at_features_segment [OF r3 r4]
    at_lr_segment [OF r4 r5]
    at_ffn_segment [OF r5 r6]
    at_split_segment [OF r6 r7]
    at_chunk_segment [OF r7 r8]
    modify_train_args_segment [OF r8 r9]
  show ?thesis by simp
qed

lemma at_checkpoint_result:
  assumes "at_checkpoint env a = Inr s" and "modify_train_args env a = Inr c"
  shows "save_dir c = save_dir s \<and> no_cuda c = no_cuda s \<and>
         no_target_scaling c = no_target_scaling s \<and>
         no_features_scaling c = no_features_scaling s \<and> cuda c = cuda s \<and>
         target_scaling c = target_scaling s \<and>
         features_scaling c = features_scaling s \<and> metric c = metric s \<and>
         dataset_type c = dataset_type s \<and> bert_vocab_func c = bert_vocab_func s \<and>
         kernel_func c = kernel_func s \<and> minimize_score c = minimize_score s \<and>
         checkpoint_dir c = checkpoint_dir s \<and> jtnn c = jtnn s \<and>
         vocab_path c = vocab_path s \<and> features_generator c = features_generator s \<and>
         features_path c = features_path s \<and>
         predict_features_and_task c = predict_features_and_task s \<and>
         features_only c = features_only s \<and> ffn_num_layers c = ffn_num_layers s \<and>
         hidden_size c = hidden_size s \<and> dropout c = dropout s \<and>
         split_type c = split_type s \<and> scaffold_overlap c = scaffold_overlap s \<and>
         folds_file c = folds_file s \<and> test_fold_index c = test_fold_index s \<and>
         test c = test s"
proof -
  note r9 = assms(2)
  from modify_train_args_reached [OF r9] obtain u8 where r8: "at_chunk env a = Inr u8" ..
  from at_chunk_reached [OF r8] obtain u7 where r7: "at_split env a = Inr u7" ..
  from at_split_reached [OF r7] obtain u6 where r6: "at_ffn env a = Inr u6" ..
  from at_ffn_reached [OF r6] obtain u5 where r5: "at_lr env a = Inr u5" ..
  from at_lr_reached [OF r5] obtain u4 where r4: "at_features env a = Inr u4" ..
  from at_features_reached [OF r4] obtain u3 where r3: "at_jtnn env a = Inr u3" ..
  from at_jtnn_segment [OF assms(1) r3]
    at_features_segment [OF r3 r4]
    at_lr_segment [OF r4 r5]
    at_ffn_segment [OF r5 r6]
    at_split_segment [OF r6 r7]
    at_chunk_segment [OF r7 r8]
    modify_train_args_segment [OF r8 r9]
  show ?thesis by simp
qed

lemma at_jtnn_result:
  assumes "at_jtnn env a = Inr s" and "modify_train_args env a = Inr c"
  shows "save_dir c = save_dir s \<and> no_cuda c = no_cuda s \<and>
         no_target_scaling c = no_target_scaling s \<and>
         no_features_scaling c = no_features_scaling s \<and> cuda c = cuda s \<and>
         target_scaling c = target_scaling s \<and>
         features_scaling c = features_scaling s \<and> metric c = metric s \<and>
         dataset_type c = dataset_type s \<and> bert_vocab_func c = bert_vocab_func s \<and>
         kernel_func c = kernel_func s \<and> minimize_score c = minimize_score s \<and>
         checkpoint_dir c = checkpoint_dir s \<and>
         checkpoint_paths c = checkpoint_paths s \<and> ensemble_size c = ensemble_size s \<and>
         jtnn c = jtnn s \<and> vocab_path c = vocab_path s \<and>
         features_generator c = features_generator s \<and>
         features_path c = features_path s \<and>
         predict_features_and_task c = predict_features_and_task s \<and>
         features_only c = features_only s \<and> ffn_num_layers c = ffn_num_layers s \<and>
         hidden_size c = hidden_size s \<and> dropout c = dropout s \<and>
         split_type c = split_type s \<and> scaffold_overlap c = scaffold_overlap s \<and>
         folds_file c = folds_file s \<and> test_fold_index c = test_fold_index s \<and>
         test c = test s"
proof -
  note r9 = assms(2)
  from modify_train_args_reached [OF r9] obtain u8 where r8: "at_chunk env a = Inr u8" ..
  from at_chunk_reached [OF r8] obtain u7 where r7: "at_split env a = Inr u7" ..
  from at_split_reached [OF r7] obtain u6 where r6: "at_ffn env a = Inr u6" ..
  from at_ffn_reached [OF r6] obtain u5 where r5: "at_lr env a = Inr u5" ..
  from at_lr_reached [OF r5] obtain u4 where r4: "at_features env a = Inr u4" ..
  from at_features_segment [OF assms(1) r4]
    at_lr_segment [OF r4 r5]
    at_ffn_segment [OF r5 r6]
    at_split_segment [OF r6 r7]
    at_chunk_segment [OF r7 r8]
    modify_train_args_segment [OF r8 r9]
  show ?thesis by simp
qed

lemma at_features_result:
  assumes "at_features env a = Inr s" and "modify_train_args env a = Inr c"
  shows "save_dir c = save_dir s \<and> no_cuda c = no_cuda s \<and>
         no_target_scaling c = no_target_scaling s \<and>
         no_features_scaling c = no_features_scaling s \<and> cuda c = cuda s \<and>
         target_scaling c = target_scaling s \<and>
         features_scaling c = features_scaling s \<and> metric c = metric s \<and>
         dataset_type c = dataset_type s \<and> bert_vocab_func c = bert_vocab_func s \<and>
         kernel_func c = kernel_func s \<and> minimize_score c = minimize_score s \<and>
         checkpoint_dir c = checkpoint_dir s \<and>
         checkpoint_paths c = checkpoint_paths s \<and> ensemble_size c = ensemble_size s \<and>
         jtnn c = jtnn s \<and> vocab_path c = vocab_path s \<and>
         features_generator c = features_generator s \<and>
         features_path c = features_path s \<and>
         predict_features_and_task c = predict_features_and_task s \<and>
         features_only c = features_only s \<and> ffn_num_layers c = ffn_num_layers s \<and>
         hidden_size c = hidden_size s \<and> dropout c = dropout s \<and>
         split_type c = split_type s \<and> scaffold_overlap c = scaffold_overlap s \<and>
         folds_file c = folds_file s \<and> test_fold_index c = test_fold_index s \<and>
         test c = test s"
proof -
  note r9 = assms(2)
  from modify_train_args_reached [OF r9] obtain u8 where r8: "at_chunk env a = Inr u8" ..
  from at_chunk_reached [OF r8] obtain u7 where r7: "at_split env a = Inr u7" ..
  from at_split_reached [OF r7] obtain u6 where r6: "at_ffn env a = Inr u6" ..
  from at_ffn_reached [OF r6] obtain u5 where r5: "at_lr env a = Inr u5" ..
  from at_lr_segment [OF assms(1) r5]
    at_ffn_segment [OF r5 r6]
    at_split_segment [OF r6 r7]
    at_chunk_segment [OF r7 r8]
    modify_train_args_segment [OF r8 r9]
  show ?thesis by simp
qed

lemma at_lr_result:
  assumes "at_lr env a = Inr s" and "modify_train_args env a = Inr c"
  shows "save_dir c = save_dir s \<and> no_cuda c = no_cuda s \<and>
         no_target_scaling c = no_target_scaling s \<and>
         no_features_scaling c = no_features_scaling s \<and> cuda c = cuda s \<and>
         target_scaling c = target_scaling s \<and>
         features_scaling c = features_scaling s \<and> metric c = metric s \<and>
         dataset_type c = dataset_type s \<and> bert_vocab_func c = bert_vocab_func s \<and>
         kernel_func c = kernel_func s \<and> minimize_score c = minimize_score s \<and>
         checkpoint_dir c = checkpoint_dir s \<and>
         checkpoint_paths c = checkpoint_paths s \<and> ensemble_size c = ensemble_size s \<and>
         jtnn c = jtnn s \<and> vocab_path c = vocab_path s \<and>
         features_generator c = features_generator s \<and>
         features_path c = features_path s \<and>
         use_input_features c = use_input_features s \<and>
         predict_features_and_task c = predict_features_and_task s \<and>
         predict_features c = predict_features s \<and> features_only c = features_only s \<and>
         separate_ffn_lr c = separate_ffn_lr s \<and> ffn_num_layers c = ffn_num_layers s \<and>
         hidden_size c = hidden_size s \<and> dropout c = dropout s \<and>
         split_type c = split_type s \<and> scaffold_overlap c = scaffold_overlap s \<and>
         folds_file c = folds_file s \<and> test_fold_index c = test_fold_index s \<and>
         test c = test s"
proof -
  note r9 = assms(2)
  from modify_train_args_reached [OF r9] obtain u8 where r8: "at_chunk env a = Inr u8" ..
  from at_chunk_reached [OF r8] obtain u7 where r7: "at_split env a = Inr u7" ..
  from at_split_reached [OF r7] obtain u6 where r6: "at_ffn env a = Inr u6" ..
  from at_ffn_segment [OF assms(1) r6]
    at_split_segment [OF r6 r7]
    at_chunk_segment [OF r7 r8]
    modify_train_args_segment [OF r8 r9]
  show ?thesis by simp
qed

lemma at_ffn_result:
  assumes "at_ffn env a = Inr s" and "modify_train_args env a = Inr c"
  shows "save_dir c = save_dir s \<and> no_cuda c = no_cuda s \<and>
         no_target_scaling c = no_target_scaling s \<and>
         no_features_scaling c = no_features_scaling s \<and> cuda c = cuda s \<and>
         target_scaling c = target_scaling s \<and>
         features_scaling c = features_scaling s \<and> metric c = metric s \<and>
         dataset_type c = dataset_type s \<and> bert_vocab_func c = bert_vocab_func s \<and>
         kernel_func c = kernel_func s \<and> minimize_score c = minimize_score s \<and>
         checkpoint_dir c = checkpoint_dir s \<and>
         checkpoint_paths c = checkpoint_paths s \<and> ensemble_size c = ensemble_size s \<and>
         jtnn c = jtnn s \<and> vocab_path c = vocab_path s \<and>
         features_generator c = features_generator s \<and>
         features_path c = features_path s \<and>
         use_input_features c = use_input_features s \<and>
         predict_features_and_task c = predict_features_and_task s \<and>
         predict_features c = predict_features s \<and> features_only c = features_only s \<and>
         separate_ffn_lr c = separate_ffn_lr s \<and> num_lrs c = num_lrs s \<and>
         init_lr c = init_lr s \<and> max_lr c = max_lr s \<and> final_lr c = final_lr s \<and>
         lr_scaler c = lr_scaler s \<and> warmup_epochs c = warmup_epochs s \<and>
         weight_decay c = weight_decay s \<and> ffn_num_layers c = ffn_num_layers s \<and>
         hidden_size c = hidden_size s \<and> dropout c = dropout s \<and>
         split_type c = split_type s \<and> scaffold_overlap c = scaffold_overlap s \<and>
         folds_file c = folds_file s \<and> test_fold_index c = test_fold_index s \<and>
         test c = test s"
proof -
  note r9 = assms(2)
  from modify_train_args_reached [OF r9] obtain u8 where r8: "at_chunk env a = Inr u8" ..
  from at_chunk_reached [OF r8] obtain u7 where r7: "at_split env a = Inr u7" ..
  from at_split_segment [OF assms(1) r7]
    at_chunk_segment [OF r7 r8]
    modify_train_args_segment [OF r8 r9]
  show ?thesis by simp
qed

lemma at_split_result:
  assumes "at_split env a = Inr s" and "modify_train_args env a = Inr c"
  shows "save_dir c = save_dir s \<and> no_cuda c = no_cuda s \<and>
         no_target_scaling c = no_target_scaling s \<and>
         no_features_scaling c = no_features_scaling s \<and> cuda c = cuda s \<and>
         target_scaling c = target_scaling s \<and>
         features_scaling c = features_scaling s \<and> metric c = metric s \<and>
         dataset_type c = dataset_type s \<and> bert_vocab_func c = bert_vocab_func s \<and>
         kernel_func c = kernel_func s \<and> minimize_score c = minimize_score s \<and>
         checkpoint_dir c = checkpoint_dir s \<and>
         checkpoint_paths c = checkpoint_paths s \<and> ensemble_size c = ensemble_size s \<and>
         jtnn c = jtnn s \<and> vocab_path c = vocab_path s \<and>
         features_generator c = features_generator s \<and>
         features_path c = features_path s \<and>
         use_input_features c = use_input_features s \<and>
         predict_features_and_task c = predict_features_and_task s \<and>
         predict_features c = predict_features s \<and> features_only c = features_only s \<and>
         separate_ffn_lr c = separate_ffn_lr s \<and> num_lrs c = num_lrs s \<and>
         init_lr c = init_lr s \<and> max_lr c = max_lr s \<and> final_lr c = final_lr s \<and>
         lr_scaler c = lr_scaler s \<and> warmup_epochs c = warmup_epochs s \<and>
         weight_decay c = weight_decay s \<and> ffn_num_layers c = ffn_num_layers s \<and>
         ffn_hidden_size c = ffn_hidden_size s \<and> hidden_size c = hidden_size s \<and>
         ffn_input_dropout c = ffn_input_dropout s \<and> dropout c = dropout s \<and>
         ffn_dropout c = ffn_dropout s \<and> split_type c = split_type s \<and>
         scaffold_overlap c = scaffold_overlap s \<and> folds_file c = folds_file s \<and>
         test_fold_index c = test_fold_index s \<and> test c = test s"
proof -
  note r9 = assms(2)
  from modify_train_args_reached [OF r9] obtain u8 where r8: "at_chunk env a = Inr u8" ..
  from at_chunk_segment [OF assms(1) r8]
    modify_train_args_segment [OF r8 r9]
  show ?thesis by simp
qed

lemma at_metric_check_fails: "at_metric_check env a = Inl e \<Longrightarrow> modify_train_args env a = Inl e"
  by (simp add: at_checkpoint_def at_jtnn_def at_features_def at_lr_def at_ffn_def at_split_def at_chunk_def modify_train_args_def)

lemma at_checkpoint_fails: "at_checkpoint env a = Inl e \<Longrightarrow> modify_train_args env a = Inl e"
  by (simp add: at_jtnn_def at_features_def at_lr_def at_ffn_def at_split_def at_chunk_def modify_train_args_def)

lemma at_jtnn_fails: "at_jtnn env a = Inl e \<Longrightarrow> modify_train_args env a = Inl e"
  by (simp add: at_features_def at_lr_def at_ffn_def at_split_def at_chunk_def modify_train_args_def)

lemma at_features_fails: "at_features env a = Inl e \<Longrightarrow> modify_train_args env a = Inl e"
  by (simp add: at_lr_def at_ffn_def at_split_def at_chunk_def modify_train_args_def)

lemma at_lr_fails: "at_lr env a = Inl e \<Longrightarrow> modify_train_args env a = Inl e"
  by (simp add: at_ffn_def at_split_def at_chunk_def modify_train_args_def)

lemma at_ffn_fails: "at_ffn env a = Inl e \<Longrightarrow> modify_train_args env a = Inl e"
  by (simp add: at_split_def at_chunk_def modify_train_args_def)

lemma success_states:
  assumes "modify_train_args env a = Inr c"
  obtains s0 s1 s2 s3 s4 s5 s6 s7 s8 where
    "at_metric env a = Inr s0"
    and "at_metric_check env a = Inr s1"
    and "at_checkpoint env a = Inr s2"
    and "at_jtnn env a = Inr s3"
    and "at_features env a = Inr s4"
    and "at_lr env a = Inr s5"
    and "at_ffn env a = Inr s6"
    and "at_split env a = Inr s7"
    and "at_chunk env a = Inr s8"
proof -
  note r9 = assms
  from modify_train_args_reached [OF r9] obtain s8 where r8: "at_chunk env a = Inr s8" ..
  from at_chunk_reached [OF r8] obtain s7 where r7: "at_split env a = Inr s7" ..
  from at_split_reached [OF r7] obtain s6 where r6: "at_ffn env a = Inr s6" ..
  from at_ffn_reached [OF r6] obtain s5 where r5: "at_lr env a = Inr s5" ..
  from at_lr_reached [OF r5] obtain s4 where r4: "at_features env a = Inr s4" ..
  from at_features_reached [OF r4] obtain s3 where r3: "at_jtnn env a = Inr s3" ..
  from at_jtnn_reached [OF r3] obtain s2 where r2: "at_checkpoint env a = Inr s2" ..
  from at_checkpoint_reached [OF r2] obtain s1 where r1: "at_metric_check env a = Inr s1" ..
  from at_metric_check_reached [OF r1] obtain s0 where r0: "at_metric env a = Inr s0" ..
  from that r0 r1 r2 r3 r4 r5 r6 r7 r8 show ?thesis by blast
qed

lemma success_at_metric:
  assumes "modify_train_args env a = Inr c"
  obtains s where "at_metric env a = Inr s"
  using assms by (auto elim: success_states)

lemma success_at_metric_check:
  assumes "modify_train_args env a = Inr c"
  obtains s where "at_metric_check env a = Inr s"
  using assms by (auto elim: success_states)

lemma success_at_checkpoint:
  assumes "modify_train_args env a = Inr c"
  obtains s where "at_checkpoint env a = Inr s"
  using assms by (auto elim: success_states)

lemma success_at_jtnn:
  assumes "modify_train_args env a = Inr c"
  obtains s where "at_jtnn env a = Inr s"
  using assms by (auto elim: success_states)

lemma success_at_features:
  assumes "modify_train_args env a = Inr c"
  obtains s where "at_features env a = Inr s"
  using assms by (auto elim: success_states)

lemma success_at_lr:
  assumes "modify_train_args env a = Inr c"
  obtains s where "at_lr env a = Inr s"
  using assms by (auto elim: success_states)

lemma success_at_ffn:
  assumes "modify_train_args env a = Inr c"
  obtains s where "at_ffn env a = Inr s"
  using assms by (auto elim: success_states)

lemma success_at_split:
  assumes "modify_train_args env a = Inr c"
  obtains s where "at_split env a = Inr s"
  using assms by (auto elim: success_states)

lemma success_at_chunk:
  assumes "modify_train_args env a = Inr c"
  obtains s where "at_chunk env a = Inr s"
  using assms by (auto elim: success_states)

subsection \<open>Where the errors come from\<close>

lemma then_step_eq_Inl:
  "then_step r f = Inl e \<longleftrightarrow> r = Inl e \<or> (\<exists>a. r = Inr a \<and> f a = Inl e)"
  by (cases r) simp_all

lemma save_dir_step_error: "save_dir_step env a = Inl e \<Longrightarrow> e = PyOSError"
  by (auto simp: save_dir_step_def split: option.splits if_splits)

lemma invert_flags_error: "invert_flags env a = Inl e \<Longrightarrow> e = PyAttributeError"
  by (auto simp: invert_flags_def split: attr.splits)

lemma default_metric_error:
  "default_metric a = Inl e \<Longrightarrow> \<exists>m. e = UnsupportedKernelFunctionError m"
  by (auto simp: default_metric_def split: if_splits)

lemma check_metric_error: "check_metric a = Inl e \<Longrightarrow> \<exists>m. e = IncompatibleMetricError m"
  by (auto simp: check_metric_def split: if_splits)

subsection \<open>The separate-optimizer flag at line 388\<close>

lemma at_lr_flag:
  assumes "at_lr env a = Inr s"
  shows "separate_ffn_lr s = (separate_ffn_lr a \<or> dataset_type a = ''unsupervised'')"
proof -
  from assms obtain s4 t1 t2 t3 t4 where r4: "at_features env a = Inr s4"
    and 1: "set_use_input_features s4 = Inr t1" and 2: "features_and_task_step t1 = Inr t2"
    and 3: "predict_features_step t2 = Inr t3" and 4: "bert_step t3 = Inr t4"
    and 5: "unsupervised_step t4 = Inr s"
    by (auto simp: at_lr_steps)
  from at_features_input [OF r4] set_use_input_features_keeps [OF 1]
    features_and_task_step_keeps [OF 2] predict_features_step_keeps [OF 3] bert_step_keeps [OF 4]
  have "separate_ffn_lr t4 = separate_ffn_lr a" and "dataset_type t4 = dataset_type a"
    by simp_all
  with 5 show ?thesis by (auto simp: unsupervised_step_def)
qed

subsection \<open>Broadcasting and scaling (lines 388 to 401)\<close>

lemma broadcast_Inr:
  "broadcast n sep xs = Inr ys \<longleftrightarrow>
     1 \<le> int (length xs) \<and> int (length xs) \<le> n \<and> ys = (if sep \<and> length xs = 1 then xs @ xs else xs)"
  by (auto simp: broadcast_def)

lemma broadcast_Inl:
  "broadcast n sep xs = Inl e \<longleftrightarrow>
     \<not> (1 \<le> int (length xs) \<and> int (length xs) \<le> n) \<and> e = InvalidGroupCountError"
  by (auto simp: broadcast_def)

lemma duplicate_single_eq:
  "duplicate_single sep xs = (if sep \<and> length xs = 1 then xs @ xs else xs)"
  by (cases xs rule: list.exhaust; cases "tl xs") (auto simp: duplicate_single_def split: list.splits)

lemma length_duplicate_single:
  assumes "1 \<le> length xs" and "length xs \<le> (if sep then 2 else 1)"
  shows "length (duplicate_single sep xs) = (if sep then 2 else 1)"
  using assms by (auto simp: duplicate_single_eq split: if_splits)

text \<open>Lines 388 to 394 on a namespace that has the scale sequence.\<close>

lemma broadcast_lrs_Inr:
  assumes "broadcast_lrs s = Inr t"
  shows "\<exists>sc. lr_scaler s = Present sc
      \<and> (\<forall>xs \<in> set [init_lr s, max_lr s, final_lr s, sc, warmup_epochs s, weight_decay s].
            1 \<le> length xs \<and> length xs \<le> (if separate_ffn_lr s then 2 else 1))
      \<and> num_lrs t = Present (1 + (if separate_ffn_lr s then 1 else 0))
      \<and> init_lr t = duplicate_single (separate_ffn_lr s) (init_lr s)
      \<and> max_lr t = duplicate_single (separate_ffn_lr s) (max_lr s)
      \<and> final_lr t = duplicate_single (separate_ffn_lr s) (final_lr s)
      \<and> lr_scaler t = Present (duplicate_single (separate_ffn_lr s) sc)
      \<and> warmup_epochs t = duplicate_single (separate_ffn_lr s) (warmup_epochs s)
      \<and> weight_decay t = duplicate_single (separate_ffn_lr s) (weight_decay s)"
proof (cases "lr_scaler s")
  case Absent
  with assms show ?thesis by (simp add: broadcast_lrs_def)
next
  case (Present sc)
  with assms obtain i m f k w d where
    b: "broadcast (1 + (if separate_ffn_lr s then 1 else 0)) (separate_ffn_lr s) (init_lr s) = Inr i"
       "broadcast (1 + (if separate_ffn_lr s then 1 else 0)) (separate_ffn_lr s) (max_lr s) = Inr m"
       "broadcast (1 + (if separate_ffn_lr s then 1 else 0)) (separate_ffn_lr s) (final_lr s) = Inr f"
       "broadcast (1 + (if separate_ffn_lr s then 1 else 0)) (separate_ffn_lr s) sc = Inr k"
       "broadcast (1 + (if separate_ffn_lr s then 1 else 0)) (separate_ffn_lr s) (warmup_epochs s) = Inr w"
       "broadcast (1 + (if separate_ffn_lr s then 1 else 0)) (separate_ffn_lr s) (weight_decay s) = Inr d"
    and t: "t = s\<lparr>num_lrs := Present (1 + (if separate_ffn_lr s then 1 else 0)), init_lr := i,
                 max_lr := m, final_lr := f, lr_scaler := Present k, warmup_epochs := w,
                 weight_decay := d\<rparr>"
    by (auto simp: broadcast_lrs_def Let_def then_step_eq_Inr)
  from b have len: "\<forall>xs \<in> set [init_lr s, max_lr s, final_lr s, sc, warmup_epochs s, weight_decay s].
            1 \<le> length xs \<and> length xs \<le> (if separate_ffn_lr s then 2 else 1)"
    unfolding broadcast_Inr by (simp split: if_splits)
  from b have vals: "i = duplicate_single (separate_ffn_lr s) (init_lr s)"
    "m = duplicate_single (separate_ffn_lr s) (max_lr s)"
    "f = duplicate_single (separate_ffn_lr s) (final_lr s)"
    "k = duplicate_single (separate_ffn_lr s) sc"
    "w = duplicate_single (separate_ffn_lr s) (warmup_epochs s)"
    "d = duplicate_single (separate_ffn_lr s) (weight_decay s)"
    unfolding broadcast_Inr duplicate_single_eq by simp_all
  from Present len vals t show ?thesis by simp
qed

lemma broadcast_lrs_Inl:
  assumes "lr_scaler s = Present sc"
    and "\<exists>xs \<in> set [init_lr s, max_lr s, final_lr s, sc, warmup_epochs s, weight_decay s].
            \<not> (1 \<le> length xs \<and> length xs \<le> (if separate_ffn_lr s then 2 else 1))"
  shows "broadcast_lrs s = Inl InvalidGroupCountError"
proof (cases "broadcast_lrs s")
  case (Inl e)
  with assms(1) have "e = InvalidGroupCountError"
    by (auto simp: broadcast_lrs_def Let_def then_step_eq_Inl broadcast_Inl)
  with Inl show ?thesis by simp
next
  case (Inr t)
  from broadcast_lrs_Inr [OF Inr] assms show ?thesis by auto
qed

text \<open>Lines 396 to 401 on sequences that all have one entry per group.\<close>

lemma scale_lrs_one:
  assumes "num_lrs t = Present 1" and "lr_scaler t = Present [k]"
    and "init_lr t = [i]" and "max_lr t = [m]" and "final_lr t = [f]"
  shows "scale_lrs t = Inr (t\<lparr>init_lr := [i * k], max_lr := [m * k], final_lr := [f * k],
                              lr_scaler := Absent\<rparr>)"
  using assms by (simp add: scale_lrs_def scale_group_def scale_at_def)

lemma scale_lrs_two:
  assumes "num_lrs t = Present 2" and "lr_scaler t = Present [k1, k2]"
    and "init_lr t = [i1, i2]" and "max_lr t = [m1, m2]" and "final_lr t = [f1, f2]"
  shows "scale_lrs t = Inr (t\<lparr>init_lr := [i1 * k1, i2 * k2], max_lr := [m1 * k1, m2 * k2],
                              final_lr := [f1 * k1, f2 * k2], lr_scaler := Absent\<rparr>)"
proof -
  from assms show ?thesis
    by (simp add: scale_lrs_def upt_two scale_group_def scale_at_def)
qed

lemma length_one: "length xs = Suc 0 \<Longrightarrow> \<exists>x. xs = [x]"
  by (cases xs) simp_all

lemma length_two: "length xs = 2 \<Longrightarrow> \<exists>x y. xs = [x, y]"
  by (cases xs; cases "tl xs") auto

lemma scale_lrs_groups:
  assumes n: "num_lrs t = Present (if sep then 2 else 1)" and k: "lr_scaler t = Present sc"
    and len: "length sc = (if sep then 2 else 1)" "length (init_lr t) = (if sep then 2 else 1)"
      "length (max_lr t) = (if sep then 2 else 1)" "length (final_lr t) = (if sep then 2 else 1)"
  shows "scale_lrs t = Inr (t\<lparr>init_lr := map2 (*) (init_lr t) sc, max_lr := map2 (*) (max_lr t) sc,
                              final_lr := map2 (*) (final_lr t) sc, lr_scaler := Absent\<rparr>)"
proof (cases sep)
  case True
  with len obtain k1 k2 i1 i2 m1 m2 f1 f2 where
    "sc = [k1, k2]" "init_lr t = [i1, i2]" "max_lr t = [m1, m2]" "final_lr t = [f1, f2]"
    by (auto dest!: length_two)
  with True n k scale_lrs_two [of t k1 k2 i1 i2 m1 m2 f1 f2] show ?thesis by simp
next
  case False
  with len obtain k i m f where
    "sc = [k]" "init_lr t = [i]" "max_lr t = [m]" "final_lr t = [f]"
    by (auto dest!: length_one)
  with False n k scale_lrs_one [of t k i m f] show ?thesis by simp
qed

lemma lr_block:
  assumes b: "broadcast_lrs s = Inr t"
  shows "\<exists>sc. lr_scaler s = Present sc
      \<and> (\<forall>xs \<in> set [init_lr s, max_lr s, final_lr s, sc, warmup_epochs s, weight_decay s].
            1 \<le> length xs \<and> length xs \<le> (if separate_ffn_lr s then 2 else 1))
      \<and> scale_lrs t = Inr (t\<lparr>
            init_lr := map2 (*) (duplicate_single (separate_ffn_lr s) (init_lr s))
                         (duplicate_single (separate_ffn_lr s) sc),
            max_lr := map2 (*) (duplicate_single (separate_ffn_lr s) (max_lr s))
                         (duplicate_single (separate_ffn_lr s) sc),
            final_lr := map2 (*) (duplicate_single (separate_ffn_lr s) (final_lr s))
                         (duplicate_single (separate_ffn_lr s) sc),
            lr_scaler := Absent\<rparr>)
      \<and> num_lrs t = Present (1 + (if separate_ffn_lr s then 1 else 0))
      \<and> warmup_epochs t = duplicate_single (separate_ffn_lr s) (warmup_epochs s)
      \<and> weight_decay t = duplicate_single (separate_ffn_lr s) (weight_decay s)"
proof -
  from broadcast_lrs_Inr [OF b] obtain sc where sc: "lr_scaler s = Present sc"
    and len: "\<forall>xs \<in> set [init_lr s, max_lr s, final_lr s, sc, warmup_epochs s, weight_decay s].
            1 \<le> length xs \<and> length xs \<le> (if separate_ffn_lr s then 2 else 1)"
    and t: "num_lrs t = Present (1 + (if separate_ffn_lr s then 1 else 0))"
      "init_lr t = duplicate_single (separate_ffn_lr s) (init_lr s)"
      "max_lr t = duplicate_single (separate_ffn_lr s) (max_lr s)"
      "final_lr t = duplicate_single (separate_ffn_lr s) (final_lr s)"
      "lr_scaler t = Present (duplicate_single (separate_ffn_lr s) sc)"
      "warmup_epochs t = duplicate_single (separate_ffn_lr s) (warmup_epochs s)"
      "weight_decay t = duplicate_single (separate_ffn_lr s) (weight_decay s)"
    by blast
  from len have l: "length (duplicate_single (separate_ffn_lr s) sc) = (if separate_ffn_lr s then 2 else 1)"
    "length (duplicate_single (separate_ffn_lr s) (init_lr s)) = (if separate_ffn_lr s then 2 else 1)"
    "length (duplicate_single (separate_ffn_lr s) (max_lr s)) = (if separate_ffn_lr s then 2 else 1)"
    "length (duplicate_single (separate_ffn_lr s) (final_lr s)) = (if separate_ffn_lr s then 2 else 1)"
    by (simp_all add: length_duplicate_single)
  from t(1) have n: "num_lrs t = Present (if separate_ffn_lr s then 2 else 1)" by simp
  from scale_lrs_groups [of t "separate_ffn_lr s" "duplicate_single (separate_ffn_lr s) sc", OF n t(5)]
    l t(2-4)
  have "scale_lrs t = Inr (t\<lparr>
            init_lr := map2 (*) (duplicate_single (separate_ffn_lr s) (init_lr s))
                         (duplicate_single (separate_ffn_lr s) sc),
            max_lr := map2 (*) (duplicate_single (separate_ffn_lr s) (max_lr s))
                         (duplicate_single (separate_ffn_lr s) sc),
            final_lr := map2 (*) (duplicate_single (separate_ffn_lr s) (final_lr s))
                         (duplicate_single (separate_ffn_lr s) sc),
            lr_scaler := Absent\<rparr>)"
    by simp
  with sc len t show ?thesis by blast
qed

text \<open>The learning-rate block of a successful resolution, in terms of the input.\<close>

lemma lr_resolved:
  assumes c: "modify_train_args env a = Inr c"
    and two: "two = (separate_ffn_lr a \<or> dataset_type a = ''unsupervised'')"
  obtains s t sc where "at_lr env a = Inr s" and "broadcast_lrs s = Inr t"
    and "lr_scaler a = Present sc"
    and "\<forall>xs \<in> set [init_lr a, max_lr a, final_lr a, sc, warmup_epochs a, weight_decay a].
            1 \<le> length xs \<and> length xs \<le> (if two then 2 else 1)"
    and "init_lr t = duplicate_single two (init_lr a)"
    and "max_lr t = duplicate_single two (max_lr a)"
    and "final_lr t = duplicate_single two (final_lr a)"
    and "lr_scaler t = Present (duplicate_single two sc)"
    and "warmup_epochs t = duplicate_single two (warmup_epochs a)"
    and "weight_decay t = duplicate_single two (weight_decay a)"
    and "separate_ffn_lr c = two"
    and "num_lrs c = Present (1 + (if two then 1 else 0))"
    and "init_lr c = map2 (*) (duplicate_single two (init_lr a)) (duplicate_single two sc)"
    and "max_lr c = map2 (*) (duplicate_single two (max_lr a)) (duplicate_single two sc)"
    and "final_lr c = map2 (*) (duplicate_single two (final_lr a)) (duplicate_single two sc)"
    and "warmup_epochs c = duplicate_single two (warmup_epochs a)"
    and "weight_decay c = duplicate_single two (weight_decay a)"
    and "lr_scaler c = Absent"
proof -
  from c obtain s5 where r5: "at_lr env a = Inr s5" by (rule success_at_lr)
  from c obtain s6 where r6: "at_ffn env a = Inr s6" by (rule success_at_ffn)
  from r5 r6 obtain t where b: "broadcast_lrs s5 = Inr t" and k: "scale_lrs t = Inr s6"
    by (auto simp: at_ffn_steps)
  from at_lr_flag [OF r5] two have f: "separate_ffn_lr s5 = two" by simp
  note in5 = at_lr_input [OF r5]
  from broadcast_lrs_Inr [OF b] obtain sc where sc: "lr_scaler s5 = Present sc"
    and len: "\<forall>xs \<in> set [init_lr s5, max_lr s5, final_lr s5, sc, warmup_epochs s5, weight_decay s5].
          1 \<le> length xs \<and> length xs \<le> (if separate_ffn_lr s5 then 2 else 1)"
    and t: "init_lr t = duplicate_single (separate_ffn_lr s5) (init_lr s5)"
      "max_lr t = duplicate_single (separate_ffn_lr s5) (max_lr s5)"
      "final_lr t = duplicate_single (separate_ffn_lr s5) (final_lr s5)"
      "lr_scaler t = Present (duplicate_single (separate_ffn_lr s5) sc)"
      "warmup_epochs t = duplicate_single (separate_ffn_lr s5) (warmup_epochs s5)"
      "weight_decay t = duplicate_single (separate_ffn_lr s5) (weight_decay s5)"
      "num_lrs t = Present (1 + (if separate_ffn_lr s5 then 1 else 0))"
    by blast
  from lr_block [OF b] sc have "scale_lrs t = Inr (t\<lparr>
          init_lr := map2 (*) (duplicate_single (separate_ffn_lr s5) (init_lr s5))
                       (duplicate_single (separate_ffn_lr s5) sc),
          max_lr := map2 (*) (duplicate_single (separate_ffn_lr s5) (max_lr s5))
                       (duplicate_single (separate_ffn_lr s5) sc),
          final_lr := map2 (*) (duplicate_single (separate_ffn_lr s5) (final_lr s5))
                       (duplicate_single (separate_ffn_lr s5) sc),
          lr_scaler := Absent\<rparr>)"
    by auto
  with k have s6: "s6 = t\<lparr>
          init_lr := map2 (*) (duplicate_single (separate_ffn_lr s5) (init_lr s5))
                       (duplicate_single (separate_ffn_lr s5) sc),
          max_lr := map2 (*) (duplicate_single (separate_ffn_lr s5) (max_lr s5))
                       (duplicate_single (separate_ffn_lr s5) sc),
          final_lr := map2 (*) (duplicate_single (separate_ffn_lr s5) (final_lr s5))
                       (duplicate_single (separate_ffn_lr s5) sc),
          lr_scaler := Absent\<rparr>"
    by simp
  note out6 = at_ffn_result [OF r6 c]
  from broadcast_lrs_keeps [OF b] have ft: "separate_ffn_lr t = separate_ffn_lr s5" by simp
  show thesis
  proof (rule that [of s5 t sc])
    show "at_lr env a = Inr s5" by fact
    show "broadcast_lrs s5 = Inr t" by fact
    show "lr_scaler a = Present sc" using sc in5 by simp
    show "\<forall>xs \<in> set [init_lr a, max_lr a, final_lr a, sc, warmup_epochs a, weight_decay a].
            1 \<le> length xs \<and> length xs \<le> (if two then 2 else 1)"
      using len in5 f by simp
    show "init_lr t = duplicate_single two (init_lr a)" using t(1) in5 f by simp
    show "max_lr t = duplicate_single two (max_lr a)" using t(2) in5 f by simp
    show "final_lr t = duplicate_single two (final_lr a)" using t(3) in5 f by simp
    show "lr_scaler t = Present (duplicate_single two sc)" using t(4) f by simp
    show "warmup_epochs t = duplicate_single two (warmup_epochs a)" using t(5) in5 f by simp
    show "weight_decay t = duplicate_single two (weight_decay a)" using t(6) in5 f by simp
    show "separate_ffn_lr c = two" using out6 s6 ft f by simp
    show "num_lrs c = Present (1 + (if two then 1 else 0))" using out6 s6 t(7) f by simp
    show "init_lr c = map2 (*) (duplicate_single two (init_lr a)) (duplicate_single two sc)"
      using out6 s6 in5 f by simp
    show "max_lr c = map2 (*) (duplicate_single two (max_lr a)) (duplicate_single two sc)"
      using out6 s6 in5 f by simp
    show "final_lr c = map2 (*) (duplicate_single two (final_lr a)) (duplicate_single two sc)"
      using out6 s6 in5 f by simp
    show "warmup_epochs c = duplicate_single two (warmup_epochs a)"
      using out6 s6 t(5) in5 f by simp
    show "weight_decay c = duplicate_single two (weight_decay a)"
      using out6 s6 t(6) in5 f by simp
    show "lr_scaler c = Absent" using out6 s6 by simp
  qed
qed

subsection \<open>The in-place updates agree with the updates of the fields\<close>

lemma broadcast_in_place_distinct:
  assumes "distinct rs"
  shows "broadcast_in_place n sep rs h =
    (if \<forall>r \<in> set rs. 1 \<le> int (length (h r)) \<and> int (length (h r)) \<le> n
     then Inr (\<lambda>r. if r \<in> set rs \<and> sep \<and> length (h r) = 1 then h r @ h r else h r)
     else Inl InvalidGroupCountError)"
  using assms
proof (induction rs arbitrary: h)
  case Nil
  show ?case by simp
next
  case (Cons r rs)
  from Cons.prems have r: "r \<notin> set rs" and d: "distinct rs" by simp_all
  let ?h = "if sep \<and> length (h r) = 1 then h(r := h r @ h r) else h"
  have same: "?h x = h x" if "x \<in> set rs" for x
    using that r by auto
  show ?case
  proof (cases "1 \<le> int (length (h r)) \<and> int (length (h r)) \<le> n")
    case False
    then show ?thesis by auto
  next
    case True
    have all: "(\<forall>x \<in> set rs. 1 \<le> int (length (?h x)) \<and> int (length (?h x)) \<le> n)
        \<longleftrightarrow> (\<forall>x \<in> set rs. 1 \<le> int (length (h x)) \<and> int (length (h x)) \<le> n)"
      using same by (metis (no_types, lifting))
    have res: "(\<lambda>x. if x \<in> set rs \<and> sep \<and> length (?h x) = 1 then ?h x @ ?h x else ?h x)
        = (\<lambda>x. if x \<in> set (r # rs) \<and> sep \<and> length (h x) = 1 then h x @ h x else h x)"
    proof
      fix x
      show "(if x \<in> set rs \<and> sep \<and> length (?h x) = 1 then ?h x @ ?h x else ?h x)
          = (if x \<in> set (r # rs) \<and> sep \<and> length (h x) = 1 then h x @ h x else h x)"
        using r by (cases "x = r") auto
    qed
    from True have "broadcast_in_place n sep (r # rs) h = broadcast_in_place n sep rs ?h"
      by simp
    also have "\<dots> = (if \<forall>x \<in> set rs. 1 \<le> int (length (?h x)) \<and> int (length (?h x)) \<le> n
       then Inr (\<lambda>x. if x \<in> set rs \<and> sep \<and> length (?h x) = 1 then ?h x @ ?h x else ?h x)
       else Inl InvalidGroupCountError)"
      by (rule Cons.IH [OF d])
    finally show ?thesis
      unfolding all res using True by simp
  qed
qed

lemma scale_loop_in_place_groups:
  assumes d: "distinct [init_ref rs, max_ref rs, final_ref rs, scaler_ref rs]"
    and len: "length (h (init_ref rs)) = (if sep then 2 else 1)"
      "length (h (max_ref rs)) = (if sep then 2 else 1)"
      "length (h (final_ref rs)) = (if sep then 2 else 1)"
      "length (h (scaler_ref rs)) = (if sep then 2 else 1)"
  shows "scale_loop_in_place rs [0..<(if sep then 2 else 1)] h =
    Inr (h(init_ref rs := map2 (*) (h (init_ref rs)) (h (scaler_ref rs)),
           max_ref rs := map2 (*) (h (max_ref rs)) (h (scaler_ref rs)),
           final_ref rs := map2 (*) (h (final_ref rs)) (h (scaler_ref rs))))"
proof (cases sep)
  case True
  with len obtain i1 i2 m1 m2 f1 f2 k1 k2 where
    "h (init_ref rs) = [i1, i2]" "h (max_ref rs) = [m1, m2]" "h (final_ref rs) = [f1, f2]"
    "h (scaler_ref rs) = [k1, k2]"
    by (auto dest!: length_two)
  with True d show ?thesis
    by (simp add: upt_two scale_group_in_place_def scale_in_place_def fun_upd_twist)
next
  case False
  with len obtain i m f k where
    "h (init_ref rs) = [i]" "h (max_ref rs) = [m]" "h (final_ref rs) = [f]" "h (scaler_ref rs) = [k]"
    by (auto dest!: length_one)
  with False d show ?thesis
    by (simp add: scale_group_in_place_def scale_in_place_def)
qed

lemma broadcast_lrs_succeeds:
  assumes "lr_scaler a = Present sc"
    and "\<forall>xs \<in> set [init_lr a, max_lr a, final_lr a, sc, warmup_epochs a, weight_decay a].
            1 \<le> length xs \<and> length xs \<le> (if separate_ffn_lr a then 2 else 1)"
  shows "\<exists>t. broadcast_lrs a = Inr t"
proof -
  have b: "\<exists>ys. broadcast (1 + (if separate_ffn_lr a then 1 else 0)) (separate_ffn_lr a) xs = Inr ys"
    if "1 \<le> length xs" and "length xs \<le> (if separate_ffn_lr a then 2 else 1)" for xs
    using that by (cases "separate_ffn_lr a") (simp_all add: broadcast_def)
  from assms(2) have l: "1 \<le> length (init_lr a)" "length (init_lr a) \<le> (if separate_ffn_lr a then 2 else 1)"
    "1 \<le> length (max_lr a)" "length (max_lr a) \<le> (if separate_ffn_lr a then 2 else 1)"
    "1 \<le> length (final_lr a)" "length (final_lr a) \<le> (if separate_ffn_lr a then 2 else 1)"
    "1 \<le> length sc" "length sc \<le> (if separate_ffn_lr a then 2 else 1)"
    "1 \<le> length (warmup_epochs a)" "length (warmup_epochs a) \<le> (if separate_ffn_lr a then 2 else 1)"
    "1 \<le> length (weight_decay a)" "length (weight_decay a) \<le> (if separate_ffn_lr a then 2 else 1)"
    by simp_all
  from b [OF l(1,2)] obtain i where
    "broadcast (1 + (if separate_ffn_lr a then 1 else 0)) (separate_ffn_lr a) (init_lr a) = Inr i" ..
  moreover from b [OF l(3,4)] obtain m where
    "broadcast (1 + (if separate_ffn_lr a then 1 else 0)) (separate_ffn_lr a) (max_lr a) = Inr m" ..
  moreover from b [OF l(5,6)] obtain f where
    "broadcast (1 + (if separate_ffn_lr a then 1 else 0)) (separate_ffn_lr a) (final_lr a) = Inr f" ..
  moreover from b [OF l(7,8)] obtain k where
    "broadcast (1 + (if separate_ffn_lr a then 1 else 0)) (separate_ffn_lr a) sc = Inr k" ..
  moreover from b [OF l(9,10)] obtain w where
    "broadcast (1 + (if separate_ffn_lr a then 1 else 0)) (separate_ffn_lr a) (warmup_epochs a) = Inr w" ..
  moreover from b [OF l(11,12)] obtain d where
    "broadcast (1 + (if separate_ffn_lr a then 1 else 0)) (separate_ffn_lr a) (weight_decay a) = Inr d" ..
  ultimately show ?thesis
    using assms(1) by (simp add: broadcast_lrs_def Let_def)
qed

text \<open>
  The loops of lines 390 to 399 on the store against \<open>broadcast_lrs\<close> and \<open>scale_lrs\<close> on
  the fields, for a namespace whose six sequences are six different objects: they raise
  the same error, or the fields of the result are what the store then holds, and no
  other object has changed.
\<close>

lemma in_place_agrees:
  assumes d: "distinct (lr_params rs)"
    and a: "init_lr a = h (init_ref rs)" "max_lr a = h (max_ref rs)"
      "final_lr a = h (final_ref rs)" "lr_scaler a = Present (h (scaler_ref rs))"
      "warmup_epochs a = h (warmup_ref rs)" "weight_decay a = h (decay_ref rs)"
  shows "(\<forall>e. then_step (broadcast_lrs a) scale_lrs = Inl e \<longrightarrow>
            lr_in_place (separate_ffn_lr a) rs h = Inl e) \<and>
         (\<forall>c. then_step (broadcast_lrs a) scale_lrs = Inr c \<longrightarrow>
            (\<exists>h'. lr_in_place (separate_ffn_lr a) rs h = Inr h' \<and>
               init_lr c = h' (init_ref rs) \<and> max_lr c = h' (max_ref rs) \<and>
               final_lr c = h' (final_ref rs) \<and> warmup_epochs c = h' (warmup_ref rs) \<and>
               weight_decay c = h' (decay_ref rs) \<and>
               (\<forall>r. r \<notin> set (lr_params rs) \<longrightarrow> h' r = h r)))"
proof -
  let ?sep = "separate_ffn_lr a"
  let ?n = "1 + (if ?sep then 1 else 0) :: int"
  let ?k = "if ?sep then 2 else 1 :: nat"
  let ?ok = "\<forall>r \<in> set (lr_params rs). 1 \<le> int (length (h r)) \<and> int (length (h r)) \<le> ?n"
  have n: "nat ?n = ?k" by simp
  have ok_iff: "?ok \<longleftrightarrow>
      (\<forall>xs \<in> set [init_lr a, max_lr a, final_lr a, h (scaler_ref rs), warmup_epochs a, weight_decay a].
            1 \<le> length xs \<and> length xs \<le> ?k)"
    using a by (auto simp: lr_params_def)
  show ?thesis
  proof (cases ?ok)
    case False
    have "broadcast_in_place ?n ?sep (lr_params rs) h = Inl InvalidGroupCountError"
      by (subst broadcast_in_place_distinct [OF d]) (rule if_not_P [OF False])
    then have "lr_in_place ?sep rs h = Inl InvalidGroupCountError"
      by (simp only: lr_in_place_def Let_def then_step_Inl)
    moreover from False ok_iff
    have "\<exists>xs \<in> set [init_lr a, max_lr a, final_lr a, h (scaler_ref rs), warmup_epochs a, weight_decay a].
            \<not> (1 \<le> length xs \<and> length xs \<le> ?k)"
      by blast
    with a(4) have "broadcast_lrs a = Inl InvalidGroupCountError"
      by (rule broadcast_lrs_Inl)
    ultimately show ?thesis by simp
  next
    case True
    let ?h1 = "\<lambda>r. if r \<in> set (lr_params rs) \<and> ?sep \<and> length (h r) = 1 then h r @ h r else h r"
    have b: "broadcast_in_place ?n ?sep (lr_params rs) h = Inr ?h1"
      by (subst broadcast_in_place_distinct [OF d]) (rule if_P [OF True])
    have dup: "?h1 r = duplicate_single ?sep (h r)" if "r \<in> set (lr_params rs)" for r
      using that by (simp add: duplicate_single_eq)
    from True have len: "\<forall>xs \<in> set [init_lr a, max_lr a, final_lr a, h (scaler_ref rs),
          warmup_epochs a, weight_decay a]. 1 \<le> length xs \<and> length xs \<le> ?k"
      using ok_iff by blast
    have bounds: "1 \<le> length (h r) \<and> length (h r) \<le> ?k" if "r \<in> set (lr_params rs)" for r
      using True that by (cases ?sep) auto
    have l1: "length (?h1 r) = ?k" if "r \<in> set (lr_params rs)" for r
      using bounds [OF that] length_duplicate_single [of "h r" ?sep] dup [OF that]
      by (simp only:)
    have l: "length (?h1 (init_ref rs)) = ?k" "length (?h1 (max_ref rs)) = ?k"
      "length (?h1 (final_ref rs)) = ?k" "length (?h1 (scaler_ref rs)) = ?k"
      by (rule l1, simp add: lr_params_def)+
    from d have d4: "distinct [init_ref rs, max_ref rs, final_ref rs, scaler_ref rs]"
      by (simp add: lr_params_def)
    define h' where "h' = ?h1(init_ref rs := map2 (*) (?h1 (init_ref rs)) (?h1 (scaler_ref rs)),
           max_ref rs := map2 (*) (?h1 (max_ref rs)) (?h1 (scaler_ref rs)),
           final_ref rs := map2 (*) (?h1 (final_ref rs)) (?h1 (scaler_ref rs)))"
    from scale_loop_in_place_groups [OF d4 l]
    have sc: "scale_loop_in_place rs [0..<?k] ?h1 = Inr h'"
      unfolding h'_def .
    have heap: "lr_in_place ?sep rs h = Inr h'"
      unfolding lr_in_place_def Let_def b then_step_Inr n by (rule sc)
    from broadcast_lrs_succeeds [OF a(4) len] obtain t where t: "broadcast_lrs a = Inr t" ..
    from lr_block [OF t] a(4)
    have c: "scale_lrs t = Inr (t\<lparr>
            init_lr := map2 (*) (duplicate_single ?sep (init_lr a))
                         (duplicate_single ?sep (h (scaler_ref rs))),
            max_lr := map2 (*) (duplicate_single ?sep (max_lr a))
                         (duplicate_single ?sep (h (scaler_ref rs))),
            final_lr := map2 (*) (duplicate_single ?sep (final_lr a))
                         (duplicate_single ?sep (h (scaler_ref rs))),
            lr_scaler := Absent\<rparr>)"
      and w: "warmup_epochs t = duplicate_single ?sep (warmup_epochs a)"
        "weight_decay t = duplicate_single ?sep (weight_decay a)"
      by auto
    have fields: "h' (init_ref rs) = map2 (*) (duplicate_single ?sep (init_lr a))
          (duplicate_single ?sep (h (scaler_ref rs)))"
      "h' (max_ref rs) = map2 (*) (duplicate_single ?sep (max_lr a))
          (duplicate_single ?sep (h (scaler_ref rs)))"
      "h' (final_ref rs) = map2 (*) (duplicate_single ?sep (final_lr a))
          (duplicate_single ?sep (h (scaler_ref rs)))"
      "h' (warmup_ref rs) = duplicate_single ?sep (warmup_epochs a)"
      "h' (decay_ref rs) = duplicate_single ?sep (weight_decay a)"
      unfolding h'_def using d a by (auto simp add: lr_params_def duplicate_single_eq)
    have others: "\<forall>r. r \<notin> set (lr_params rs) \<longrightarrow> h' r = h r"
      unfolding h'_def by (simp add: lr_params_def)
    from t c obtain v where v: "then_step (broadcast_lrs a) scale_lrs = Inr v"
      and "init_lr v = h' (init_ref rs)" and "max_lr v = h' (max_ref rs)"
      and "final_lr v = h' (final_ref rs)" and "warmup_epochs v = h' (warmup_ref rs)"
      and "weight_decay v = h' (decay_ref rs)"
      using fields w by simp
    with heap fields w others show ?thesis by simp
  qed
qed

text \<open>
  Without the premise the two differ. If \<^verbatim>\<open>init_lr\<close> and \<^verbatim>\<open>lr_scaler\<close> are one object
  holding \<^verbatim>\<open>[2.0]\<close>, line 397 squares its entry, and lines 398 and 399 scale by 4.
\<close>

lemma in_place_shared_object:
  "lr_in_place False
     \<lparr>init_ref = 0, max_ref = 1, final_ref = 2, scaler_ref = 0, warmup_ref = 3, decay_ref = 4\<rparr>
     (\<lambda>r. if r = 0 then [2] else [1])
   = Inr (\<lambda>r. if r = 0 then [4] else if r = 1 \<or> r = 2 then [4] else [1])"
  by (auto simp: lr_in_place_def lr_params_def scale_group_in_place_def scale_in_place_def fun_eq_iff)

subsection \<open>The walk finds the files of the tree\<close>

lemma length_model_files:
  "length (model_files (d, ds, fs)) = length (filter (\<lambda>n. n = ''model.pt'') fs)"
  by (simp add: model_files_def)

lemma set_model_files:
  "set (model_files (d, ds, fs)) = (if ''model.pt'' \<in> set fs then {path_join d ''model.pt''} else {})"
  by (auto simp: model_files_def)

lemma filenames_Cons:
  "filenames (e # es) = (if is_dir_node (snd e) then filenames es else fst e # filenames es)"
  by (simp add: filenames_def)

lemma mem_filenames: "f \<in> set (filenames es) \<longleftrightarrow> (f, File) \<in> set es"
proof
  assume "f \<in> set (filenames es)"
  then obtain c where c: "(f, c) \<in> set es" and n: "\<not> is_dir_node c"
    by (auto simp: filenames_def)
  from n have "c = File" by (cases c) simp_all
  with c show "(f, File) \<in> set es" by simp
next
  assume "(f, File) \<in> set es"
  then show "f \<in> set (filenames es)" by (force simp: filenames_def)
qed

lemma walk_counts:
  "length (concat (map model_files (walk d nd))) = count_named ''model.pt'' nd"
  "length (concat (map model_files (walk_subdirs d es)))
     + length (filter (\<lambda>n. n = ''model.pt'') (filenames es)) = count_named_in ''model.pt'' es"
proof (induction d nd and d es rule: walk_walk_subdirs.induct)
  case (1 d)
  show ?case by simp
next
  case (2 d es)
  then show ?case by (simp add: length_model_files)
next
  case (3 d)
  show ?case by (simp add: filenames_def)
next
  case (4 d e es)
  then show ?case by (simp add: filenames_Cons)
qed

lemma file_at_File [simp]: "file_at File ds f = False"
  by (cases ds) simp_all

lemma walk_paths:
  "set (concat (map model_files (walk d nd)))
     = {path_join (foldl path_join d ds) ''model.pt'' | ds. file_at nd ds ''model.pt''}"
  "set (concat (map model_files (walk_subdirs d es)))
     = {path_join (foldl path_join d ds) ''model.pt'' | ds. ds \<noteq> [] \<and> file_at (Dir es) ds ''model.pt''}"
proof (induction d nd and d es rule: walk_walk_subdirs.induct)
  case (1 d)
  show ?case by simp
next
  case (2 d es)
  have split: "{path_join (foldl path_join d ds) ''model.pt'' | ds. file_at (Dir es) ds ''model.pt''}
      = {path_join (foldl path_join d ds) ''model.pt'' | ds. ds = [] \<and> file_at (Dir es) ds ''model.pt''}
        \<union> {path_join (foldl path_join d ds) ''model.pt'' | ds. ds \<noteq> [] \<and> file_at (Dir es) ds ''model.pt''}"
    by blast
  have here: "{path_join (foldl path_join d ds) ''model.pt'' | ds. ds = [] \<and> file_at (Dir es) ds ''model.pt''}
      = set (model_files (d, dirnames es, filenames es))"
    by (auto simp: set_model_files mem_filenames)
  from 2 show ?case
    unfolding split here by simp
next
  case (3 d)
  have "\<not> file_at (Dir []) ds ''model.pt''" if "ds \<noteq> []" for ds
    using that by (cases ds) simp_all
  then show ?case by auto
next
  case (4 d e es)
  have sub: "set (concat (map model_files
        (if is_dir_node (snd e) then walk (path_join d (fst e)) (snd e) else [])))
      = {path_join (foldl path_join (path_join d (fst e)) ds) ''model.pt'' | ds.
           file_at (snd e) ds ''model.pt''}"
  proof (cases "is_dir_node (snd e)")
    case True
    with 4 show ?thesis by simp
  next
    case False
    then have "snd e = File" by (cases "snd e") simp_all
    then show ?thesis by simp
  qed
  have "{path_join (foldl path_join d ds) ''model.pt'' | ds.
           ds \<noteq> [] \<and> file_at (Dir (e # es)) ds ''model.pt''}
      = {path_join (foldl path_join (path_join d (fst e)) ds) ''model.pt'' | ds.
           file_at (snd e) ds ''model.pt''}
        \<union> {path_join (foldl path_join d ds) ''model.pt'' | ds.
           ds \<noteq> [] \<and> file_at (Dir es) ds ''model.pt''}"
    (is "?L = ?A \<union> ?B")
  proof (intro equalityI subsetI)
    fix p assume "p \<in> ?L"
    then obtain ds where p: "p = path_join (foldl path_join d ds) ''model.pt''"
      and n: "ds \<noteq> []" and f: "file_at (Dir (e # es)) ds ''model.pt''"
      by blast
    from n obtain x xs where ds: "ds = x # xs" by (cases ds) simp_all
    with f consider "fst e = x" "file_at (snd e) xs ''model.pt''"
      | "file_at (Dir es) (x # xs) ''model.pt''"
      by auto
    then show "p \<in> ?A \<union> ?B"
    proof cases
      case 1
      with p ds have "p \<in> ?A" by auto
      then show ?thesis by simp
    next
      case 2
      with p ds have "p \<in> ?B" by blast
      then show ?thesis by simp
    qed
  next
    fix p assume "p \<in> ?A \<union> ?B"
    then consider "p \<in> ?A" | "p \<in> ?B" by blast
    then show "p \<in> ?L"
    proof cases
      case 1
      then obtain xs where p: "p = path_join (foldl path_join (path_join d (fst e)) xs) ''model.pt''"
        and f: "file_at (snd e) xs ''model.pt''" by blast
      from f have "file_at (Dir (e # es)) (fst e # xs) ''model.pt''" by simp
      moreover from p have "p = path_join (foldl path_join d (fst e # xs)) ''model.pt''" by simp
      ultimately show ?thesis by blast
    next
      case 2
      then obtain ds where p: "p = path_join (foldl path_join d ds) ''model.pt''"
        and n: "ds \<noteq> []" and f: "file_at (Dir es) ds ''model.pt''" by blast
      from n obtain x xs where ds: "ds = x # xs" by (cases ds) simp_all
      with f have "file_at (Dir (e # es)) ds ''model.pt''" by simp
      with p n show ?thesis by blast
    qed
  qed
  with sub 4 show ?case by simp
qed

lemma os_walk_counts:
  "length (concat (map model_files (os_walk env d))) = artifacts_under env d"
  by (cases "fs_lookup env d") (simp_all add: os_walk_def artifacts_under_def walk_counts)

lemma os_walk_paths:
  "set (concat (map model_files (os_walk env d)))
     = {path_join (foldl path_join d ds) ''model.pt'' | ds. artifact_at env d ds}"
proof (cases "fs_lookup env d")
  case None
  then show ?thesis by (simp add: os_walk_def artifact_at_def)
next
  case (Some nd)
  then have "os_walk env d = walk d nd"
    and "\<And>ds. artifact_at env d ds = file_at nd ds ''model.pt''"
    by (simp_all add: os_walk_def artifact_at_def)
  with walk_paths(1) [of d nd] show ?thesis by (simp only:)
qed

text \<open>Lines 304 to 314 for a supplied checkpoint directory.\<close>

lemma discovery:
  assumes "checkpoint_dir s = Some d"
  shows "update_args_from_checkpoint_dir env s =
           (if artifacts_under env d = 0
            then Inl (NoCheckpointsFoundError
                   (''Failed to find any model checkpoints in directory '' @ dq @ d @ dq))
            else Inr (s\<lparr>checkpoint_paths := Present (Some (concat (map model_files (os_walk env d)))),
                       ensemble_size := int (artifacts_under env d)\<rparr>))"
  using assms by (simp add: update_args_from_checkpoint_dir_def Let_def os_walk_counts [symmetric])

subsection \<open>The feature block (lines 371 to 383)\<close>

lemma truthy_features_source:
  "truthy (features_source s) \<longleftrightarrow>
     (\<exists>g. features_generator s = Some g \<and> g \<noteq> []) \<or> (\<exists>p. features_path s = Some p \<and> p \<noteq> [])"
  by (cases "features_generator s"; cases "features_path s") (simp_all add: features_source_def)

lemma features_source_cong:
  "features_generator t = features_generator s \<Longrightarrow> features_path t = features_path s \<Longrightarrow>
   features_source t = features_source s"
  by (simp add: features_source_def)

lemma features_block:
  assumes 1: "set_use_input_features s = Inr t1"
    and 2: "features_and_task_step t1 = Inr t2"
    and 3: "predict_features_step t2 = Inr t3"
    and 4: "bert_step t3 = Inr t4"
  shows "use_input_features t4 =
           Present (if predict_features s \<or> predict_features_and_task s
                       \<or> py_in (kernel_func s) [''features'', ''features_dot'']
                       \<or> dataset_type s = ''bert_pretraining''
                    then PyBool False else features_source s)"
proof -
  from 1 have u1: "use_input_features t1 = Present (features_source s)"
    by (auto simp: set_use_input_features_def)
  note k1 = set_use_input_features_keeps [OF 1]
  note k2 = features_and_task_step_keeps [OF 2]
  from 2 have p2: "predict_features t2 = (predict_features t1 \<or> predict_features_and_task t1)"
    by (auto simp: features_and_task_step_def split: if_splits)
  from 3 have u3: "use_input_features t3 =
      (if predict_features t2 \<or> py_in (kernel_func t2) [''features'', ''features_dot'']
       then Present (PyBool False) else use_input_features t2)"
    by (auto simp: predict_features_step_def split: if_splits)
  note k3 = predict_features_step_keeps [OF 3]
  from 4 have u4: "use_input_features t4 =
      (if dataset_type t3 = ''bert_pretraining'' then Present (PyBool False) else use_input_features t3)"
    by (auto simp: bert_step_def split: if_splits)
  from u1 k1 k2 p2 u3 k3 u4 show ?thesis by simp
qed

subsection \<open>A resolved namespace is settled\<close>

lemma check_metric_cong:
  "check_metric s = Inr s' \<Longrightarrow> dataset_type t = dataset_type s \<Longrightarrow> metric t = metric s \<Longrightarrow>
   check_metric t = Inr t"
  by (simp add: check_metric_def split: if_splits)

lemma check_jtnn_cong:
  "check_jtnn env s = Inr s' \<Longrightarrow> jtnn t = jtnn s \<Longrightarrow> vocab_path t = vocab_path s \<Longrightarrow>
   check_jtnn env t = Inr t"
  by (cases "vocab_path s"; cases "jtnn s")
    (auto simp: check_jtnn_def split: option.splits if_splits)

lemma check_split_cong:
  "check_split s = Inr s' \<Longrightarrow> split_type t = split_type s \<Longrightarrow>
   scaffold_overlap t = scaffold_overlap s \<Longrightarrow> folds_file t = folds_file s \<Longrightarrow>
   test_fold_index t = test_fold_index s \<Longrightarrow> check_split t = Inr t"
  by (auto simp: check_split_def split: if_splits)

lemma save_dir_step_Some: "save_dir_step env a = Inr t \<Longrightarrow> save_dir t \<noteq> None"
  by (auto simp: save_dir_step_def split: option.splits if_splits)

lemma invert_flags_Inr:
  assumes "invert_flags env s = Inr t"
  shows "no_cuda t = Absent \<and> no_target_scaling t = Absent \<and> no_features_scaling t = Absent \<and>
         (\<exists>b. cuda t = Present (b \<and> cuda_is_available env)) \<and>
         (\<exists>b. target_scaling t = Present b) \<and> (\<exists>b. features_scaling t = Present b)"
proof -
  from assms obtain nc nt nf where "no_cuda s = Present nc" "no_target_scaling s = Present nt"
    "no_features_scaling s = Present nf"
    by (cases "no_cuda s"; cases "no_target_scaling s"; cases "no_features_scaling s")
      (simp_all add: invert_flags_def)
  with assms show ?thesis by (auto simp: invert_flags_def)
qed

lemma default_metric_Some: "default_metric s = Inr t \<Longrightarrow> metric t \<noteq> None"
  by (auto simp: default_metric_def py_in_def split: if_splits)

lemma set_minimize_score_Inr:
  "set_minimize_score s = Inr t \<Longrightarrow>
   minimize_score t = Present (py_in (metric s) [''rmse'', ''mae'', ''log_loss''])"
  by (auto simp: set_minimize_score_def)

lemma update_args_Inr:
  assumes "update_args_from_checkpoint_dir env s = Inr t"
  shows "case checkpoint_dir s of
           None \<Rightarrow> checkpoint_paths t = Present None
         | Some d \<Rightarrow>
             artifacts_under env d \<noteq> 0 \<and>
             checkpoint_paths t = Present (Some (concat (map model_files (os_walk env d)))) \<and>
             ensemble_size t = int (artifacts_under env d)"
proof (cases "checkpoint_dir s")
  case None
  with assms show ?thesis by (auto simp: update_args_from_checkpoint_dir_def)
next
  case (Some d)
  from assms discovery [OF Some, of env] Some show ?thesis
    by (auto split: if_splits)
qed

lemma features_checks:
  assumes 1: "set_use_input_features s = Inr t1"
    and 2: "features_and_task_step t1 = Inr t2"
    and 3: "predict_features_step t2 = Inr t3"
    and 4: "bert_step t3 = Inr t4"
  shows "(if predict_features_and_task t4 then dataset_type t4 = ''regression'' \<and> predict_features t4
          else True) \<and>
         (if predict_features t4 \<or> py_in (kernel_func t4) [''features'', ''features_dot'']
          then truthy (features_source t4) else True) \<and>
         (if dataset_type t4 = ''bert_pretraining'' then \<not> features_only t4 else True) \<and>
         use_input_features t4 =
           Present (if predict_features t4 \<or> py_in (kernel_func t4) [''features'', ''features_dot'']
                       \<or> dataset_type t4 = ''bert_pretraining''
                    then PyBool False else features_source t4)"
proof -
  note k1 = set_use_input_features_keeps [OF 1]
  note k2 = features_and_task_step_keeps [OF 2]
  note k3 = predict_features_step_keeps [OF 3]
  note k4 = bert_step_keeps [OF 4]
  from 2 have p2: "predict_features t2 = (predict_features t1 \<or> predict_features_and_task t1)"
    and a2: "predict_features_and_task t1 \<longrightarrow> dataset_type t1 = ''regression''"
    by (auto simp: features_and_task_step_def split: if_splits)
  from 3 have a3: "predict_features t2 \<or> py_in (kernel_func t2) [''features'', ''features_dot'']
      \<longrightarrow> truthy (features_source t2)"
    by (auto simp: predict_features_step_def split: if_splits)
  from 4 have a4: "dataset_type t3 = ''bert_pretraining'' \<longrightarrow> \<not> features_only t3"
    by (auto simp: bert_step_def split: if_splits)
  have src: "features_source t4 = features_source s" "features_source t2 = features_source s"
    using k1 k2 k3 k4 by (simp_all add: features_source_def)
  have same: "predict_features t4 = predict_features t2" "kernel_func t4 = kernel_func s"
    "kernel_func t2 = kernel_func s" "dataset_type t4 = dataset_type s" "dataset_type t3 = dataset_type s"
    "dataset_type t1 = dataset_type s" "predict_features_and_task t4 = predict_features_and_task s"
    "predict_features_and_task t1 = predict_features_and_task s"
    "predict_features t1 = predict_features s" "features_only t4 = features_only t3"
    using k1 k2 k3 k4 by simp_all
  from features_block [OF 1 2 3 4] p2 a2 a3 a4 src same show ?thesis by auto
qed

lemma ffn_Inr:
  assumes "check_ffn_layers s = Inr v" and "ffn_defaults v = Inr t"
  shows "1 \<le> ffn_num_layers t \<and> ffn_hidden_size t \<noteq> None \<and> ffn_input_dropout t \<noteq> None
         \<and> ffn_dropout t \<noteq> None"
proof -
  from assms(1) have "1 \<le> ffn_num_layers s" and "v = s"
    by (auto simp: check_ffn_layers_def split: if_splits)
  with assms(2) show ?thesis
    by (auto simp: ffn_defaults_def split: option.splits)
qed

lemma test_step_Inr:
  "test_step s = Inr t \<Longrightarrow> (if test t then epochs t = 0 else True)"
  by (auto simp: test_step_def split: if_splits)

lemma chunk_step_file:
  assumes "chunk_step env s = Inr t" and "\<not> path_isdir env (data_path s)"
  shows "prespecified_chunk_dir t = Present None \<and> data_path t = data_path s"
  using assms by (auto simp: chunk_step_def)

lemma resolved_settled:
  assumes c: "modify_train_args env a = Inr c" and nodir: "\<not> path_isdir env (data_path a)"
  shows "settled env c"
proof -
  from c obtain s0 where r0: "at_metric env a = Inr s0" by (rule success_at_metric)
  from c obtain s1 where r1: "at_metric_check env a = Inr s1" by (rule success_at_metric_check)
  from c obtain s2 where r2: "at_checkpoint env a = Inr s2" by (rule success_at_checkpoint)
  from c obtain s3 where r3: "at_jtnn env a = Inr s3" by (rule success_at_jtnn)
  from c obtain s4 where r4: "at_features env a = Inr s4" by (rule success_at_features)
  from c obtain s5 where r5: "at_lr env a = Inr s5" by (rule success_at_lr)
  from c obtain s6 where r6: "at_ffn env a = Inr s6" by (rule success_at_ffn)
  from c obtain s7 where r7: "at_split env a = Inr s7" by (rule success_at_split)
  from c obtain s8 where r8: "at_chunk env a = Inr s8" by (rule success_at_chunk)
  note out0 = at_metric_result [OF r0 c]
  note out1 = at_metric_check_result [OF r1 c]
  note out2 = at_checkpoint_result [OF r2 c]
  note out3 = at_jtnn_result [OF r3 c]
  note out4 = at_features_result [OF r4 c]
  note out5 = at_lr_result [OF r5 c]
  note out6 = at_ffn_result [OF r6 c]
  note out7 = at_split_result [OF r7 c]
  note out8 = modify_train_args_segment [OF r8 c]
  from r0 obtain t where t: "save_dir_step env a = Inr t" and i: "invert_flags env t = Inr s0"
    by (auto simp: at_metric_steps)
  from save_dir_step_Some [OF t] invert_flags_keeps [OF i] out0
  have f1: "save_dir c \<noteq> None" by simp
  from invert_flags_Inr [OF i] out0
  have f2: "no_cuda c = Absent \<and> no_target_scaling c = Absent \<and> no_features_scaling c = Absent \<and>
     (\<exists>b. cuda c = Present (b \<and> cuda_is_available env)) \<and>
     (\<exists>b. target_scaling c = Present b) \<and> (\<exists>b. features_scaling c = Present b)"
    by simp
  from r0 r1 have d: "default_metric s0 = Inr s1" by (auto simp: at_metric_check_steps)
  from r1 r2 obtain u where k: "check_metric s1 = Inr u" and m: "set_minimize_score u = Inr s2"
    by (auto simp: at_checkpoint_steps)
  from default_metric_Some [OF d] out1 have f3: "metric c \<noteq> None" by simp
  from check_metric_cong [OF k, of c] out1 have f4: "check_metric c = Inr c" by simp
  from set_minimize_score_Inr [OF m] check_metric_keeps [OF k] out1 out2
  have f5: "minimize_score c = Present (py_in (metric c) [''rmse'', ''mae'', ''log_loss''])"
    by simp
  from r2 r3 have up: "update_args_from_checkpoint_dir env s2 = Inr s3"
    by (auto simp: at_jtnn_steps)
  from update_args_Inr [OF up] update_args_from_checkpoint_dir_keeps [OF up] out3
  have f6: "case checkpoint_dir c of
        None \<Rightarrow> checkpoint_paths c = Present None
      | Some d \<Rightarrow>
          artifacts_under env d \<noteq> 0 \<and>
          checkpoint_paths c = Present (Some (concat (map model_files (os_walk env d)))) \<and>
          ensemble_size c = int (artifacts_under env d)"
    by (simp split: option.splits)
  from r3 r4 have j: "check_jtnn env s3 = Inr s4" by (auto simp: at_features_steps)
  from check_jtnn_cong [OF j, of c] out3 have f7: "check_jtnn env c = Inr c" by simp
  from r4 r5 obtain t1 t2 t3 t4 where
    1: "set_use_input_features s4 = Inr t1" and 2: "features_and_task_step t1 = Inr t2"
    and 3: "predict_features_step t2 = Inr t3" and 4: "bert_step t3 = Inr t4"
    and 5: "unsupervised_step t4 = Inr s5"
    by (auto simp: at_lr_steps)
  have src: "features_source c = features_source t4"
    using unsupervised_step_keeps [OF 5] out5 by (simp add: features_source_def)
  from features_checks [OF 1 2 3 4] unsupervised_step_keeps [OF 5] out5 src
  have f8: "(if predict_features_and_task c then dataset_type c = ''regression'' \<and> predict_features c
      else True) \<and>
     (if predict_features c \<or> py_in (kernel_func c) [''features'', ''features_dot'']
      then truthy (features_source c) else True) \<and>
     (if dataset_type c = ''bert_pretraining'' then \<not> features_only c else True) \<and>
     use_input_features c =
       Present (if predict_features c \<or> py_in (kernel_func c) [''features'', ''features_dot'']
                   \<or> dataset_type c = ''bert_pretraining''
                then PyBool False else features_source c)"
    by simp
  define two where "two = (separate_ffn_lr a \<or> dataset_type a = ''unsupervised'')"
  from c two_def obtain sc where
    len: "\<forall>xs \<in> set [init_lr a, max_lr a, final_lr a, sc, warmup_epochs a, weight_decay a].
            1 \<le> length xs \<and> length xs \<le> (if two then 2 else 1)"
    and rc: "separate_ffn_lr c = two" "num_lrs c = Present (1 + (if two then 1 else 0))"
      "init_lr c = map2 (*) (duplicate_single two (init_lr a)) (duplicate_single two sc)"
      "max_lr c = map2 (*) (duplicate_single two (max_lr a)) (duplicate_single two sc)"
      "final_lr c = map2 (*) (duplicate_single two (final_lr a)) (duplicate_single two sc)"
      "warmup_epochs c = duplicate_single two (warmup_epochs a)"
      "weight_decay c = duplicate_single two (weight_decay a)"
      "lr_scaler c = Absent"
    by (rule lr_resolved)
  from len have l: "length (duplicate_single two (init_lr a)) = (if two then 2 else 1)"
    "length (duplicate_single two (max_lr a)) = (if two then 2 else 1)"
    "length (duplicate_single two (final_lr a)) = (if two then 2 else 1)"
    "length (duplicate_single two sc) = (if two then 2 else 1)"
    "length (duplicate_single two (warmup_epochs a)) = (if two then 2 else 1)"
    "length (duplicate_single two (weight_decay a)) = (if two then 2 else 1)"
    by (simp_all add: length_duplicate_single)
  from modify_train_args_input [OF c] have dt: "dataset_type c = dataset_type a" by simp
  from rc l dt two_def
  have f9: "(if dataset_type c = ''unsupervised'' then separate_ffn_lr c else True) \<and>
     num_lrs c = Present (1 + (if separate_ffn_lr c then 1 else 0)) \<and>
     length (init_lr c) = (if separate_ffn_lr c then 2 else 1) \<and>
     length (max_lr c) = (if separate_ffn_lr c then 2 else 1) \<and>
     length (final_lr c) = (if separate_ffn_lr c then 2 else 1) \<and>
     length (warmup_epochs c) = (if separate_ffn_lr c then 2 else 1) \<and>
     length (weight_decay c) = (if separate_ffn_lr c then 2 else 1) \<and>
     lr_scaler c = Absent"
    by simp
  from r6 r7 obtain v where fl: "check_ffn_layers s6 = Inr v" and fd: "ffn_defaults v = Inr s7"
    by (auto simp: at_split_steps)
  from ffn_Inr [OF fl fd] out7
  have f10: "1 \<le> ffn_num_layers c \<and> ffn_hidden_size c \<noteq> None \<and> ffn_input_dropout c \<noteq> None
      \<and> ffn_dropout c \<noteq> None"
    by simp
  from r7 r8 obtain w where sp: "check_split s7 = Inr w" and ts: "test_step w = Inr s8"
    by (auto simp: at_chunk_steps)
  from check_split_cong [OF sp, of c] out7 have f11: "check_split c = Inr c" by simp
  from test_step_Inr [OF ts] out8 have f12: "if test c then epochs c = 0 else True" by simp
  from r8 c have ch: "chunk_step env s8 = Inr c" by (auto simp: modify_train_args_steps)
  from at_chunk_input [OF r8] nodir have "\<not> path_isdir env (data_path s8)" by simp
  from chunk_step_file [OF ch this] this
  have f13: "prespecified_chunk_dir c = Present None \<and> \<not> path_isdir env (data_path c)" by simp
  show ?thesis
    unfolding settled_def
    using f1 f2 f3 f4 f5 f6 f7 f8 f9 f10 f11 f12 f13 by blast
qed

subsection \<open>Resolving the raw bag of a settled namespace\<close>

lemma map2_times_one:
  "length xs = (if two then 2 else 1) \<Longrightarrow>
   map2 (*) xs (if two then [1, 1] else [1::real]) = xs"
  by (cases two) (auto dest!: length_one length_two)

lemma rerun_settled:
  assumes s: "settled env c" and d: "save_dir c = Some d" and ok: "makedirs_ok env d"
  shows "modify_train_args env (raw_of_resolved c) = Inr c"
proof -
  let ?r = "raw_of_resolved c"
  let ?m1 = "?r\<lparr>cuda := cuda c, no_cuda := Absent,
          target_scaling := target_scaling c, no_target_scaling := Absent,
          features_scaling := features_scaling c, no_features_scaling := Absent\<rparr>"
  let ?m3 = "?m1\<lparr>minimize_score := minimize_score c\<rparr>"
  let ?m4 = "?m3\<lparr>checkpoint_paths := checkpoint_paths c\<rparr>"
  let ?m6 = "?m4\<lparr>use_input_features := use_input_features c\<rparr>"
  let ?m7 = "?m6\<lparr>num_lrs := num_lrs c, lr_scaler := Absent\<rparr>"
  let ?two = "separate_ffn_lr c"
  from s obtain b1 b2 b3 where b: "cuda c = Present (b1 \<and> cuda_is_available env)"
    "target_scaling c = Present b2" "features_scaling c = Present b3"
    unfolding settled_def by blast
  from s have f: "metric c \<noteq> None" "check_metric c = Inr c"
    "minimize_score c = Present (py_in (metric c) [''rmse'', ''mae'', ''log_loss''])"
    "case checkpoint_dir c of
        None \<Rightarrow> checkpoint_paths c = Present None
      | Some d \<Rightarrow>
          artifacts_under env d \<noteq> 0 \<and>
          checkpoint_paths c = Present (Some (concat (map model_files (os_walk env d)))) \<and>
          ensemble_size c = int (artifacts_under env d)"
    "check_jtnn env c = Inr c"
    unfolding settled_def by blast+
  from s have g: "if predict_features_and_task c then dataset_type c = ''regression'' \<and> predict_features c
      else True"
    "if predict_features c \<or> py_in (kernel_func c) [''features'', ''features_dot'']
      then truthy (features_source c) else True"
    "if dataset_type c = ''bert_pretraining'' then \<not> features_only c else True"
    "use_input_features c =
       Present (if predict_features c \<or> py_in (kernel_func c) [''features'', ''features_dot'']
                   \<or> dataset_type c = ''bert_pretraining''
                then PyBool False else features_source c)"
    "if dataset_type c = ''unsupervised'' then separate_ffn_lr c else True"
    unfolding settled_def by blast+
  from s have l: "num_lrs c = Present (1 + (if separate_ffn_lr c then 1 else 0))"
    "length (init_lr c) = (if separate_ffn_lr c then 2 else 1)"
    "length (max_lr c) = (if separate_ffn_lr c then 2 else 1)"
    "length (final_lr c) = (if separate_ffn_lr c then 2 else 1)"
    "length (warmup_epochs c) = (if separate_ffn_lr c then 2 else 1)"
    "length (weight_decay c) = (if separate_ffn_lr c then 2 else 1)"
    "lr_scaler c = Absent"
    unfolding settled_def by blast+
  from s have h: "1 \<le> ffn_num_layers c" "ffn_hidden_size c \<noteq> None" "ffn_input_dropout c \<noteq> None"
    "ffn_dropout c \<noteq> None" "check_split c = Inr c" "if test c then epochs c = 0 else True"
    "prespecified_chunk_dir c = Present None" "\<not> path_isdir env (data_path c)"
    "no_cuda c = Absent" "no_target_scaling c = Absent" "no_features_scaling c = Absent"
    unfolding settled_def by blast+
  \<comment> \<open>lines 321 to 334\<close>
  from d ok have 1: "save_dir_step env ?r = Inr ?r"
    by (simp add: save_dir_step_def raw_of_resolved_def)
  have a: "at_metric env ?r = Inr ?m1"
    unfolding at_metric_def 1 then_step_Inr
    by (auto simp add: invert_flags_def raw_of_resolved_def negated_def b)
  \<comment> \<open>lines 336 to 361\<close>
  from f(1) obtain m where m: "metric c = Some m" by auto
  have 2: "default_metric ?m1 = Inr ?m1"
    by (simp add: default_metric_def raw_of_resolved_def m)
  have 3: "check_metric ?m1 = Inr ?m1"
    by (rule check_metric_cong [OF f(2)]) (simp_all add: raw_of_resolved_def)
  have 4: "set_minimize_score ?m1 = Inr ?m3"
    by (simp add: set_minimize_score_def raw_of_resolved_def f(3))
  have k: "at_checkpoint env ?r = Inr ?m3"
    unfolding at_checkpoint_def at_metric_check_def a then_step_Inr 2 3 4 ..
  \<comment> \<open>line 363\<close>
  have 5: "update_args_from_checkpoint_dir env ?m3 = Inr ?m4"
  proof (cases "checkpoint_dir c")
    case None
    with f(4) show ?thesis
      by (simp add: update_args_from_checkpoint_dir_def raw_of_resolved_def)
  next
    case (Some p)
    then have "checkpoint_dir ?m3 = Some p" by (simp add: raw_of_resolved_def)
    from discovery [OF this, of env] f(4) Some show ?thesis
      by (simp add: raw_of_resolved_def)
  qed
  \<comment> \<open>lines 365 to 369\<close>
  have 6: "check_jtnn env ?m4 = Inr ?m4"
    by (rule check_jtnn_cong [OF f(5)]) (simp_all add: raw_of_resolved_def)
  have j: "at_features env ?r = Inr ?m4"
    unfolding at_features_def at_jtnn_def k then_step_Inr 5 6 ..
  \<comment> \<open>lines 371 to 386\<close>
  have src: "features_source ?m4 = features_source c"
    by (simp add: features_source_def raw_of_resolved_def)
  have 7: "set_use_input_features ?m4 = Inr (?m4\<lparr>use_input_features := Present (features_source c)\<rparr>)"
    by (simp add: set_use_input_features_def src)
  let ?u1 = "?m4\<lparr>use_input_features := Present (features_source c)\<rparr>"
  let ?u2 = "?m4\<lparr>use_input_features :=
      Present (if predict_features c \<or> py_in (kernel_func c) [''features'', ''features_dot'']
               then PyBool False else features_source c)\<rparr>"
  have 8: "features_and_task_step ?u1 = Inr ?u1"
    using g(1) by (cases "predict_features_and_task c")
      (simp_all add: features_and_task_step_def raw_of_resolved_def)
  have src1: "features_source ?u1 = features_source c"
    by (simp add: features_source_def raw_of_resolved_def)
  have 9: "predict_features_step ?u1 = Inr ?u2"
    using g(2)
    by (cases "predict_features c \<or> py_in (kernel_func c) [''features'', ''features_dot'']")
      (auto simp add: predict_features_step_def raw_of_resolved_def features_source_def)
  have 10: "bert_step ?u2 = Inr ?m6"
    using g(3) g(4) by (cases "dataset_type c = ''bert_pretraining''")
      (simp_all add: bert_step_def raw_of_resolved_def)
  have 11: "unsupervised_step ?m6 = Inr ?m6"
    using g(5) by (cases "dataset_type c = ''unsupervised''")
      (simp_all add: unsupervised_step_def raw_of_resolved_def)
  have q: "at_lr env ?r = Inr ?m6"
    unfolding at_lr_def j then_step_Inr 7 8 9 10 11 ..
  \<comment> \<open>lines 388 to 401\<close>
  let ?b = "?m6\<lparr>num_lrs := num_lrs c,
      lr_scaler := Present (if separate_ffn_lr c then [1, 1] else [1])\<rparr>"
  have bc: "broadcast (1 + (if separate_ffn_lr c then 1 else 0)) (separate_ffn_lr c) xs = Inr xs"
    if "length xs = (if separate_ffn_lr c then 2 else 1)" for xs
    using that by (simp add: broadcast_def)
  have bs: "broadcast (1 + (if separate_ffn_lr c then 1 else 0)) (separate_ffn_lr c) [1]
      = Inr (if separate_ffn_lr c then [1, 1] else [1])"
    by (simp add: broadcast_def)
  have 12: "broadcast_lrs ?m6 = Inr ?b"
    by (simp add: broadcast_lrs_def Let_def raw_of_resolved_def bc bs l)
  have 13: "scale_lrs ?b = Inr ?m7"
  proof -
    have "scale_lrs ?b = Inr (?b\<lparr>
        init_lr := map2 (*) (init_lr ?b) (if separate_ffn_lr c then [1, 1] else [1]),
        max_lr := map2 (*) (max_lr ?b) (if separate_ffn_lr c then [1, 1] else [1]),
        final_lr := map2 (*) (final_lr ?b) (if separate_ffn_lr c then [1, 1] else [1]),
        lr_scaler := Absent\<rparr>)"
      by (rule scale_lrs_groups [where sep = "separate_ffn_lr c"])
        (simp_all add: raw_of_resolved_def l)
    also have "\<dots> = Inr ?m7"
      by (simp add: raw_of_resolved_def map2_times_one l)
    finally show ?thesis .
  qed
  have w: "at_ffn env ?r = Inr ?m7"
    unfolding at_ffn_def q then_step_Inr 12 13 ..
  \<comment> \<open>lines 403 to 416\<close>
  from h(1) have 14: "check_ffn_layers ?m7 = Inr ?m7"
    by (simp add: check_ffn_layers_def raw_of_resolved_def)
  from h(2-4) obtain x y z where "ffn_hidden_size c = Some x" "ffn_input_dropout c = Some y"
    "ffn_dropout c = Some z" by auto
  then have 15: "ffn_defaults ?m7 = Inr ?m7"
    by (simp add: ffn_defaults_def raw_of_resolved_def)
  have 16: "check_split ?m7 = Inr ?m7"
    by (rule check_split_cong [OF h(5)]) (simp_all add: raw_of_resolved_def)
  have 17: "test_step ?m7 = Inr ?m7"
    using h(6) by (cases "test c") (simp_all add: test_step_def raw_of_resolved_def)
  have z: "at_chunk env ?r = Inr ?m7"
    unfolding at_chunk_def at_split_def w then_step_Inr 14 15 16 17 ..
  \<comment> \<open>lines 418 to 424\<close>
  have 18: "chunk_step env ?m7 = Inr c"
    using h(8) by (simp add: chunk_step_def raw_of_resolved_def h(7,9,10,11) l(7))
  show ?thesis
    unfolding modify_train_args_def z then_step_Inr 18 ..
qed

section \<open>The claims\<close>

subsection \<open>C1: the default metric\<close>

lemma default_metric_table:
  assumes "default_metric s = Inr t" and "metric s = None"
  shows "(dataset_type s = ''classification'' \<longrightarrow> metric t = Some ''auc'') \<and>
         (dataset_type s = ''unsupervised'' \<longrightarrow> metric t = Some ''log_loss'') \<and>
         (dataset_type s = ''bert_pretraining'' \<longrightarrow>
            metric t = Some (if bert_vocab_func s = ''feature_vector'' then ''rmse'' else ''log_loss'')) \<and>
         (dataset_type s = ''kernel'' \<longrightarrow>
            metric t = Some ''rmse'' \<and>
            kernel_func s \<in> {Some ''features'', Some ''features_dot'', Some ''WL''}) \<and>
         (dataset_type s \<notin> {''classification'', ''unsupervised'', ''bert_pretraining'', ''kernel''} \<longrightarrow>
            t = s\<lparr>metric := Some ''rmse''\<rparr>)"
  using assms by (auto simp: default_metric_def py_in_iff split: if_splits)

lemma default_metric_supplied:
  assumes "default_metric s = Inr t" and "metric s \<noteq> None"
  shows "t = s"
  using assms by (simp add: default_metric_def)

lemma default_metric_kernel:
  assumes "metric s = None" and "dataset_type s = ''kernel''"
    and "kernel_func s \<notin> {Some ''features'', Some ''features_dot'', Some ''WL''}"
  shows "default_metric s = Inl (UnsupportedKernelFunctionError
          (''metric not implemented for kernel function '' @ dq @ py_str (kernel_func s) @ dq @ ''.''))"
  using assms by (simp add: default_metric_def py_in_iff)

lemma minimize_score_set:
  assumes "check_metric t = Inr t'" and "set_minimize_score t' = Inr u"
  shows "minimize_score u = Present (metric t \<in> {Some ''rmse'', Some ''mae'', Some ''log_loss''})"
proof -
  from assms(1) have "t' = t" by (rule check_metric_keeps)
  with assms(2) show ?thesis by (auto simp: set_minimize_score_def py_in_iff)
qed

text \<open>
  Claim C1. In a successful resolution of an input without a metric, the metric is
  \<^verbatim>\<open>auc\<close> for classification, \<^verbatim>\<open>log_loss\<close> for unsupervised, for bert_pretraining
  \<^verbatim>\<open>rmse\<close> when the vocabulary function is \<^verbatim>\<open>feature_vector\<close> and \<^verbatim>\<open>log_loss\<close>
  otherwise, \<^verbatim>\<open>rmse\<close> for kernel (whose kernel function is then one of the three
  recognised ones), and \<^verbatim>\<open>rmse\<close> for every other dataset type; a metric the caller
  chose is kept. In every successful resolution \<^verbatim>\<open>minimize_score\<close> is true iff the
  resolved metric is one of \<^verbatim>\<open>rmse\<close>, \<^verbatim>\<open>mae\<close>, \<^verbatim>\<open>log_loss\<close>. When control reaches
  line 336 with no metric, dataset type kernel and an unrecognised kernel function,
  resolution fails with \<open>UnsupportedKernelFunctionError\<close>; with any dataset type
  other than the four named ones, line 353 sets the metric to \<^verbatim>\<open>rmse\<close>.
\<close>

theorem C1_metric_defaulting:
  "(modify_train_args env a = Inr c \<longrightarrow>
      (metric a = None \<longrightarrow>
         (dataset_type a = ''classification'' \<longrightarrow> metric c = Some ''auc'') \<and>
         (dataset_type a = ''unsupervised'' \<longrightarrow> metric c = Some ''log_loss'') \<and>
         (dataset_type a = ''bert_pretraining'' \<longrightarrow>
            metric c = Some (if bert_vocab_func a = ''feature_vector'' then ''rmse'' else ''log_loss'')) \<and>
         (dataset_type a = ''kernel'' \<longrightarrow>
            metric c = Some ''rmse'' \<and>
            kernel_func a \<in> {Some ''features'', Some ''features_dot'', Some ''WL''}) \<and>
         (dataset_type a \<notin> {''classification'', ''unsupervised'', ''bert_pretraining'', ''kernel''} \<longrightarrow>
            metric c = Some ''rmse'')) \<and>
      (metric a \<noteq> None \<longrightarrow> metric c = metric a) \<and>
      minimize_score c = Present (metric c \<in> {Some ''rmse'', Some ''mae'', Some ''log_loss''}))
   \<and> (at_metric env a = Inr s \<and> metric a = None \<and> dataset_type a = ''kernel'' \<and>
        kernel_func a \<notin> {Some ''features'', Some ''features_dot'', Some ''WL''} \<longrightarrow>
        modify_train_args env a = Inl (UnsupportedKernelFunctionError
          (''metric not implemented for kernel function '' @ dq @ py_str (kernel_func a) @ dq @ ''.'')))
   \<and> (at_metric env a = Inr s \<and> metric a = None \<and>
        dataset_type a \<notin> {''classification'', ''unsupervised'', ''bert_pretraining'', ''kernel''} \<longrightarrow>
        at_metric_check env a = Inr (s\<lparr>metric := Some ''rmse''\<rparr>))"
  (is "(_ \<longrightarrow> ?table \<and> ?kept \<and> ?minimize) \<and> (?unknown \<longrightarrow> ?raise) \<and> (?other \<longrightarrow> ?rmse)")
proof -
  have A: "?table \<and> ?kept \<and> ?minimize" if c: "modify_train_args env a = Inr c"
  proof -
  from c obtain s0 where r0: "at_metric env a = Inr s0" by (rule success_at_metric)
  from c obtain s1 where r1: "at_metric_check env a = Inr s1" by (rule success_at_metric_check)
  from c obtain s2 where r2: "at_checkpoint env a = Inr s2" by (rule success_at_checkpoint)
  from r0 r1 have d: "default_metric s0 = Inr s1"
    by (auto simp: at_metric_check_steps)
  from r1 r2 obtain t where k: "check_metric s1 = Inr t" and m: "set_minimize_score t = Inr s2"
    by (auto simp: at_checkpoint_steps)
  note in0 = at_metric_segment [OF r0]
  note out1 = at_metric_check_result [OF r1 c]
  note out2 = at_checkpoint_result [OF r2 c]
  have ?table
    using default_metric_table [OF d] in0 out1 by simp
  moreover have ?kept
    using default_metric_supplied [OF d] in0 out1 by auto
  moreover have ?minimize
    using minimize_score_set [OF k m] out1 out2 by simp
  ultimately show ?thesis by blast
  qed
  have B: ?raise if h: ?unknown
  proof -
  from h have s: "at_metric env a = Inr s" by simp
  from h at_metric_segment [OF s]
  have "default_metric s = Inl (UnsupportedKernelFunctionError
          (''metric not implemented for kernel function '' @ dq @ py_str (kernel_func a) @ dq @ ''.''))"
    using default_metric_kernel [of s] by simp
  with s have "at_metric_check env a = Inl (UnsupportedKernelFunctionError
          (''metric not implemented for kernel function '' @ dq @ py_str (kernel_func a) @ dq @ ''.''))"
    by (simp add: at_metric_check_def)
  then show ?raise by (rule at_metric_check_fails)
  qed
  have C: ?rmse if h: ?other
  proof -
  from h have s: "at_metric env a = Inr s" by simp
  from h at_metric_segment [OF s]
  have "default_metric s = Inr (s\<lparr>metric := Some ''rmse''\<rparr>)"
    by (simp add: default_metric_def)
  with s show ?rmse by (simp add: at_metric_check_def)
  qed
  from A B C show ?thesis by blast
qed

theorem C1_metric_defaulting_witness:
  "modify_train_args example_env
     ((parsed_defaults ''data.csv'' ''kernel'')\<lparr>kernel_func := Some ''tanimoto''\<rparr>)
     = Inl (UnsupportedKernelFunctionError
         (''metric not implemented for kernel function '' @ dq @ ''tanimoto'' @ dq @ ''.''))
   \<and> metric (projr (modify_train_args example_env (parsed_defaults ''data.csv'' ''classification'')))
       = Some ''auc''
   \<and> minimize_score (projr (modify_train_args example_env (parsed_defaults ''data.csv'' ''classification'')))
       = Present False"
proof -
  let ?k = "(parsed_defaults ''data.csv'' ''kernel'')\<lparr>kernel_func := Some ''tanimoto''\<rparr>"
  let ?a = "parsed_defaults ''data.csv'' ''classification''"
  have "\<exists>s. at_metric example_env ?k = Inr s" by (simp add: run_defs)
  then obtain s where s: "at_metric example_env ?k = Inr s" ..
  have hk: "metric ?k = None \<and> dataset_type ?k = ''kernel'' \<and>
        kernel_func ?k \<notin> {Some ''features'', Some ''features_dot'', Some ''WL''} \<and>
        py_str (kernel_func ?k) = ''tanimoto''"
    by (simp add: parsed_defaults_def py_str_def)
  have "\<exists>c. modify_train_args example_env ?a = Inr c" by (simp add: run_defs)
  then obtain c where c: "modify_train_args example_env ?a = Inr c" ..
  have ha: "metric ?a = None \<and> dataset_type ?a = ''classification''"
    by (simp add: parsed_defaults_def)
  from C1_metric_defaulting [of example_env ?k undefined s] s hk
  have 1: "modify_train_args example_env ?k = Inl (UnsupportedKernelFunctionError
         (''metric not implemented for kernel function '' @ dq @ ''tanimoto'' @ dq @ ''.''))"
    by simp
  from C1_metric_defaulting [of example_env ?a c undefined] c ha
  have 2: "metric c = Some ''auc'' \<and> minimize_score c = Present False"
    by simp
  from 1 2 c show ?thesis by simp
qed

subsection \<open>C2: checkpoint discovery\<close>

text \<open>
  Claim C2. \<open>artifacts_under env d\<close> is the number of regular files named
  \<^verbatim>\<open>model.pt\<close> in the tree below \<open>d\<close>, and \<open>artifact_at env d ds\<close> says that one lies in
  the sub-directory reached through the names \<open>ds\<close>, of any length. In a successful
  resolution with a checkpoint directory that number \<open>k\<close> is at least 1,
  \<^verbatim>\<open>ensemble_size\<close> is \<open>k\<close> whatever the caller supplied, and \<^verbatim>\<open>checkpoint_paths\<close> is a
  sequence of \<open>k\<close> paths, namely the paths of those files (in the order of the walk).
  When control reaches line 363 with a checkpoint directory, the call returns these
  two fields if \<open>k\<close> is at least 1 and resolution fails with \<open>NoCheckpointsFoundError\<close>
  if \<open>k\<close> is 0.
\<close>

theorem C2_checkpoint_discovery:
  "(modify_train_args env a = Inr c \<and> checkpoint_dir a = Some d \<longrightarrow>
      1 \<le> artifacts_under env d \<and>
      ensemble_size c = int (artifacts_under env d) \<and>
      (\<exists>ps. checkpoint_paths c = Present (Some ps) \<and>
         ps = concat (map model_files (os_walk env d)) \<and>
         length ps = artifacts_under env d \<and>
         set ps = {path_join (foldl path_join d ds) ''model.pt'' | ds. artifact_at env d ds}))
   \<and> (at_checkpoint env a = Inr s \<and> checkpoint_dir a = Some d \<and> 1 \<le> artifacts_under env d \<longrightarrow>
        at_jtnn env a =
          Inr (s\<lparr>checkpoint_paths := Present (Some (concat (map model_files (os_walk env d)))),
                 ensemble_size := int (artifacts_under env d)\<rparr>))
   \<and> (at_checkpoint env a = Inr s \<and> checkpoint_dir a = Some d \<and> artifacts_under env d = 0 \<longrightarrow>
        modify_train_args env a = Inl (NoCheckpointsFoundError
          (''Failed to find any model checkpoints in directory '' @ dq @ d @ dq)))"
  (is "(?success \<longrightarrow> ?resolved) \<and> (?some \<longrightarrow> ?found) \<and> (?none \<longrightarrow> ?raise)")
proof -
  have A: ?resolved if h: ?success
  proof -
    from h have c: "modify_train_args env a = Inr c" and d: "checkpoint_dir a = Some d"
      by simp_all
    from c obtain s2 where r2: "at_checkpoint env a = Inr s2" by (rule success_at_checkpoint)
    from c obtain s3 where r3: "at_jtnn env a = Inr s3" by (rule success_at_jtnn)
    from r2 r3 have u: "update_args_from_checkpoint_dir env s2 = Inr s3"
      by (auto simp: at_jtnn_steps)
    from at_checkpoint_input [OF r2] d have d2: "checkpoint_dir s2 = Some d" by simp
    from u discovery [OF d2, of env] have k: "artifacts_under env d \<noteq> 0"
      and s3: "s3 = s2\<lparr>checkpoint_paths := Present (Some (concat (map model_files (os_walk env d)))),
                       ensemble_size := int (artifacts_under env d)\<rparr>"
      by (auto split: if_splits)
    from at_jtnn_result [OF r3 c] s3
    have "checkpoint_paths c = Present (Some (concat (map model_files (os_walk env d))))"
      and "ensemble_size c = int (artifacts_under env d)"
      by simp_all
    with k os_walk_counts [of env d] os_walk_paths [of env d] show ?thesis by simp
  qed
  have B: ?found if h: ?some
  proof -
    from h have s: "at_checkpoint env a = Inr s" and d: "checkpoint_dir a = Some d"
      and k: "1 \<le> artifacts_under env d" by simp_all
    from at_checkpoint_input [OF s] d have "checkpoint_dir s = Some d" by simp
    from discovery [OF this, of env] k s show ?thesis
      by (simp add: at_jtnn_def)
  qed
  have C: ?raise if h: ?none
  proof -
    from h have s: "at_checkpoint env a = Inr s" and d: "checkpoint_dir a = Some d"
      and k: "artifacts_under env d = 0" by simp_all
    from at_checkpoint_input [OF s] d have "checkpoint_dir s = Some d" by simp
    from discovery [OF this, of env] k s
    have "at_jtnn env a = Inl (NoCheckpointsFoundError
          (''Failed to find any model checkpoints in directory '' @ dq @ d @ dq))"
      by (simp add: at_jtnn_def)
    then show ?thesis by (rule at_jtnn_fails)
  qed
  from A B C show ?thesis by blast
qed

theorem C2_checkpoint_discovery_witness:
  "ensemble_size (projr (modify_train_args example_env
      ((parsed_defaults ''data.csv'' ''regression'')\<lparr>checkpoint_dir := Some ''ckpt'', ensemble_size := 5\<rparr>)))
     = 2
   \<and> artifact_at example_env ''ckpt'' [''fold_0'']
   \<and> modify_train_args example_env
      ((parsed_defaults ''data.csv'' ''regression'')\<lparr>checkpoint_dir := Some ''empty''\<rparr>)
     = Inl (NoCheckpointsFoundError
         (''Failed to find any model checkpoints in directory '' @ dq @ ''empty'' @ dq))"
proof -
  let ?a = "(parsed_defaults ''data.csv'' ''regression'')\<lparr>checkpoint_dir := Some ''ckpt'', ensemble_size := 5\<rparr>"
  let ?b = "(parsed_defaults ''data.csv'' ''regression'')\<lparr>checkpoint_dir := Some ''empty''\<rparr>"
  have "\<exists>c. modify_train_args example_env ?a = Inr c" by (simp add: run_defs)
  then obtain c where c: "modify_train_args example_env ?a = Inr c" ..
  have ha: "checkpoint_dir ?a = Some ''ckpt''" by (simp add: parsed_defaults_def)
  have ka: "artifacts_under example_env ''ckpt'' = 2"
    by (simp add: artifacts_under_def example_env_def)
  have pa: "artifact_at example_env ''ckpt'' [''fold_0'']"
    by (simp add: artifact_at_def example_env_def)
  from C2_checkpoint_discovery [of example_env ?a c "''ckpt''" undefined] c ha ka
  have 1: "ensemble_size c = 2" by simp
  have "\<exists>s. at_checkpoint example_env ?b = Inr s" by (simp add: run_defs)
  then obtain s where s: "at_checkpoint example_env ?b = Inr s" ..
  have hb: "checkpoint_dir ?b = Some ''empty''" by (simp add: parsed_defaults_def)
  have kb: "artifacts_under example_env ''empty'' = 0"
    by (simp add: artifacts_under_def example_env_def)
  from C2_checkpoint_discovery [of example_env ?b undefined "''empty''" s] s hb kb
  have 2: "modify_train_args example_env ?b = Inl (NoCheckpointsFoundError
         (''Failed to find any model checkpoints in directory '' @ dq @ ''empty'' @ dq))"
    by simp
  from 1 2 c pa show ?thesis by simp
qed

subsection \<open>C3: learning-rate groups\<close>

text \<open>
  Claim C3. The flag meant is \<^verbatim>\<open>separate_ffn_lr\<close> as line 388 reads it, which lines 385
  and 386 have set for an unsupervised dataset; it is the flag of the resolved
  namespace. In a successful resolution \<^verbatim>\<open>num_lrs\<close> is 1 plus 1 if the flag is set,
  each of the six sequences of the input had between 1 and \<^verbatim>\<open>num_lrs\<close> entries, the
  warm-up and weight-decay sequences are the broadcast inputs, the initial, maximal and
  final rates are the broadcast inputs multiplied entry by entry with the broadcast
  scale, and \<^verbatim>\<open>lr_scaler\<close> is absent. When control reaches line 388 and one of the six
  sequences has a length outside that range, resolution fails with
  \<open>InvalidGroupCountError\<close>.
\<close>

theorem C3_learning_rate_groups:
  "(modify_train_args env a = Inr c
      \<and> two = (separate_ffn_lr a \<or> dataset_type a = ''unsupervised'') \<longrightarrow>
      separate_ffn_lr c = two \<and>
      num_lrs c = Present (1 + (if separate_ffn_lr c then 1 else 0)) \<and>
      (\<exists>sc. lr_scaler a = Present sc \<and>
         (\<forall>xs \<in> set [init_lr a, max_lr a, final_lr a, sc, warmup_epochs a, weight_decay a].
            1 \<le> length xs \<and> length xs \<le> (if two then 2 else 1)) \<and>
         init_lr c = map2 (*) (duplicate_single two (init_lr a)) (duplicate_single two sc) \<and>
         max_lr c = map2 (*) (duplicate_single two (max_lr a)) (duplicate_single two sc) \<and>
         final_lr c = map2 (*) (duplicate_single two (final_lr a)) (duplicate_single two sc)) \<and>
      warmup_epochs c = duplicate_single two (warmup_epochs a) \<and>
      weight_decay c = duplicate_single two (weight_decay a) \<and>
      lr_scaler c = Absent)
   \<and> (at_lr env a = Inr s \<and> lr_scaler a = Present sc
        \<and> two = (separate_ffn_lr a \<or> dataset_type a = ''unsupervised'')
        \<and> (\<exists>xs \<in> set [init_lr a, max_lr a, final_lr a, sc, warmup_epochs a, weight_decay a].
              \<not> (1 \<le> length xs \<and> length xs \<le> (if two then 2 else 1))) \<longrightarrow>
        modify_train_args env a = Inl InvalidGroupCountError)"
  (is "(?success \<longrightarrow> ?resolved) \<and> (?bad \<longrightarrow> ?raise)")
proof -
  have A: ?resolved if h: ?success
  proof -
    from h have c: "modify_train_args env a = Inr c"
      and two: "two = (separate_ffn_lr a \<or> dataset_type a = ''unsupervised'')" by simp_all
    from c two show ?thesis
      by (rule lr_resolved) auto
  qed
  have B: ?raise if h: ?bad
  proof -
    from h have s: "at_lr env a = Inr s" and sc: "lr_scaler a = Present sc"
      and two: "two = (separate_ffn_lr a \<or> dataset_type a = ''unsupervised'')"
      and bad: "\<exists>xs \<in> set [init_lr a, max_lr a, final_lr a, sc, warmup_epochs a, weight_decay a].
              \<not> (1 \<le> length xs \<and> length xs \<le> (if two then 2 else 1))"
      by fast+
    from at_lr_flag [OF s] two have f: "separate_ffn_lr s = two" by simp
    note in5 = at_lr_input [OF s]
    from sc in5 have "lr_scaler s = Present sc" by simp
    moreover from bad in5 f
    have "\<exists>xs \<in> set [init_lr s, max_lr s, final_lr s, sc, warmup_epochs s, weight_decay s].
              \<not> (1 \<le> length xs \<and> length xs \<le> (if separate_ffn_lr s then 2 else 1))"
      by simp
    ultimately have "broadcast_lrs s = Inl InvalidGroupCountError"
      by (rule broadcast_lrs_Inl)
    with s have "at_ffn env a = Inl InvalidGroupCountError"
      by (simp add: at_ffn_def)
    then show ?thesis by (rule at_ffn_fails)
  qed
  from A B show ?thesis by blast
qed

theorem C3_learning_rate_groups_witness:
  "init_lr (projr (modify_train_args example_env
      ((parsed_defaults ''data.csv'' ''regression'')
         \<lparr>separate_ffn_lr := True, lr_scaler := Present [2, 3]\<rparr>))) = [2 / 10000, 3 / 10000]
   \<and> lr_scaler (projr (modify_train_args example_env
      ((parsed_defaults ''data.csv'' ''regression'')
         \<lparr>separate_ffn_lr := True, lr_scaler := Present [2, 3]\<rparr>))) = Absent
   \<and> modify_train_args example_env
      ((parsed_defaults ''data.csv'' ''regression'')\<lparr>init_lr := [1, 2]\<rparr>)
     = Inl InvalidGroupCountError"
proof -
  let ?a = "(parsed_defaults ''data.csv'' ''regression'')
         \<lparr>separate_ffn_lr := True, lr_scaler := Present [2, 3]\<rparr>"
  let ?b = "(parsed_defaults ''data.csv'' ''regression'')\<lparr>init_lr := [1, 2]\<rparr>"
  have "\<exists>c. modify_train_args example_env ?a = Inr c" by (simp add: run_defs)
  then obtain c where c: "modify_train_args example_env ?a = Inr c" ..
  have ha: "separate_ffn_lr ?a \<and> lr_scaler ?a = Present [2, 3] \<and> init_lr ?a = [1 / 10000]"
    by (simp add: parsed_defaults_def)
  from C3_learning_rate_groups [of example_env ?a c True undefined undefined] c ha
  have "init_lr c = map2 (*) (duplicate_single True [1 / 10000]) (duplicate_single True [2, 3])
      \<and> lr_scaler c = Absent"
    by auto
  then have 1: "init_lr c = [2 / 10000, 3 / 10000] \<and> lr_scaler c = Absent"
    by (simp add: duplicate_single_def)
  have "\<exists>s. at_lr example_env ?b = Inr s" by (simp add: run_defs)
  then obtain s where s: "at_lr example_env ?b = Inr s" ..
  have hb: "\<not> separate_ffn_lr ?b \<and> dataset_type ?b \<noteq> ''unsupervised'' \<and> lr_scaler ?b = Present [1]
      \<and> init_lr ?b = [1, 2]"
    by (simp add: parsed_defaults_def)
  from C3_learning_rate_groups [of example_env ?b undefined False s "[1]"] s hb
  have 2: "modify_train_args example_env ?b = Inl InvalidGroupCountError" by simp
  from 1 2 c show ?thesis by simp
qed

subsection \<open>C4: the order of checks and derivations\<close>

lemma check_metric_rejects:
  assumes "metric s = Some m"
    and "dataset_type s = ''classification'' \<and> m \<notin> {''auc'', ''prc-auc'', ''accuracy''}
       \<or> dataset_type s \<in> {''regression'', ''regression_with_binning''} \<and> m \<notin> {''rmse'', ''mae'', ''r2''}
       \<or> dataset_type s = ''kernel'' \<and> m \<noteq> ''rmse''"
  shows "check_metric s = Inl (IncompatibleMetricError
           (''Metric '' @ dq @ m @ dq @ '' invalid for dataset type '' @ dq @ dataset_type s @ dq @ ''.''))"
proof -
  from assms(2) consider
    (c) "dataset_type s = ''classification''" "m \<notin> {''auc'', ''prc-auc'', ''accuracy''}"
  | (r) "dataset_type s = ''regression''" "m \<notin> {''rmse'', ''mae'', ''r2''}"
  | (b) "dataset_type s = ''regression_with_binning''" "m \<notin> {''rmse'', ''mae'', ''r2''}"
  | (k) "dataset_type s = ''kernel''" "m \<noteq> ''rmse''"
    by blast
  then show ?thesis
  proof cases
    case c
    with assms(1) show ?thesis by (simp add: check_metric_def py_in_def py_str_def)
  next
    case r
    with assms(1) show ?thesis by (simp add: check_metric_def py_in_def py_str_def)
  next
    case b
    with assms(1) show ?thesis by (simp add: check_metric_def py_in_def py_str_def)
  next
    case k
    with assms(1) show ?thesis by (simp add: check_metric_def py_in_def py_str_def)
  qed
qed

lemma before_discovery_error:
  "at_checkpoint env a = Inl e \<Longrightarrow> e \<noteq> NoCheckpointsFoundError msg"
  unfolding at_checkpoint_def at_metric_check_def at_metric_def then_step_eq_Inl
  by (auto dest: save_dir_step_error invert_flags_error default_metric_error check_metric_error
      simp: set_minimize_score_def)

text \<open>
  Claim C4, as the code has it. The checks are interleaved with the derivations in the
  order of the source, and the metric check of lines 355 to 359 precedes checkpoint
  discovery (line 363). For an input whose supplied metric is not allowed for its
  dataset type, resolution fails with \<open>IncompatibleMetricError\<close> once control reaches
  line 336, whatever the checkpoint directory holds; and whenever resolution fails with
  \<open>NoCheckpointsFoundError\<close>, the metric check has passed.
\<close>

theorem C4_metric_check_precedes_discovery:
  "(at_metric env a = Inr s \<and> metric a = Some m \<and>
      (dataset_type a = ''classification'' \<and> m \<notin> {''auc'', ''prc-auc'', ''accuracy''}
       \<or> dataset_type a \<in> {''regression'', ''regression_with_binning''} \<and> m \<notin> {''rmse'', ''mae'', ''r2''}
       \<or> dataset_type a = ''kernel'' \<and> m \<noteq> ''rmse'') \<longrightarrow>
      modify_train_args env a = Inl (IncompatibleMetricError
        (''Metric '' @ dq @ m @ dq @ '' invalid for dataset type '' @ dq @ dataset_type a @ dq @ ''.'')))
   \<and> (modify_train_args env a = Inl (NoCheckpointsFoundError msg) \<longrightarrow>
        (\<exists>t. at_checkpoint env a = Inr t \<and> check_metric t = Inr t))"
  (is "(?bad \<longrightarrow> ?raise) \<and> (?none \<longrightarrow> ?passed)")
proof -
  have A: ?raise if h: ?bad
  proof -
    from h have s: "at_metric env a = Inr s" and m: "metric a = Some m" by simp_all
    note in0 = at_metric_segment [OF s]
    from m in0 have d: "default_metric s = Inr s" by (simp add: default_metric_def)
    with s have r1: "at_metric_check env a = Inr s" by (simp add: at_metric_check_def)
    from h in0 have "check_metric s = Inl (IncompatibleMetricError
        (''Metric '' @ dq @ m @ dq @ '' invalid for dataset type '' @ dq @ dataset_type a @ dq @ ''.''))"
      using check_metric_rejects [of s m] by simp
    with r1 have "at_checkpoint env a = Inl (IncompatibleMetricError
        (''Metric '' @ dq @ m @ dq @ '' invalid for dataset type '' @ dq @ dataset_type a @ dq @ ''.''))"
      by (simp add: at_checkpoint_def)
    then show ?thesis by (rule at_checkpoint_fails)
  qed
  have B: ?passed if h: ?none
  proof (cases "at_checkpoint env a")
    case (Inl e)
    from at_checkpoint_fails [OF Inl] h have e: "e = NoCheckpointsFoundError msg" by simp
    with before_discovery_error [OF Inl, of msg] show ?thesis by simp
  next
    case (Inr t)
    then obtain u u' where k: "check_metric u = Inr u'" and m: "set_minimize_score u' = Inr t"
      by (auto simp: at_checkpoint_steps)
    from check_metric_keeps [OF k] k m have "check_metric t = Inr t"
      by (auto simp: set_minimize_score_def check_metric_def split: if_splits)
    with Inr show ?thesis by simp
  qed
  from A B show ?thesis by blast
qed

theorem C4_metric_check_precedes_discovery_witness:
  "modify_train_args example_env
     ((parsed_defaults ''data.csv'' ''regression'')\<lparr>metric := Some ''auc'', checkpoint_dir := Some ''ckpt''\<rparr>)
     = Inl (IncompatibleMetricError
         (''Metric '' @ dq @ ''auc'' @ dq @ '' invalid for dataset type '' @ dq @ ''regression'' @ dq @ ''.''))
   \<and> isl (modify_train_args example_env
       ((parsed_defaults ''data.csv'' ''regression'')\<lparr>checkpoint_dir := Some ''empty''\<rparr>))
   \<and> \<not> isl (at_checkpoint example_env
       ((parsed_defaults ''data.csv'' ''regression'')\<lparr>checkpoint_dir := Some ''empty''\<rparr>))"
proof -
  let ?a = "(parsed_defaults ''data.csv'' ''regression'')\<lparr>metric := Some ''auc'', checkpoint_dir := Some ''ckpt''\<rparr>"
  let ?b = "(parsed_defaults ''data.csv'' ''regression'')\<lparr>checkpoint_dir := Some ''empty''\<rparr>"
  have "\<exists>s. at_metric example_env ?a = Inr s" by (simp add: run_defs)
  then obtain s where s: "at_metric example_env ?a = Inr s" ..
  have h: "metric ?a = Some ''auc'' \<and> dataset_type ?a = ''regression''"
    by (simp add: parsed_defaults_def)
  from C4_metric_check_precedes_discovery [of example_env ?a s "''auc''"] s h
  have 1: "modify_train_args example_env ?a = Inl (IncompatibleMetricError
         (''Metric '' @ dq @ ''auc'' @ dq @ '' invalid for dataset type '' @ dq @ ''regression'' @ dq @ ''.''))"
    by simp
  have b: "modify_train_args example_env ?b = Inl (NoCheckpointsFoundError
         (''Failed to find any model checkpoints in directory '' @ dq @ ''empty'' @ dq))"
    by (simp add: run_defs)
  from C4_metric_check_precedes_discovery [of example_env ?b undefined undefined
      "''Failed to find any model checkpoints in directory '' @ dq @ ''empty'' @ dq"] b
  obtain t where "at_checkpoint example_env ?b = Inr t" by blast
  then have 2: "\<not> isl (at_checkpoint example_env ?b)" by simp
  from 1 2 b show ?thesis by simp
qed

text \<open>
  Claim C4 as stated fails: with metric \<^verbatim>\<open>rmse\<close> on a classification dataset and a
  checkpoint directory without any artifact, the error is that of the metric check, not
  that of checkpoint discovery, although discovery alone would fail on this namespace.
\<close>

theorem C4_counterexample:
  "modify_train_args example_env
     ((parsed_defaults ''data.csv'' ''classification'')\<lparr>metric := Some ''rmse'', checkpoint_dir := Some ''empty''\<rparr>)
     = Inl (IncompatibleMetricError
         (''Metric '' @ dq @ ''rmse'' @ dq @ '' invalid for dataset type '' @ dq @ ''classification'' @ dq @ ''.''))
   \<and> update_args_from_checkpoint_dir example_env
     ((parsed_defaults ''data.csv'' ''classification'')\<lparr>metric := Some ''rmse'', checkpoint_dir := Some ''empty''\<rparr>)
     = Inl (NoCheckpointsFoundError
         (''Failed to find any model checkpoints in directory '' @ dq @ ''empty'' @ dq))"
  by (simp add: run_defs)

subsection \<open>C5: use of the input features\<close>

text \<open>
  Claim C5, as the code has it. In a successful resolution \<^verbatim>\<open>use_input_features\<close> is
  \<^verbatim>\<open>False\<close> when feature prediction is requested (\<^verbatim>\<open>predict_features\<close> or
  \<^verbatim>\<open>predict_features_and_task\<close>), or the kernel function is \<^verbatim>\<open>features\<close> or
  \<^verbatim>\<open>features_dot\<close>, or the dataset type is \<^verbatim>\<open>bert_pretraining\<close>; otherwise it is the
  value of \<^verbatim>\<open>features_generator or features_path\<close>, that is, the generator list when
  one was given and is not empty, and else whatever \<^verbatim>\<open>features_path\<close> holds (the path,
  or \<^verbatim>\<open>None\<close>). So it is true (in Python's sense) iff a generator or a path was given and
  none of the three conditions holds. When control reaches line 371, no generator or path
  was given, and feature prediction or a feature-based kernel is requested, resolution
  fails with \<open>MissingFeatureSourceError\<close> (for \<^verbatim>\<open>predict_features_and_task\<close> the dataset
  type must be regression to get there).
\<close>

theorem C5_use_input_features:
  "(modify_train_args env a = Inr c \<longrightarrow>
      (\<exists>v. use_input_features c = Present v \<and>
         (predict_features a \<or> predict_features_and_task a
            \<or> kernel_func a \<in> {Some ''features'', Some ''features_dot''}
            \<or> dataset_type a = ''bert_pretraining'' \<longrightarrow> v = PyBool False) \<and>
         (truthy v \<longleftrightarrow>
            ((\<exists>g. features_generator a = Some g \<and> g \<noteq> []) \<or> (\<exists>p. features_path a = Some p \<and> p \<noteq> []))
            \<and> \<not> (predict_features a \<or> predict_features_and_task a
                  \<or> kernel_func a \<in> {Some ''features'', Some ''features_dot''}
                  \<or> dataset_type a = ''bert_pretraining'')) \<and>
         (\<not> (predict_features a \<or> predict_features_and_task a
               \<or> kernel_func a \<in> {Some ''features'', Some ''features_dot''}
               \<or> dataset_type a = ''bert_pretraining'') \<longrightarrow>
            v = features_source a \<and>
            v = (case features_generator a of
                   Some (x # xs) \<Rightarrow> PyStrList (x # xs)
                 | _ \<Rightarrow> (case features_path a of None \<Rightarrow> PyNone | Some p \<Rightarrow> PyStr p)))))
   \<and> (at_features env a = Inr s
        \<and> (predict_features_and_task a \<longrightarrow> dataset_type a = ''regression'')
        \<and> (predict_features a \<or> predict_features_and_task a
             \<or> kernel_func a \<in> {Some ''features'', Some ''features_dot''})
        \<and> \<not> ((\<exists>g. features_generator a = Some g \<and> g \<noteq> []) \<or> (\<exists>p. features_path a = Some p \<and> p \<noteq> []))
        \<longrightarrow> modify_train_args env a = Inl MissingFeatureSourceError)"
  (is "(_ \<longrightarrow> ?resolved) \<and> (?missing \<longrightarrow> ?raise)")
proof -
  have kernel: "py_in x [''features'', ''features_dot''] \<longleftrightarrow> x \<in> {Some ''features'', Some ''features_dot''}" for x
    by (simp add: py_in_iff)
  have A: ?resolved if c: "modify_train_args env a = Inr c"
  proof -
    from c obtain s4 where r4: "at_features env a = Inr s4" by (rule success_at_features)
    from c obtain s5 where r5: "at_lr env a = Inr s5" by (rule success_at_lr)
    from r4 r5 obtain t1 t2 t3 t4 where
      1: "set_use_input_features s4 = Inr t1" and 2: "features_and_task_step t1 = Inr t2"
      and 3: "predict_features_step t2 = Inr t3" and 4: "bert_step t3 = Inr t4"
      and 5: "unsupervised_step t4 = Inr s5"
      by (auto simp: at_lr_steps)
    note in4 = at_features_input [OF r4]
    from features_block [OF 1 2 3 4] unsupervised_step_keeps [OF 5] at_lr_result [OF r5 c]
    have "use_input_features c =
           Present (if predict_features s4 \<or> predict_features_and_task s4
                       \<or> py_in (kernel_func s4) [''features'', ''features_dot'']
                       \<or> dataset_type s4 = ''bert_pretraining''
                    then PyBool False else features_source s4)"
      by simp
    with in4 have v: "use_input_features c =
           Present (if predict_features a \<or> predict_features_and_task a
                       \<or> kernel_func a \<in> {Some ''features'', Some ''features_dot''}
                       \<or> dataset_type a = ''bert_pretraining''
                    then PyBool False else features_source a)"
      using features_source_cong [of s4 a] by (simp add: kernel)
    have spelled: "features_source a =
        (case features_generator a of
           Some (x # xs) \<Rightarrow> PyStrList (x # xs)
         | _ \<Rightarrow> (case features_path a of None \<Rightarrow> PyNone | Some p \<Rightarrow> PyStr p))"
      by (simp add: features_source_def split: option.splits list.splits)
    show ?thesis
      unfolding v using truthy_features_source [of a] spelled by auto
  qed
  have B: ?raise if h: ?missing
  proof -
    from h have s: "at_features env a = Inr s" by simp
    note in4 = at_features_input [OF s]
    from h in4 features_source_cong [of s a] truthy_features_source [of a]
    have f: "\<not> truthy (features_source s)" by simp
    from h in4 have p: "predict_features s \<or> predict_features_and_task s
        \<or> py_in (kernel_func s) [''features'', ''features_dot'']"
      by (simp add: kernel)
    from h in4 have g: "predict_features_and_task s \<longrightarrow> dataset_type s = ''regression''"
      by simp
    from f p g have "then_step (then_step (set_use_input_features s) features_and_task_step)
        predict_features_step = Inl MissingFeatureSourceError"
      by (auto simp: set_use_input_features_def features_and_task_step_def
          predict_features_step_def features_source_def)
    with s have "at_lr env a = Inl MissingFeatureSourceError"
      by (simp add: at_lr_def)
    then show ?thesis by (rule at_lr_fails)
  qed
  from A B show ?thesis by blast
qed

theorem C5_use_input_features_witness:
  "modify_train_args example_env
     ((parsed_defaults ''data.csv'' ''kernel'')\<lparr>kernel_func := Some ''features''\<rparr>)
     = Inl MissingFeatureSourceError
   \<and> truthy (case use_input_features (projr (modify_train_args example_env
        ((parsed_defaults ''data.csv'' ''regression'')\<lparr>features_path := Some ''feats.npy''\<rparr>)))
      of Present v \<Rightarrow> v | Absent \<Rightarrow> PyNone)
   \<and> use_input_features (projr (modify_train_args example_env
        ((parsed_defaults ''data.csv'' ''regression'')\<lparr>features_path := Some ''feats.npy''\<rparr>)))
      = Present (PyStr ''feats.npy'')"
proof -
  let ?k = "(parsed_defaults ''data.csv'' ''kernel'')\<lparr>kernel_func := Some ''features''\<rparr>"
  let ?r = "(parsed_defaults ''data.csv'' ''regression'')\<lparr>features_path := Some ''feats.npy''\<rparr>"
  have "\<exists>s. at_features example_env ?k = Inr s" by (simp add: run_defs)
  then obtain s where s: "at_features example_env ?k = Inr s" ..
  have hk: "\<not> predict_features_and_task ?k \<and> kernel_func ?k = Some ''features''
      \<and> features_generator ?k = None \<and> features_path ?k = None"
    by (simp add: parsed_defaults_def)
  from C5_use_input_features [of example_env ?k undefined s] s hk
  have 1: "modify_train_args example_env ?k = Inl MissingFeatureSourceError" by simp
  have "\<exists>c. modify_train_args example_env ?r = Inr c" by (simp add: run_defs)
  then obtain c where c: "modify_train_args example_env ?r = Inr c" ..
  have hr: "\<not> predict_features ?r \<and> \<not> predict_features_and_task ?r \<and> kernel_func ?r = None
      \<and> dataset_type ?r = ''regression'' \<and> features_generator ?r = None
      \<and> features_path ?r = Some ''feats.npy''"
    by (simp add: parsed_defaults_def)
  from C5_use_input_features [of example_env ?r c undefined] c hr
  obtain v where u: "use_input_features c = Present v" and t: "truthy v"
    and e: "v = PyStr ''feats.npy''"
    by auto
  from c u t have 2: "truthy (case use_input_features (projr (modify_train_args example_env ?r))
      of Present v \<Rightarrow> v | Absent \<Rightarrow> PyNone)"
    by simp
  from c u e have 3: "use_input_features (projr (modify_train_args example_env ?r))
      = Present (PyStr ''feats.npy'')"
    by simp
  from 1 2 3 show ?thesis by simp
qed

text \<open>
  Claim C5 as stated fails: with the kernel function \<^verbatim>\<open>features\<close>, a features path and
  no feature-prediction mode, \<^verbatim>\<open>use_input_features\<close> is forced to \<^verbatim>\<open>False\<close>, while the
  same input with the kernel function \<^verbatim>\<open>WL\<close> keeps the path.
\<close>

theorem C5_counterexample:
  "modify_train_args example_env
     ((parsed_defaults ''data.csv'' ''kernel'')
        \<lparr>kernel_func := Some ''features'', features_path := Some ''feats.npy''\<rparr>)
     = Inr (projr (modify_train_args example_env
        ((parsed_defaults ''data.csv'' ''kernel'')
           \<lparr>kernel_func := Some ''features'', features_path := Some ''feats.npy''\<rparr>)))
   \<and> use_input_features (projr (modify_train_args example_env
        ((parsed_defaults ''data.csv'' ''kernel'')
           \<lparr>kernel_func := Some ''features'', features_path := Some ''feats.npy''\<rparr>)))
     = Present (PyBool False)
   \<and> predict_features (projr (modify_train_args example_env
        ((parsed_defaults ''data.csv'' ''kernel'')
           \<lparr>kernel_func := Some ''features'', features_path := Some ''feats.npy''\<rparr>)))
     = False
   \<and> use_input_features (projr (modify_train_args example_env
        ((parsed_defaults ''data.csv'' ''kernel'')
           \<lparr>kernel_func := Some ''WL'', features_path := Some ''feats.npy''\<rparr>)))
     = Present (PyStr ''feats.npy'')"
  by (simp add: run_defs)

subsection \<open>C6: the junction tree vocabulary\<close>

text \<open>
  What lines 365 to 369 do when control reaches them with junction-tree mode on: a
  missing attribute raises \<open>MissingVocabularyError\<close>, a path that does not exist raises
  \<open>MissingVocabularyError\<close> with the path in the message, a path that exists passes, and
  \<^verbatim>\<open>None\<close> (what \<^verbatim>\<open>parse_args\<close> stores when \<^verbatim>\<open>--vocab_path\<close> is not given) makes
  \<^verbatim>\<open>os.path.exists\<close> raise \<^verbatim>\<open>TypeError\<close>.
\<close>

lemma check_jtnn_cases:
  assumes "jtnn s"
  shows "(vocab_path s = Absent \<longrightarrow>
            check_jtnn env s = Inl (MissingVocabularyError ''Must provide vocab_path when using jtnn''))
       \<and> (vocab_path s = Present None \<longrightarrow> check_jtnn env s = Inl PyTypeError)
       \<and> (vocab_path s = Present (Some p) \<and> fs_lookup env p = None \<longrightarrow>
            check_jtnn env s = Inl (MissingVocabularyError (''Vocab path '' @ dq @ p @ dq @ '' does not exist'')))
       \<and> (vocab_path s = Present (Some p) \<and> fs_lookup env p \<noteq> None \<longrightarrow> check_jtnn env s = Inr s)"
  using assms by (simp add: check_jtnn_def path_exists_def)

lemma jtnn_without_vocab_path:
  assumes "at_jtnn env a = Inr s" and "jtnn a" and "vocab_path a = Present None"
  shows "modify_train_args env a = Inl PyTypeError"
proof -
  from at_jtnn_input [OF assms(1)] assms(2,3) have "jtnn s" and "vocab_path s = Present None"
    by simp_all
  then have "check_jtnn env s = Inl PyTypeError"
    by (simp add: check_jtnn_def)
  with assms(1) have "at_features env a = Inl PyTypeError"
    by (simp add: at_features_def)
  then show ?thesis by (rule at_features_fails)
qed

text \<open>
  Claim C6 at the failing input: \<^verbatim>\<open>--jtnn\<close> without \<^verbatim>\<open>--vocab_path\<close>. The namespace
  of \<^verbatim>\<open>parse_args\<close> has \<^verbatim>\<open>vocab_path = None\<close>, \<^verbatim>\<open>hasattr\<close> is true, and resolution
  ends in \<^verbatim>\<open>TypeError\<close>, not in \<open>MissingVocabularyError\<close>.
\<close>

theorem C6_jtnn_without_vocab_path:
  "modify_train_args example_env ((parsed_defaults ''data.csv'' ''regression'')\<lparr>jtnn := True\<rparr>)
     = Inl PyTypeError"
  by (simp add: run_defs)

subsection \<open>C7: the split configuration\<close>

text \<open>
  Claim C7. A successful resolution implies both equivalences of lines 412 and 413:
  the split type is \<^verbatim>\<open>scaffold_overlap\<close> iff an overlap proportion was supplied, and
  the split type is \<^verbatim>\<open>predetermined\<close> iff a folds file was supplied iff a test-fold
  index was supplied. When control reaches line 412, resolution fails with
  \<open>InvalidSplitConfigurationError\<close> exactly when one of the equivalences is violated; in
  particular for \<^verbatim>\<open>predetermined\<close> with a folds file and no test-fold index.
\<close>

theorem C7_split_configuration:
  "(modify_train_args env a = Inr c \<longrightarrow>
      ((split_type a = ''scaffold_overlap'') \<longleftrightarrow> scaffold_overlap a \<noteq> None) \<and>
      ((split_type a = ''predetermined'') \<longleftrightarrow> folds_file a \<noteq> None) \<and>
      (folds_file a \<noteq> None \<longleftrightarrow> test_fold_index a \<noteq> None))
   \<and> (at_split env a = Inr s \<longrightarrow>
        (modify_train_args env a = Inl InvalidSplitConfigurationError \<longleftrightarrow>
           \<not> (((split_type a = ''scaffold_overlap'') \<longleftrightarrow> scaffold_overlap a \<noteq> None) \<and>
              ((split_type a = ''predetermined'') \<longleftrightarrow> folds_file a \<noteq> None) \<and>
              (folds_file a \<noteq> None \<longleftrightarrow> test_fold_index a \<noteq> None))))
   \<and> (at_split env a = Inr s \<and> split_type a = ''predetermined'' \<and> folds_file a \<noteq> None
        \<and> test_fold_index a = None \<longrightarrow>
        modify_train_args env a = Inl InvalidSplitConfigurationError)"
proof -
  have ok: "check_split s = Inr s' \<Longrightarrow>
      ((split_type s = ''scaffold_overlap'') \<longleftrightarrow> scaffold_overlap s \<noteq> None) \<and>
      ((split_type s = ''predetermined'') \<longleftrightarrow> folds_file s \<noteq> None) \<and>
      (folds_file s \<noteq> None \<longleftrightarrow> test_fold_index s \<noteq> None)" for s s'
    by (simp add: check_split_def split: if_splits)
  have bad: "check_split s = Inr s \<or> check_split s = Inl InvalidSplitConfigurationError" for s
    by (simp add: check_split_def)
  have later: "then_step (test_step s) (chunk_step env) \<noteq> Inl InvalidSplitConfigurationError" for s
    by (simp add: test_step_def chunk_step_def Let_def split: list.splits prod.splits)
  have run: "modify_train_args env a = then_step (then_step (check_split s) test_step) (chunk_step env)"
    if "at_split env a = Inr s" for s
    using that by (simp add: modify_train_args_def at_chunk_def)
  have A: "((split_type a = ''scaffold_overlap'') \<longleftrightarrow> scaffold_overlap a \<noteq> None) \<and>
      ((split_type a = ''predetermined'') \<longleftrightarrow> folds_file a \<noteq> None) \<and>
      (folds_file a \<noteq> None \<longleftrightarrow> test_fold_index a \<noteq> None)"
    if c: "modify_train_args env a = Inr c"
  proof -
    from c obtain t where t: "at_chunk env a = Inr t" by (auto simp: modify_train_args_steps)
    then obtain s s' where s: "at_split env a = Inr s" and k: "check_split s = Inr s'"
      by (auto simp: at_chunk_steps)
    from ok [OF k] at_split_input [OF s] show ?thesis by simp
  qed
  have B: "modify_train_args env a = Inl InvalidSplitConfigurationError \<longleftrightarrow>
           \<not> (((split_type a = ''scaffold_overlap'') \<longleftrightarrow> scaffold_overlap a \<noteq> None) \<and>
              ((split_type a = ''predetermined'') \<longleftrightarrow> folds_file a \<noteq> None) \<and>
              (folds_file a \<noteq> None \<longleftrightarrow> test_fold_index a \<noteq> None))"
    if s: "at_split env a = Inr s"
  proof (cases "check_split s")
    case (Inl e)
    with bad [of s] have e: "check_split s = Inl InvalidSplitConfigurationError" by simp
    have "\<not> (((split_type s = ''scaffold_overlap'') \<longleftrightarrow> scaffold_overlap s \<noteq> None) \<and>
              ((split_type s = ''predetermined'') \<longleftrightarrow> folds_file s \<noteq> None) \<and>
              (folds_file s \<noteq> None \<longleftrightarrow> test_fold_index s \<noteq> None))"
      using e by (auto simp: check_split_def split: if_splits)
    with at_split_input [OF s] run [OF s] e show ?thesis by simp
  next
    case (Inr s')
    with bad [of s] have e: "check_split s = Inr s" by simp
    from ok [OF e] at_split_input [OF s] run [OF s] e later [of s] show ?thesis by simp
  qed
  from A B show ?thesis by blast
qed

theorem C7_split_configuration_witness:
  "modify_train_args example_env
     ((parsed_defaults ''data.csv'' ''regression'')
        \<lparr>split_type := ''predetermined'', folds_file := Some ''folds.pkl''\<rparr>)
     = Inl InvalidSplitConfigurationError"
proof -
  let ?a = "(parsed_defaults ''data.csv'' ''regression'')
        \<lparr>split_type := ''predetermined'', folds_file := Some ''folds.pkl''\<rparr>"
  have "\<exists>s. at_split example_env ?a = Inr s"
    by (simp add: run_defs)
  then obtain s where s: "at_split example_env ?a = Inr s" ..
  have h: "split_type ?a = ''predetermined'' \<and> folds_file ?a \<noteq> None \<and> test_fold_index ?a = None"
    by (simp add: parsed_defaults_def)
  from C7_split_configuration [of example_env ?a undefined s] s h
  show ?thesis by blast
qed

subsection \<open>C8: running resolution again\<close>

text \<open>
  Claim C8, as the code has it. Let a resolution succeed on an input whose \<^verbatim>\<open>data_path\<close>
  is not a directory. Resolving, in the same environment, the raw bag equivalent to the
  result (\<open>raw_of_resolved\<close>) succeeds and yields the very same namespace, provided
  the save directory of the result can be opened again. In particular the rate
  sequences are neither broadcast nor scaled a second time. The model has no state
  besides the namespace and the environment, so nothing else can accumulate.
\<close>

theorem C8_rerun_without_chunk_directory:
  "modify_train_args env a = Inr c \<and> \<not> path_isdir env (data_path a)
     \<and> save_dir c = Some d \<and> makedirs_ok env d \<longrightarrow>
   modify_train_args env (raw_of_resolved c) = Inr c"
proof
  assume h: "modify_train_args env a = Inr c \<and> \<not> path_isdir env (data_path a)
     \<and> save_dir c = Some d \<and> makedirs_ok env d"
  then have c: "modify_train_args env a = Inr c" and f: "\<not> path_isdir env (data_path a)"
    and d: "save_dir c = Some d" and ok: "makedirs_ok env d"
    by simp_all
  from c f have "settled env c" by (rule resolved_settled)
  then show "modify_train_args env (raw_of_resolved c) = Inr c"
    using d ok by (rule rerun_settled)
qed

theorem C8_rerun_without_chunk_directory_witness:
  "modify_train_args example_env (raw_of_resolved (projr (modify_train_args example_env
      ((parsed_defaults ''data.csv'' ''unsupervised'')
         \<lparr>lr_scaler := Present [2, 3], checkpoint_dir := Some ''ckpt''\<rparr>))))
     = modify_train_args example_env
         ((parsed_defaults ''data.csv'' ''unsupervised'')
            \<lparr>lr_scaler := Present [2, 3], checkpoint_dir := Some ''ckpt''\<rparr>)
   \<and> init_lr (projr (modify_train_args example_env
      ((parsed_defaults ''data.csv'' ''unsupervised'')
         \<lparr>lr_scaler := Present [2, 3], checkpoint_dir := Some ''ckpt''\<rparr>)))
     = [2 / 10000, 3 / 10000]"
proof -
  let ?a = "(parsed_defaults ''data.csv'' ''unsupervised'')
         \<lparr>lr_scaler := Present [2, 3], checkpoint_dir := Some ''ckpt''\<rparr>"
  have "\<exists>c. modify_train_args example_env ?a = Inr c \<and> save_dir c = Some ''/tmp/tmpdir''
      \<and> init_lr c = [2 / 10000, 3 / 10000]"
    by (simp add: run_defs)
  then obtain c where c: "modify_train_args example_env ?a = Inr c"
    and d: "save_dir c = Some ''/tmp/tmpdir''" and i: "init_lr c = [2 / 10000, 3 / 10000]"
    by blast
  have f: "\<not> path_isdir example_env (data_path ?a)"
    by (simp add: parsed_defaults_def path_isdir_def example_env_def)
  have ok: "makedirs_ok example_env ''/tmp/tmpdir''"
    by (simp add: example_env_def)
  from C8_rerun_without_chunk_directory [of example_env ?a c "''/tmp/tmpdir''"] c d f ok
  have "modify_train_args example_env (raw_of_resolved c) = Inr c" by blast
  with c i show ?thesis by simp
qed

text \<open>
  Claim C8 as stated fails. With \<^verbatim>\<open>data_path\<close> a directory of chunks, resolution
  replaces \<^verbatim>\<open>data_path\<close> by a file of the directory and records the directory in
  \<^verbatim>\<open>prespecified_chunk_dir\<close>; resolving the equivalent raw bag again finds a file and
  sets \<^verbatim>\<open>prespecified_chunk_dir\<close> to \<^verbatim>\<open>None\<close>. (Run on the resolved namespace itself,
  \<^verbatim>\<open>modify_train_args\<close> ends in \<^verbatim>\<open>AttributeError\<close> at line 327, since \<^verbatim>\<open>no_cuda\<close> has
  been deleted.)
\<close>

theorem C8_counterexample:
  "modify_train_args example_env (parsed_defaults ''chunks'' ''regression'')
     = Inr (projr (modify_train_args example_env (parsed_defaults ''chunks'' ''regression'')))
   \<and> prespecified_chunk_dir
       (projr (modify_train_args example_env (parsed_defaults ''chunks'' ''regression'')))
     = Present (Some ''chunks'')
   \<and> modify_train_args example_env (raw_of_resolved
       (projr (modify_train_args example_env (parsed_defaults ''chunks'' ''regression''))))
     = Inr ((projr (modify_train_args example_env (parsed_defaults ''chunks'' ''regression'')))
         \<lparr>prespecified_chunk_dir := Present None\<rparr>)
   \<and> modify_train_args example_env (raw_of_resolved
       (projr (modify_train_args example_env (parsed_defaults ''chunks'' ''regression''))))
     \<noteq> modify_train_args example_env (parsed_defaults ''chunks'' ''regression'')
   \<and> modify_train_args example_env
       (projr (modify_train_args example_env (parsed_defaults ''chunks'' ''regression'')))
     = Inl PyAttributeError"
  by (simp add: run_defs raw_of_resolved_def negated_def)

subsection \<open>C9: two groups for an unsupervised dataset\<close>

text \<open>
  Claim C9, as the code has it. For dataset type \<^verbatim>\<open>unsupervised\<close> lines 385 and 386 set
  the flag whatever the caller supplied, so \<^verbatim>\<open>num_lrs\<close> is 2 and the loop of lines 390
  to 394 leaves each of the six sequences with exactly two entries. The resolved
  namespace holds five of them, each with two entries; the sixth, \<^verbatim>\<open>lr_scaler\<close>, is
  deleted at line 401.
\<close>

theorem C9_unsupervised_two_groups:
  "modify_train_args env a = Inr c \<and> dataset_type a = ''unsupervised'' \<longrightarrow>
     separate_ffn_lr c \<and> num_lrs c = Present 2 \<and>
     (\<exists>s t k. at_lr env a = Inr s \<and> broadcast_lrs s = Inr t \<and>
        lr_scaler t = Present k \<and>
        length (init_lr t) = 2 \<and> length (max_lr t) = 2 \<and> length (final_lr t) = 2 \<and>
        length k = 2 \<and> length (warmup_epochs t) = 2 \<and> length (weight_decay t) = 2) \<and>
     length (init_lr c) = 2 \<and> length (max_lr c) = 2 \<and> length (final_lr c) = 2 \<and>
     length (warmup_epochs c) = 2 \<and> length (weight_decay c) = 2 \<and>
     lr_scaler c = Absent"
proof (intro impI)
  assume h: "modify_train_args env a = Inr c \<and> dataset_type a = ''unsupervised''"
  then have c: "modify_train_args env a = Inr c"
    and two: "True = (separate_ffn_lr a \<or> dataset_type a = ''unsupervised'')"
    by simp_all
  from c two obtain s t sc where s: "at_lr env a = Inr s" and t: "broadcast_lrs s = Inr t"
    and len: "\<forall>xs \<in> set [init_lr a, max_lr a, final_lr a, sc, warmup_epochs a, weight_decay a].
            1 \<le> length xs \<and> length xs \<le> (if True then 2 else 1)"
    and bt: "init_lr t = duplicate_single True (init_lr a)"
      "max_lr t = duplicate_single True (max_lr a)"
      "final_lr t = duplicate_single True (final_lr a)"
      "lr_scaler t = Present (duplicate_single True sc)"
      "warmup_epochs t = duplicate_single True (warmup_epochs a)"
      "weight_decay t = duplicate_single True (weight_decay a)"
    and rc: "separate_ffn_lr c = True" "num_lrs c = Present (1 + (if True then 1 else 0))"
      "init_lr c = map2 (*) (duplicate_single True (init_lr a)) (duplicate_single True sc)"
      "max_lr c = map2 (*) (duplicate_single True (max_lr a)) (duplicate_single True sc)"
      "final_lr c = map2 (*) (duplicate_single True (final_lr a)) (duplicate_single True sc)"
      "warmup_epochs c = duplicate_single True (warmup_epochs a)"
      "weight_decay c = duplicate_single True (weight_decay a)"
      "lr_scaler c = Absent"
    by (rule lr_resolved)
  from len have l: "length (duplicate_single True (init_lr a)) = 2"
    "length (duplicate_single True (max_lr a)) = 2"
    "length (duplicate_single True (final_lr a)) = 2"
    "length (duplicate_single True sc) = 2"
    "length (duplicate_single True (warmup_epochs a)) = 2"
    "length (duplicate_single True (weight_decay a)) = 2"
    by (simp_all add: length_duplicate_single [of _ True, simplified])
  have after: "\<exists>s t k. at_lr env a = Inr s \<and> broadcast_lrs s = Inr t \<and>
        lr_scaler t = Present k \<and>
        length (init_lr t) = 2 \<and> length (max_lr t) = 2 \<and> length (final_lr t) = 2 \<and>
        length k = 2 \<and> length (warmup_epochs t) = 2 \<and> length (weight_decay t) = 2"
    using s t bt l by auto
  from rc l after
  show "separate_ffn_lr c \<and> num_lrs c = Present 2 \<and>
     (\<exists>s t k. at_lr env a = Inr s \<and> broadcast_lrs s = Inr t \<and>
        lr_scaler t = Present k \<and>
        length (init_lr t) = 2 \<and> length (max_lr t) = 2 \<and> length (final_lr t) = 2 \<and>
        length k = 2 \<and> length (warmup_epochs t) = 2 \<and> length (weight_decay t) = 2) \<and>
     length (init_lr c) = 2 \<and> length (max_lr c) = 2 \<and> length (final_lr c) = 2 \<and>
     length (warmup_epochs c) = 2 \<and> length (weight_decay c) = 2 \<and>
     lr_scaler c = Absent"
    by simp
qed

theorem C9_unsupervised_two_groups_witness:
  "separate_ffn_lr (projr (modify_train_args example_env (parsed_defaults ''data.csv'' ''unsupervised'')))
   \<and> num_lrs (projr (modify_train_args example_env (parsed_defaults ''data.csv'' ''unsupervised'')))
       = Present 2
   \<and> length (weight_decay (projr (modify_train_args example_env
        (parsed_defaults ''data.csv'' ''unsupervised'')))) = 2
   \<and> separate_ffn_lr (parsed_defaults ''data.csv'' ''unsupervised'') = False"
proof -
  let ?a = "parsed_defaults ''data.csv'' ''unsupervised''"
  have "\<exists>c. modify_train_args example_env ?a = Inr c" by (simp add: run_defs)
  then obtain c where c: "modify_train_args example_env ?a = Inr c" ..
  have h: "dataset_type ?a = ''unsupervised'' \<and> separate_ffn_lr ?a = False"
    by (simp add: parsed_defaults_def)
  from C9_unsupervised_two_groups [of example_env ?a c] c h
  have "separate_ffn_lr c \<and> num_lrs c = Present 2 \<and> length (weight_decay c) = 2"
    by blast
  with c h show ?thesis by simp
qed

text \<open>
  Claim C9 as stated fails for the sixth sequence: the resolved namespace of an
  unsupervised run has no \<^verbatim>\<open>lr_scaler\<close>, so it does not hold six sequences of two
  entries.
\<close>

theorem C9_counterexample:
  "modify_train_args example_env (parsed_defaults ''data.csv'' ''unsupervised'')
     = Inr (projr (modify_train_args example_env (parsed_defaults ''data.csv'' ''unsupervised'')))
   \<and> dataset_type (parsed_defaults ''data.csv'' ''unsupervised'') = ''unsupervised''
   \<and> lr_scaler (projr (modify_train_args example_env (parsed_defaults ''data.csv'' ''unsupervised'')))
       = Absent"
  by (simp add: run_defs)

subsection \<open>C10: a directory of chunks\<close>

lemma filenames_are_files:
  "n \<in> set (filenames es) \<Longrightarrow> (n, File) \<in> set es"
proof -
  assume "n \<in> set (filenames es)"
  then obtain c where c: "(n, c) \<in> set es" and f: "\<not> is_dir_node c"
    by (auto simp: filenames_def)
  from f have "c = File" by (cases c) simp_all
  with c show ?thesis by simp
qed

text \<open>
  Claim C10. When control reaches line 418 and \<^verbatim>\<open>data_path\<close> names a directory, the
  walk starts at that directory: if it holds no regular file directly, resolution ends
  in \<^verbatim>\<open>IndexError\<close>; otherwise \<^verbatim>\<open>prespecified_chunk_dir\<close> is the directory and
  \<^verbatim>\<open>data_path\<close> becomes the directory joined with the first regular file listed
  directly in it.
\<close>

theorem C10_chunk_directory:
  "at_chunk env a = Inr s \<and> fs_lookup env (data_path a) = Some (Dir es) \<longrightarrow>
     (filenames es = [] \<longrightarrow> modify_train_args env a = Inl PyIndexError) \<and>
     (\<forall>n rest. filenames es = n # rest \<longrightarrow>
        (n, File) \<in> set es \<and>
        modify_train_args env a =
          Inr (s\<lparr>prespecified_chunk_dir := Present (Some (data_path a)),
                 data_path := path_join (data_path a) n\<rparr>))"
proof (intro impI)
  assume h: "at_chunk env a = Inr s \<and> fs_lookup env (data_path a) = Some (Dir es)"
  then have s: "at_chunk env a = Inr s" and d: "fs_lookup env (data_path a) = Some (Dir es)"
    by simp_all
  from at_chunk_input [OF s] have dp: "data_path s = data_path a" by simp
  from s have run: "modify_train_args env a = chunk_step env s"
    by (simp add: modify_train_args_def)
  have walk: "os_walk env (data_path s) = (data_path a, dirnames es, filenames es) # walk_subdirs (data_path a) es"
    using d dp by (simp add: os_walk_def)
  have isdir: "path_isdir env (data_path s)"
    using d dp by (simp add: path_isdir_def)
  have empty: "modify_train_args env a = Inl PyIndexError" if "filenames es = []"
    using that run walk isdir by (simp add: chunk_step_def)
  have first: "(n, File) \<in> set es \<and> modify_train_args env a =
          Inr (s\<lparr>prespecified_chunk_dir := Present (Some (data_path a)),
                 data_path := path_join (data_path a) n\<rparr>)"
    if "filenames es = n # rest" for n rest
  proof -
    from that have "n \<in> set (filenames es)" by simp
    then have "(n, File) \<in> set es" by (rule filenames_are_files)
    moreover from that run walk isdir dp
    have "modify_train_args env a =
          Inr (s\<lparr>prespecified_chunk_dir := Present (Some (data_path a)),
                 data_path := path_join (data_path a) n\<rparr>)"
      by (simp add: chunk_step_def)
    ultimately show ?thesis by simp
  qed
  from empty first show "(filenames es = [] \<longrightarrow> modify_train_args env a = Inl PyIndexError) \<and>
     (\<forall>n rest. filenames es = n # rest \<longrightarrow>
        (n, File) \<in> set es \<and>
        modify_train_args env a =
          Inr (s\<lparr>prespecified_chunk_dir := Present (Some (data_path a)),
                 data_path := path_join (data_path a) n\<rparr>))"
    by blast
qed

theorem C10_chunk_directory_witness:
  "modify_train_args example_env (parsed_defaults ''empty'' ''regression'') = Inl PyIndexError
   \<and> data_path (projr (modify_train_args example_env (parsed_defaults ''chunks'' ''regression'')))
       = ''chunks/a.csv''
   \<and> prespecified_chunk_dir (projr (modify_train_args example_env (parsed_defaults ''chunks'' ''regression'')))
       = Present (Some ''chunks'')"
proof -
  let ?e = "parsed_defaults ''empty'' ''regression''"
  let ?c = "parsed_defaults ''chunks'' ''regression''"
  have "\<exists>s. at_chunk example_env ?e = Inr s" by (simp add: run_defs)
  then obtain s where s: "at_chunk example_env ?e = Inr s" ..
  have de: "fs_lookup example_env (data_path ?e) = Some (Dir [(''sub'', Dir [])])"
    by (simp add: parsed_defaults_def example_env_def)
  have fe: "filenames [(''sub'', Dir [])] = []"
    by (simp add: filenames_def)
  from C10_chunk_directory [of example_env ?e s "[(''sub'', Dir [])]"] s de fe
  have 1: "modify_train_args example_env ?e = Inl PyIndexError" by simp
  have "\<exists>t. at_chunk example_env ?c = Inr t" by (simp add: run_defs)
  then obtain t where t: "at_chunk example_env ?c = Inr t" ..
  have dc: "fs_lookup example_env (data_path ?c)
      = Some (Dir [(''old'', Dir []), (''a.csv'', File), (''b.csv'', File)])"
    by (simp add: parsed_defaults_def example_env_def)
  have fc: "filenames [(''old'', Dir []), (''a.csv'', File), (''b.csv'', File)] = [''a.csv'', ''b.csv'']"
    by (simp add: filenames_def)
  have j: "path_join (data_path ?c) ''a.csv'' = ''chunks/a.csv''"
    by (simp add: parsed_defaults_def path_join_def)
  have p: "data_path ?c = ''chunks''" by (simp add: parsed_defaults_def)
  from C10_chunk_directory [of example_env ?c t "[(''old'', Dir []), (''a.csv'', File), (''b.csv'', File)]"]
    t dc fc
  have "modify_train_args example_env ?c =
          Inr (t\<lparr>prespecified_chunk_dir := Present (Some (data_path ?c)),
                 data_path := path_join (data_path ?c) ''a.csv''\<rparr>)"
    by simp
  with j p have 2: "data_path (projr (modify_train_args example_env ?c)) = ''chunks/a.csv''
     \<and> prespecified_chunk_dir (projr (modify_train_args example_env ?c)) = Present (Some ''chunks'')"
    by simp
  from 1 2 show ?thesis by simp
qed

end
